theory Spec2Isabelle
  imports Complex_Main "HOL-Library.AList"
begin

section \<open>Go library functions on strings\<close>

text \<open>
  Go strings are byte sequences, and so are HOL strings. The functions of package
  \<open>strings\<close> that go_backend.go calls are written out on bytes.
\<close>

definition HasPrefix :: "string \<Rightarrow> string \<Rightarrow> bool" where
  "HasPrefix s p = (take (length p) s = p)"

definition TrimPrefix :: "string \<Rightarrow> string \<Rightarrow> string" where
  "TrimPrefix s p = (if HasPrefix s p then drop (length p) s else s)"

fun Contains :: "string \<Rightarrow> string \<Rightarrow> bool" where
  "Contains [] sub = (sub = [])"
| "Contains (c # cs) sub = (HasPrefix (c # cs) sub \<or> Contains cs sub)"

text \<open>
  \<open>strings.Split s sep\<close> for a non-empty separator \<open>d # ds\<close>: cut at the first
  occurrence, go on after it. The result always has at least one element.
\<close>

fun splitOn :: "char \<Rightarrow> string \<Rightarrow> string \<Rightarrow> string list" where
  "splitOn d ds [] = [[]]"
| "splitOn d ds (c # cs) =
     (if HasPrefix (c # cs) (d # ds) then [] # splitOn d ds (drop (length ds) cs)
      else (case splitOn d ds cs of
              [] \<Rightarrow> [[c]]
            | p # ps \<Rightarrow> (c # p) # ps))"

text \<open>
  With an empty separator \<open>strings.Split\<close> explodes the string into its UTF-8 sequences;
  that decoding is the library's and is passed in as \<open>explode\<close>.
\<close>

definition Split :: "(string \<Rightarrow> string list) \<Rightarrow> string \<Rightarrow> string \<Rightarrow> string list" where
  "Split explode s sep = (case sep of [] \<Rightarrow> explode s | d # ds \<Rightarrow> splitOn d ds s)"

abbreviation SplitDot :: "string \<Rightarrow> string list" where
  "SplitDot s \<equiv> splitOn (CHR ''.'') [] s"

fun Join :: "string list \<Rightarrow> string \<Rightarrow> string" where
  "Join [] sep = []"
| "Join [x] sep = x"
| "Join (x # y # ys) sep = x @ sep @ Join (y # ys) sep"

text \<open>
  \<open>strings.TrimSpace\<close> removes leading and trailing Unicode white space. On bytes these
  are the six ASCII characters and the UTF-8 encodings of U+0085, U+00A0, U+1680,
  U+2000 to U+200A, U+2028, U+2029, U+202F, U+205F and U+3000.
\<close>

definition asciiSpace :: "char \<Rightarrow> bool" where
  "asciiSpace c = (c \<in> {CHR 0x09, CHR 0x0A, CHR 0x0B, CHR 0x0C, CHR 0x0D, CHR 0x20})"

definition space2 :: "char \<Rightarrow> char \<Rightarrow> bool" where
  "space2 a b = (a = CHR 0xC2 \<and> (b = CHR 0x85 \<or> b = CHR 0xA0))"

definition space3 :: "char \<Rightarrow> char \<Rightarrow> char \<Rightarrow> bool" where
  "space3 a b c =
     ((a = CHR 0xE1 \<and> b = CHR 0x9A \<and> c = CHR 0x80)
    \<or> (a = CHR 0xE2 \<and> b = CHR 0x80 \<and>
          (((0x80::nat) \<le> of_char c \<and> of_char c \<le> (0x8A::nat)) \<or> c = CHR 0xA8 \<or> c = CHR 0xA9
           \<or> c = CHR 0xAF))
    \<or> (a = CHR 0xE2 \<and> b = CHR 0x81 \<and> c = CHR 0x9F)
    \<or> (a = CHR 0xE3 \<and> b = CHR 0x80 \<and> c = CHR 0x80))"

fun trimLeft :: "string \<Rightarrow> string" where
  "trimLeft (a # b # c # s) =
     (if asciiSpace a then trimLeft (b # c # s)
      else if space2 a b then trimLeft (c # s)
      else if space3 a b c then trimLeft s
      else a # b # c # s)"
| "trimLeft [a, b] =
     (if asciiSpace a then trimLeft [b] else if space2 a b then [] else [a, b])"
| "trimLeft [a] = (if asciiSpace a then [] else [a])"
| "trimLeft [] = []"

text \<open>The trailing trim reads the string backwards, so the byte order is mirrored.\<close>

fun trimRightRev :: "string \<Rightarrow> string" where
  "trimRightRev (c # b # a # s) =
     (if asciiSpace c then trimRightRev (b # a # s)
      else if space2 b c then trimRightRev (a # s)
      else if space3 a b c then trimRightRev s
      else c # b # a # s)"
| "trimRightRev [c, b] =
     (if asciiSpace c then trimRightRev [b] else if space2 b c then [] else [c, b])"
| "trimRightRev [c] = (if asciiSpace c then [] else [c])"
| "trimRightRev [] = []"

definition TrimSpace :: "string \<Rightarrow> string" where
  "TrimSpace s = rev (trimRightRev (rev (trimLeft s)))"

section \<open>Values\<close>

text \<open>
  The errors that go_backend.go builds with \<open>fmt.Errorf\<close>, one constructor per message.
\<close>

datatype err =
    NoSuchFunction string
  | DivisionByZero
  | SqrtOfNegative
  | FirstArgNotArray
  | ArgNotArray
  | ArrayEmpty
  | IndexOutOfRange
  | ModuleNotFound string
  | ModuleReadError string
  | ModuleParseError
  | ImportFailed err
  | ModuleFunctionNotFound string string
  | FunctionUndefined string
  | MissingActions string
  | MissingFunctionField

text \<open>
  A value of type \<open>interface{}\<close>. \<open>VNum\<close> is a float64, written as the real number it
  denotes (rounding, infinities and NaN are not represented); \<open>VInt\<close> is a Go int.
  \<open>VSlice a n c\<close> is a slice header of type \<open>[]interface{}\<close>: backing array \<open>a\<close>, length
  \<open>n\<close>, capacity \<open>c\<close>. Slices are references, so two headers with the same \<open>a\<close> share
  their elements. \<open>VMap\<close> is a \<open>map[string]interface{}\<close> with distinct keys.
\<close>

datatype val =
    VNil
  | VBool bool
  | VNum real
  | VInt int
  | VStr string
  | VErr err
  | VSlice nat nat nat
  | VMap "(string \<times> val) list"

type_synonym heap = "val list list"

definition cell :: "heap \<Rightarrow> nat \<Rightarrow> val list" where
  "cell h a = (if a < length h then h ! a else [])"

definition elemAt :: "heap \<Rightarrow> nat \<Rightarrow> nat \<Rightarrow> val" where
  "elemAt h a i = (if i < length (cell h a) then cell h a ! i else VNil)"

fun sliceElems :: "heap \<Rightarrow> val \<Rightarrow> val list" where
  "sliceElems h (VSlice a n c) = take n (cell h a)"
| "sliceElems h v = []"

definition alloc :: "heap \<Rightarrow> val list \<Rightarrow> nat \<times> heap" where
  "alloc h vs = (length h, h @ [vs])"

text \<open>The literal \<open>[]interface{}{}\<close>: no element, no capacity, nothing to share.\<close>

definition emptySlice :: val where
  "emptySlice = VSlice 0 0 0"

section \<open>The library and the world outside the program\<close>

text \<open>
  What go_backend.go takes from Go's standard library and from the operating system is
  a parameter of the model: number parsing and formatting, \<open>fmt\<close>, \<open>math\<close>, the JSON
  decoder, the file system, the console input, the clock and the random source. \<open>'x\<close>
  is the state of the outside world. \<open>int_out_of_range\<close> is the result of converting
  a float64 that no int holds, which Go leaves to the implementation; \<open>append_cap\<close> is
  the capacity \<open>append\<close> picks for a grown slice; \<open>range_imports\<close> is the order in
  which a \<open>range\<close> loop enumerates the imports map.
\<close>

record 'x lib =
  strconv_ParseFloat :: "string \<Rightarrow> real option"
  strconv_FormatFloat :: "real \<Rightarrow> string"
  strconv_Itoa :: "int \<Rightarrow> string"
  fmt_Sprint_v :: "heap \<Rightarrow> val \<Rightarrow> string"
  fmt_Sprint :: "heap \<Rightarrow> val list \<Rightarrow> string"
  fmt_Sprintln :: "heap \<Rightarrow> val list \<Rightarrow> string"
  fmt_Sprintf :: "heap \<Rightarrow> string \<Rightarrow> val list \<Rightarrow> string"
  math_Pow :: "real \<Rightarrow> real \<Rightarrow> real"
  math_Sqrt :: "real \<Rightarrow> real"
  strings_ToUpper :: "string \<Rightarrow> string"
  strings_ToLower :: "string \<Rightarrow> string"
  strings_explode :: "string \<Rightarrow> string list"
  int_out_of_range :: "real \<Rightarrow> int"
  append_cap :: "nat \<Rightarrow> nat"
  json_Unmarshal :: "string \<Rightarrow> heap \<Rightarrow> (val \<times> heap) option"
  os_Stat :: "'x \<Rightarrow> string \<Rightarrow> bool"
  ioutil_ReadFile :: "'x \<Rightarrow> string \<Rightarrow> string option"
  read_error_text :: "'x \<Rightarrow> string \<Rightarrow> string"
  ioutil_WriteFile :: "'x \<Rightarrow> string \<Rightarrow> string \<Rightarrow> bool \<times> 'x"
  stdin_ReadLine :: "'x \<Rightarrow> string \<times> 'x"
  time_Sleep :: "real \<Rightarrow> 'x \<Rightarrow> 'x"
  time_Unix :: "'x \<Rightarrow> int"
  rand_Float64 :: "'x \<Rightarrow> real \<times> 'x"
  rand_Intn :: "int \<Rightarrow> 'x \<Rightarrow> int \<times> 'x"
  range_imports :: "'x \<Rightarrow> (string \<times> string) list \<Rightarrow> (string \<times> string) list"

text \<open>What the program writes to the console: its own warnings, and printed text.\<close>

datatype event =
    Printed string
  | WarnStdlibMissing
  | WarnStdlibParse
  | WarnNoImplementation string string
  | WarnNoModifier string

text \<open>
  The mutable state: the backing arrays of all slices, the console output, the log of
  the files read with \<open>ioutil.ReadFile\<close>, and the outside world.
\<close>

record 'x world =
  heap :: heap
  out :: "event list"
  reads :: "string list"
  ext :: 'x

text \<open>
  A call returns a value, or leaves by a Go run-time panic, or ends the process
  (\<open>os.Exit\<close>).
\<close>

datatype outcome = Ret val | Panic | Exit int

section \<open>Value coercion\<close>

definition toString :: "'x lib \<Rightarrow> heap \<Rightarrow> val \<Rightarrow> string" where
  "toString L h value =
     (case value of
        VStr v \<Rightarrow> v
      | VNum v \<Rightarrow> strconv_FormatFloat L v
      | VInt v \<Rightarrow> strconv_Itoa L v
      | VBool v \<Rightarrow> (if v then ''true'' else ''false'')
      | VSlice a n c \<Rightarrow> fmt_Sprint_v L h value
      | _ \<Rightarrow> fmt_Sprint_v L h value)"

definition toNumber :: "'x lib \<Rightarrow> val \<Rightarrow> real" where
  "toNumber L value =
     (case value of
        VNum v \<Rightarrow> v
      | VInt v \<Rightarrow> of_int v
      | VStr v \<Rightarrow> (case strconv_ParseFloat L v of Some f \<Rightarrow> f | None \<Rightarrow> 0)
      | VBool v \<Rightarrow> (if v then 1 else 0)
      | _ \<Rightarrow> 0)"

definition toBoolean :: "val \<Rightarrow> bool" where
  "toBoolean value =
     (case value of
        VBool v \<Rightarrow> v
      | VStr v \<Rightarrow> v = ''true'' \<or> v = ''1'' \<or> v = ''yes'' \<or> v = ''on''
      | VNum v \<Rightarrow> v \<noteq> 0
      | VInt v \<Rightarrow> v \<noteq> 0
      | _ \<Rightarrow> value \<noteq> VNil)"

text \<open>
  The conversion \<open>int(f)\<close> discards the fraction; int is taken to be 64 bits wide, and
  the result for a number outside its range is the implementation's. \<open>wrap64\<close> is
  the wrap-around of 64-bit int arithmetic.
\<close>

definition truncToZero :: "real \<Rightarrow> int" where
  "truncToZero x = (if 0 \<le> x then \<lfloor>x\<rfloor> else \<lceil>x\<rceil>)"

definition toInt :: "'x lib \<Rightarrow> real \<Rightarrow> int" where
  "toInt L x =
     (if - (2 ^ 63) \<le> truncToZero x \<and> truncToZero x < 2 ^ 63 then truncToZero x
      else int_out_of_range L x)"

definition wrap64 :: "int \<Rightarrow> int" where
  "wrap64 i = (i + 2 ^ 63) mod 2 ^ 64 - 2 ^ 63"

definition math_Round :: "real \<Rightarrow> real" where
  "math_Round x = (if 0 \<le> x then of_int \<lfloor>x + 1 / 2\<rfloor> else of_int \<lceil>x - 1 / 2\<rceil>)"

section \<open>The native operations of GoBackend\<close>

text \<open>
  Each method \<open>gb.f\<close> of go_backend.go is \<open>gb_f\<close> here, on the list of its arguments.
  The arithmetic of float64 is written with the arithmetic of the reals.
\<close>

definition emit :: "event \<Rightarrow> 'x world \<Rightarrow> 'x world" where
  "emit e w = w\<lparr>out := out w @ [e]\<rparr>"

definition gb_println :: "'x lib \<Rightarrow> val list \<Rightarrow> 'x world \<Rightarrow> outcome \<times> 'x world" where
  "gb_println L args w = (Ret VNil, emit (Printed (fmt_Sprintln L (heap w) args)) w)"

definition gb_print :: "'x lib \<Rightarrow> val list \<Rightarrow> 'x world \<Rightarrow> outcome \<times> 'x world" where
  "gb_print L args w = (Ret VNil, emit (Printed (fmt_Sprint L (heap w) args)) w)"

definition convertArg :: "'x lib \<Rightarrow> val \<Rightarrow> val" where
  "convertArg L arg =
     (case arg of
        VNum v \<Rightarrow> (if v = of_int (toInt L v) then VInt (toInt L v) else VNum v)
      | _ \<Rightarrow> arg)"

definition gb_printf :: "'x lib \<Rightarrow> val list \<Rightarrow> 'x world \<Rightarrow> outcome \<times> 'x world" where
  "gb_printf L args w =
     (if length args = 0 then (Ret VNil, w)
      else let format = toString L (heap w) (args ! 0) in
        if length args = 1 then (Ret VNil, emit (Printed format) w)
        else (Ret VNil,
              emit (Printed (fmt_Sprintf L (heap w) format (map (convertArg L) (tl args)))) w))"

definition gb_input :: "'x lib \<Rightarrow> val list \<Rightarrow> 'x world \<Rightarrow> outcome \<times> 'x world" where
  "gb_input L args w =
     (let w1 = (if length args > 0 then emit (Printed (fmt_Sprint L (heap w) [args ! 0])) w
                else w);
          (line, x) = stdin_ReadLine L (ext w1)
      in (Ret (VStr (TrimSpace line)), w1\<lparr>ext := x\<rparr>))"

definition gb_readFile :: "'x lib \<Rightarrow> val list \<Rightarrow> 'x world \<Rightarrow> outcome \<times> 'x world" where
  "gb_readFile L args w =
     (if length args = 0 then (Ret (VStr []), w)
      else let filename = toString L (heap w) (args ! 0);
               w1 = w\<lparr>reads := reads w @ [filename]\<rparr>
           in (case ioutil_ReadFile L (ext w) filename of
                 None \<Rightarrow> (Ret (VStr (read_error_text L (ext w) filename)), w1)
               | Some content \<Rightarrow> (Ret (VStr content), w1)))"

definition gb_writeFile :: "'x lib \<Rightarrow> val list \<Rightarrow> 'x world \<Rightarrow> outcome \<times> 'x world" where
  "gb_writeFile L args w =
     (if length args < 2 then (Ret (VBool False), w)
      else let filename = toString L (heap w) (args ! 0);
               content = toString L (heap w) (args ! 1);
               (ok, x) = ioutil_WriteFile L (ext w) filename content
           in (Ret (VBool ok), w\<lparr>ext := x\<rparr>))"

definition gb_add :: "'x lib \<Rightarrow> val list \<Rightarrow> val" where
  "gb_add L args =
     (if length args < 2 then VNum 0
      else let a = toNumber L (args ! 0); b = toNumber L (args ! 1) in VNum (a + b))"

definition gb_subtract :: "'x lib \<Rightarrow> val list \<Rightarrow> val" where
  "gb_subtract L args =
     (if length args < 2 then VNum 0
      else let a = toNumber L (args ! 0); b = toNumber L (args ! 1) in VNum (a - b))"

definition gb_multiply :: "'x lib \<Rightarrow> val list \<Rightarrow> val" where
  "gb_multiply L args =
     (if length args < 2 then VNum 0
      else let a = toNumber L (args ! 0); b = toNumber L (args ! 1) in VNum (a * b))"

definition gb_divide :: "'x lib \<Rightarrow> val list \<Rightarrow> val" where
  "gb_divide L args =
     (if length args < 2 then VNum 0
      else let a = toNumber L (args ! 0); b = toNumber L (args ! 1) in
        if b = 0 then VErr DivisionByZero else VNum (a / b))"

definition gb_power :: "'x lib \<Rightarrow> val list \<Rightarrow> val" where
  "gb_power L args =
     (if length args < 2 then VNum 0
      else let base = toNumber L (args ! 0); expo = toNumber L (args ! 1) in
        VNum (math_Pow L base expo))"

definition gb_sqrt :: "'x lib \<Rightarrow> val list \<Rightarrow> val" where
  "gb_sqrt L args =
     (if length args = 0 then VNum 0
      else let x = toNumber L (args ! 0) in
        if x < 0 then VErr SqrtOfNegative else VNum (math_Sqrt L x))"

definition gb_abs :: "'x lib \<Rightarrow> val list \<Rightarrow> val" where
  "gb_abs L args = (if length args = 0 then VNum 0 else VNum \<bar>toNumber L (args ! 0)\<bar>)"

definition gb_floor :: "'x lib \<Rightarrow> val list \<Rightarrow> val" where
  "gb_floor L args =
     (if length args = 0 then VNum 0 else VNum (of_int \<lfloor>toNumber L (args ! 0)\<rfloor>))"

definition gb_ceil :: "'x lib \<Rightarrow> val list \<Rightarrow> val" where
  "gb_ceil L args =
     (if length args = 0 then VNum 0 else VNum (of_int \<lceil>toNumber L (args ! 0)\<rceil>))"

definition gb_round :: "'x lib \<Rightarrow> val list \<Rightarrow> val" where
  "gb_round L args =
     (if length args = 0 then VNum 0 else VNum (math_Round (toNumber L (args ! 0))))"

definition gb_concat :: "'x lib \<Rightarrow> heap \<Rightarrow> val list \<Rightarrow> val" where
  "gb_concat L h args = VStr (concat (map (toString L h) args))"

definition gb_length :: "'x lib \<Rightarrow> heap \<Rightarrow> val list \<Rightarrow> val" where
  "gb_length L h args =
     (if length args = 0 then VInt 0 else VInt (int (length (toString L h (args ! 0)))))"

text \<open>The slice expression \<open>s[start:stop]\<close> panics when \<open>stop < start\<close>.\<close>

definition gb_substring :: "'x lib \<Rightarrow> heap \<Rightarrow> val list \<Rightarrow> outcome" where
  "gb_substring L h args =
     (if length args < 2 then Ret (VStr [])
      else let s = toString L h (args ! 0);
               start0 = toInt L (toNumber L (args ! 1));
               start = (if start0 < 0 then 0 else start0)
           in if start \<ge> int (length s) then Ret (VStr [])
              else if length args > 2 then
                let end0 = toInt L (toNumber L (args ! 2));
                    stop = (if end0 > int (length s) then int (length s) else end0)
                in if stop < start then Panic
                   else Ret (VStr (take (nat stop - nat start) (drop (nat start) s)))
              else Ret (VStr (drop (nat start) s)))"

definition gb_toUpper :: "'x lib \<Rightarrow> heap \<Rightarrow> val list \<Rightarrow> val" where
  "gb_toUpper L h args =
     (if length args = 0 then VStr [] else VStr (strings_ToUpper L (toString L h (args ! 0))))"

definition gb_toLower :: "'x lib \<Rightarrow> heap \<Rightarrow> val list \<Rightarrow> val" where
  "gb_toLower L h args =
     (if length args = 0 then VStr [] else VStr (strings_ToLower L (toString L h (args ! 0))))"

definition gb_trim :: "'x lib \<Rightarrow> heap \<Rightarrow> val list \<Rightarrow> val" where
  "gb_trim L h args =
     (if length args = 0 then VStr [] else VStr (TrimSpace (toString L h (args ! 0))))"

definition gb_split :: "'x lib \<Rightarrow> val list \<Rightarrow> heap \<Rightarrow> val \<times> heap" where
  "gb_split L args h =
     (if length args = 0 then (emptySlice, h)
      else let s = toString L h (args ! 0);
               delimiter = (if length args > 1 then toString L h (args ! 1) else '' '');
               parts = Split (strings_explode L) s delimiter;
               (result, h1) = alloc h (map VStr parts)
           in (VSlice result (length parts) (length parts), h1))"

definition gb_join :: "'x lib \<Rightarrow> heap \<Rightarrow> val list \<Rightarrow> val" where
  "gb_join L h args =
     (if length args < 2 then VStr []
      else (case args ! 0 of
              VSlice a n c \<Rightarrow>
                let delimiter = toString L h (args ! 1) in
                VStr (Join (map (toString L h) (take n (cell h a))) delimiter)
            | _ \<Rightarrow> VErr FirstArgNotArray))"

text \<open>
  The array operations. \<open>append\<close> writes into the backing array when the capacity
  allows it and moves to a fresh array otherwise; \<open>arraySet\<close> writes into the
  argument's backing array; \<open>arraySort\<close> makes a new array and copies the argument's
  elements into it, which is all it does.
\<close>

definition append1 :: "'x lib \<Rightarrow> heap \<Rightarrow> nat \<Rightarrow> nat \<Rightarrow> nat \<Rightarrow> val \<Rightarrow> val \<times> heap" where
  "append1 L h a n c x =
     (if n < c then (VSlice a (n + 1) c, h[a := (cell h a)[n := x]])
      else let c1 = max (n + 1) (append_cap L c);
               (b, h1) = alloc h (take n (cell h a) @ [x] @ replicate (c1 - (n + 1)) VNil)
           in (VSlice b (n + 1) c1, h1))"

definition copySlice :: "heap \<Rightarrow> nat \<Rightarrow> nat \<Rightarrow> nat \<Rightarrow> nat \<Rightarrow> heap" where
  "copySlice h dst dn src sn =
     (let k = min dn sn in h[dst := take k (cell h src) @ drop k (cell h dst)])"

definition gb_arrayPush :: "'x lib \<Rightarrow> val list \<Rightarrow> heap \<Rightarrow> val \<times> heap" where
  "gb_arrayPush L args h =
     (if length args < 2 then (emptySlice, h)
      else (case args ! 0 of
              VSlice a n c \<Rightarrow> append1 L h a n c (args ! 1)
            | _ \<Rightarrow> (VErr FirstArgNotArray, h)))"

definition gb_arrayPop :: "heap \<Rightarrow> val list \<Rightarrow> val" where
  "gb_arrayPop h args =
     (if length args = 0 then VNil
      else (case args ! 0 of
              VSlice a n c \<Rightarrow> (if n = 0 then VErr ArrayEmpty else elemAt h a (n - 1))
            | _ \<Rightarrow> VErr ArgNotArray))"

definition gb_arrayGet :: "'x lib \<Rightarrow> heap \<Rightarrow> val list \<Rightarrow> val" where
  "gb_arrayGet L h args =
     (if length args < 2 then VNil
      else (case args ! 0 of
              VSlice a n c \<Rightarrow>
                let index = toInt L (toNumber L (args ! 1)) in
                if index < 0 \<or> index \<ge> int n then VErr IndexOutOfRange
                else elemAt h a (nat index)
            | _ \<Rightarrow> VErr FirstArgNotArray))"

definition gb_arraySet :: "'x lib \<Rightarrow> val list \<Rightarrow> heap \<Rightarrow> val \<times> heap" where
  "gb_arraySet L args h =
     (if length args < 3 then (VNil, h)
      else (case args ! 0 of
              VSlice a n c \<Rightarrow>
                let index = toInt L (toNumber L (args ! 1)) in
                if index < 0 \<or> index \<ge> int n then (VErr IndexOutOfRange, h)
                else (VSlice a n c, h[a := (cell h a)[nat index := args ! 2]])
            | _ \<Rightarrow> (VErr FirstArgNotArray, h)))"

definition gb_arrayLength :: "val list \<Rightarrow> val" where
  "gb_arrayLength args =
     (if length args = 0 then VInt 0
      else (case args ! 0 of
              VSlice a n c \<Rightarrow> VInt (int n)
            | _ \<Rightarrow> VErr ArgNotArray))"

definition gb_arraySort :: "val list \<Rightarrow> heap \<Rightarrow> val \<times> heap" where
  "gb_arraySort args h =
     (if length args = 0 then (emptySlice, h)
      else (case args ! 0 of
              VSlice a n c \<Rightarrow>
                let (sorted, h1) = alloc h (replicate n VNil);
                    h2 = copySlice h1 sorted n a n
                in (VSlice sorted n n, h2)
            | _ \<Rightarrow> (VErr FirstArgNotArray, h)))"

definition gb_arrayReverse :: "val list \<Rightarrow> heap \<Rightarrow> val \<times> heap" where
  "gb_arrayReverse args h =
     (if length args = 0 then (emptySlice, h)
      else (case args ! 0 of
              VSlice a n c \<Rightarrow>
                let (reversed, h1) = alloc h (map (\<lambda>i. elemAt h a (n - 1 - i)) [0..<n])
                in (VSlice reversed n n, h1)
            | _ \<Rightarrow> (VErr ArgNotArray, h)))"

definition gb_sleep :: "'x lib \<Rightarrow> val list \<Rightarrow> 'x world \<Rightarrow> outcome \<times> 'x world" where
  "gb_sleep L args w =
     (if length args = 0 then (Ret VNil, w)
      else let seconds = toNumber L (args ! 0) in
        (Ret VNil, w\<lparr>ext := time_Sleep L seconds (ext w)\<rparr>))"

definition gb_random :: "'x lib \<Rightarrow> val list \<Rightarrow> 'x world \<Rightarrow> outcome \<times> 'x world" where
  "gb_random L args w = (let (r, x) = rand_Float64 L (ext w) in (Ret (VNum r), w\<lparr>ext := x\<rparr>))"

text \<open>\<open>rand.Intn n\<close> panics unless \<open>0 < n\<close>.\<close>

definition gb_randomInt :: "'x lib \<Rightarrow> val list \<Rightarrow> 'x world \<Rightarrow> outcome \<times> 'x world" where
  "gb_randomInt L args w =
     (if length args < 2 then (Ret (VInt 0), w)
      else let lo = toInt L (toNumber L (args ! 0));
               hi = toInt L (toNumber L (args ! 1));
               n = wrap64 (wrap64 (hi - lo) + 1)
           in if n \<le> 0 then (Panic, w)
              else let (r, x) = rand_Intn L n (ext w) in
                (Ret (VInt (wrap64 (r + lo))), w\<lparr>ext := x\<rparr>))"

definition gb_timeNow :: "'x lib \<Rightarrow> val list \<Rightarrow> 'x world \<Rightarrow> outcome \<times> 'x world" where
  "gb_timeNow L args w = (Ret (VNum (of_int (time_Unix L (ext w)))), w)"

definition gb_exit :: "'x lib \<Rightarrow> val list \<Rightarrow> 'x world \<Rightarrow> outcome \<times> 'x world" where
  "gb_exit L args w =
     (let code = (if length args > 0 then toInt L (toNumber L (args ! 0)) else 0)
      in (Exit code, w))"

definition gb_toString :: "'x lib \<Rightarrow> heap \<Rightarrow> val list \<Rightarrow> val" where
  "gb_toString L h args = (if length args = 0 then VStr [] else VStr (toString L h (args ! 0)))"

definition gb_toNumber :: "'x lib \<Rightarrow> val list \<Rightarrow> val" where
  "gb_toNumber L args = (if length args = 0 then VNum 0 else VNum (toNumber L (args ! 0)))"

definition gb_toBoolean :: "val list \<Rightarrow> val" where
  "gb_toBoolean args = (if length args = 0 then VBool False else VBool (toBoolean (args ! 0)))"

definition gb_isEmpty :: "val list \<Rightarrow> val" where
  "gb_isEmpty args =
     (if length args = 0 then VBool True
      else (case args ! 0 of
              VStr str \<Rightarrow> VBool (length (TrimSpace str) = 0)
            | VSlice a n c \<Rightarrow> VBool (n = 0)
            | v \<Rightarrow> VBool (v = VNil)))"

definition gb_isNumber :: "'x lib \<Rightarrow> heap \<Rightarrow> val list \<Rightarrow> val" where
  "gb_isNumber L h args =
     (if length args = 0 then VBool False
      else VBool (strconv_ParseFloat L (toString L h (args ! 0)) \<noteq> None))"

definition gb_isString :: "val list \<Rightarrow> val" where
  "gb_isString args =
     (if length args = 0 then VBool False
      else (case args ! 0 of VStr v \<Rightarrow> VBool True | _ \<Rightarrow> VBool False))"

definition gb_isArray :: "val list \<Rightarrow> val" where
  "gb_isArray args =
     (if length args = 0 then VBool False
      else (case args ! 0 of VSlice a n c \<Rightarrow> VBool True | _ \<Rightarrow> VBool False))"

definition gb_isBoolean :: "val list \<Rightarrow> val" where
  "gb_isBoolean args =
     (if length args = 0 then VBool False
      else (case args ! 0 of VBool v \<Rightarrow> VBool True | _ \<Rightarrow> VBool False))"

section \<open>The registry of GoBackend\<close>

text \<open>
  The registry maps an operation name to one of the methods above; \<open>F_add\<close> stands for
  the function value \<open>gb.add\<close>.
\<close>

datatype impl =
    F_println
  | F_print
  | F_printf
  | F_input
  | F_readFile
  | F_writeFile
  | F_add
  | F_subtract
  | F_multiply
  | F_divide
  | F_power
  | F_sqrt
  | F_abs
  | F_floor
  | F_ceil
  | F_round
  | F_concat
  | F_length
  | F_substring
  | F_toUpper
  | F_toLower
  | F_trim
  | F_split
  | F_join
  | F_arrayCreate
  | F_arrayPush
  | F_arrayPop
  | F_arrayGet
  | F_arraySet
  | F_arrayLength
  | F_arraySort
  | F_arrayReverse
  | F_sleep
  | F_random
  | F_randomInt
  | F_timeNow
  | F_exit
  | F_toString
  | F_toNumber
  | F_toBoolean
  | F_isEmpty
  | F_isNumber
  | F_isString
  | F_isArray
  | F_isBoolean

text \<open>
  A method receives its arguments as one slice; \<open>arrayCreate\<close> returns that very slice,
  the others read its elements.
\<close>

definition invoke :: "'x lib \<Rightarrow> impl \<Rightarrow> val \<Rightarrow> 'x world \<Rightarrow> outcome \<times> 'x world" where
  "invoke L f args w =
     (case f of
        F_println \<Rightarrow> gb_println L (sliceElems (heap w) args) w
      | F_print \<Rightarrow> gb_print L (sliceElems (heap w) args) w
      | F_printf \<Rightarrow> gb_printf L (sliceElems (heap w) args) w
      | F_input \<Rightarrow> gb_input L (sliceElems (heap w) args) w
      | F_readFile \<Rightarrow> gb_readFile L (sliceElems (heap w) args) w
      | F_writeFile \<Rightarrow> gb_writeFile L (sliceElems (heap w) args) w
      | F_add \<Rightarrow> (Ret (gb_add L (sliceElems (heap w) args)), w)
      | F_subtract \<Rightarrow> (Ret (gb_subtract L (sliceElems (heap w) args)), w)
      | F_multiply \<Rightarrow> (Ret (gb_multiply L (sliceElems (heap w) args)), w)
      | F_divide \<Rightarrow> (Ret (gb_divide L (sliceElems (heap w) args)), w)
      | F_power \<Rightarrow> (Ret (gb_power L (sliceElems (heap w) args)), w)
      | F_sqrt \<Rightarrow> (Ret (gb_sqrt L (sliceElems (heap w) args)), w)
      | F_abs \<Rightarrow> (Ret (gb_abs L (sliceElems (heap w) args)), w)
      | F_floor \<Rightarrow> (Ret (gb_floor L (sliceElems (heap w) args)), w)
      | F_ceil \<Rightarrow> (Ret (gb_ceil L (sliceElems (heap w) args)), w)
      | F_round \<Rightarrow> (Ret (gb_round L (sliceElems (heap w) args)), w)
      | F_concat \<Rightarrow> (Ret (gb_concat L (heap w) (sliceElems (heap w) args)), w)
      | F_length \<Rightarrow> (Ret (gb_length L (heap w) (sliceElems (heap w) args)), w)
      | F_substring \<Rightarrow> (gb_substring L (heap w) (sliceElems (heap w) args), w)
      | F_toUpper \<Rightarrow> (Ret (gb_toUpper L (heap w) (sliceElems (heap w) args)), w)
      | F_toLower \<Rightarrow> (Ret (gb_toLower L (heap w) (sliceElems (heap w) args)), w)
      | F_trim \<Rightarrow> (Ret (gb_trim L (heap w) (sliceElems (heap w) args)), w)
      | F_split \<Rightarrow>
          (let (v, h) = gb_split L (sliceElems (heap w) args) (heap w)
           in (Ret v, w\<lparr>heap := h\<rparr>))
      | F_join \<Rightarrow> (Ret (gb_join L (heap w) (sliceElems (heap w) args)), w)
      | F_arrayCreate \<Rightarrow> (Ret args, w)
      | F_arrayPush \<Rightarrow>
          (let (v, h) = gb_arrayPush L (sliceElems (heap w) args) (heap w)
           in (Ret v, w\<lparr>heap := h\<rparr>))
      | F_arrayPop \<Rightarrow> (Ret (gb_arrayPop (heap w) (sliceElems (heap w) args)), w)
      | F_arrayGet \<Rightarrow> (Ret (gb_arrayGet L (heap w) (sliceElems (heap w) args)), w)
      | F_arraySet \<Rightarrow>
          (let (v, h) = gb_arraySet L (sliceElems (heap w) args) (heap w)
           in (Ret v, w\<lparr>heap := h\<rparr>))
      | F_arrayLength \<Rightarrow> (Ret (gb_arrayLength (sliceElems (heap w) args)), w)
      | F_arraySort \<Rightarrow>
          (let (v, h) = gb_arraySort (sliceElems (heap w) args) (heap w)
           in (Ret v, w\<lparr>heap := h\<rparr>))
      | F_arrayReverse \<Rightarrow>
          (let (v, h) = gb_arrayReverse (sliceElems (heap w) args) (heap w)
           in (Ret v, w\<lparr>heap := h\<rparr>))
      | F_sleep \<Rightarrow> gb_sleep L (sliceElems (heap w) args) w
      | F_random \<Rightarrow> gb_random L (sliceElems (heap w) args) w
      | F_randomInt \<Rightarrow> gb_randomInt L (sliceElems (heap w) args) w
      | F_timeNow \<Rightarrow> gb_timeNow L (sliceElems (heap w) args) w
      | F_exit \<Rightarrow> gb_exit L (sliceElems (heap w) args) w
      | F_toString \<Rightarrow> (Ret (gb_toString L (heap w) (sliceElems (heap w) args)), w)
      | F_toNumber \<Rightarrow> (Ret (gb_toNumber L (sliceElems (heap w) args)), w)
      | F_toBoolean \<Rightarrow> (Ret (gb_toBoolean (sliceElems (heap w) args)), w)
      | F_isEmpty \<Rightarrow> (Ret (gb_isEmpty (sliceElems (heap w) args)), w)
      | F_isNumber \<Rightarrow> (Ret (gb_isNumber L (heap w) (sliceElems (heap w) args)), w)
      | F_isString \<Rightarrow> (Ret (gb_isString (sliceElems (heap w) args)), w)
      | F_isArray \<Rightarrow> (Ret (gb_isArray (sliceElems (heap w) args)), w)
      | F_isBoolean \<Rightarrow> (Ret (gb_isBoolean (sliceElems (heap w) args)), w))"

text \<open>
  The fields of the struct carry the prefix \<open>gb_\<close>. \<open>gb_stdlibData\<close> is \<open>None\<close> for the
  nil map. \<open>NewGoBackend\<close> starts from an empty,
  non-nil map.
\<close>

record GoBackend =
  gb_name :: string
  gb_version :: string
  gb_functions :: "(string \<times> impl) list"
  gb_stdlibData :: "(string \<times> val) list option"

definition registerDefaultFunctions :: "GoBackend \<Rightarrow> GoBackend" where
  "registerDefaultFunctions gb =
     gb\<lparr>gb_functions := fold (\<lambda>(k, f). AList.update k f)
       [(''println'', F_println), (''print'', F_print), (''printf'', F_printf),
        (''input'', F_input), (''read_file'', F_readFile), (''write_file'', F_writeFile),
        (''add'', F_add), (''subtract'', F_subtract), (''multiply'', F_multiply),
        (''divide'', F_divide), (''power'', F_power), (''sqrt'', F_sqrt), (''abs'', F_abs),
        (''floor'', F_floor), (''ceil'', F_ceil), (''round'', F_round),
        (''concat'', F_concat), (''length'', F_length), (''substring'', F_substring),
        (''to_upper'', F_toUpper), (''to_lower'', F_toLower), (''trim'', F_trim),
        (''split'', F_split), (''join'', F_join),
        (''array_create'', F_arrayCreate), (''array_push'', F_arrayPush),
        (''array_pop'', F_arrayPop), (''array_get'', F_arrayGet),
        (''array_set'', F_arraySet), (''array_length'', F_arrayLength),
        (''array_sort'', F_arraySort), (''array_reverse'', F_arrayReverse),
        (''sleep'', F_sleep), (''random'', F_random), (''random_int'', F_randomInt),
        (''time_now'', F_timeNow), (''exit'', F_exit),
        (''to_string'', F_toString), (''to_number'', F_toNumber),
        (''to_boolean'', F_toBoolean),
        (''is_empty'', F_isEmpty), (''is_number'', F_isNumber), (''is_string'', F_isString),
        (''is_array'', F_isArray), (''is_boolean'', F_isBoolean)]
       (gb_functions gb)\<rparr>"

definition getFunctionByImplName :: "string \<Rightarrow> impl option" where
  "getFunctionByImplName implName =
     (if implName \<in> {''fmt.Println'', ''print''} then Some F_println
      else if implName \<in> {''fmt.Print'', ''print_no_newline''} then Some F_print
      else if implName \<in> {''fmt.Printf'', ''printf''} then Some F_printf
      else if implName \<in> {''bufio.NewReader'', ''input''} then Some F_input
      else if implName \<in> {''ioutil.ReadFile'', ''read_file''} then Some F_readFile
      else if implName \<in> {''ioutil.WriteFile'', ''write_file''} then Some F_writeFile
      else if implName \<in> {''math.Add'', ''add''} then Some F_add
      else if implName \<in> {''math.Subtract'', ''subtract''} then Some F_subtract
      else if implName \<in> {''math.Multiply'', ''multiply''} then Some F_multiply
      else if implName \<in> {''math.Divide'', ''divide''} then Some F_divide
      else if implName \<in> {''math.Pow'', ''power''} then Some F_power
      else if implName \<in> {''math.Sqrt'', ''sqrt''} then Some F_sqrt
      else if implName \<in> {''math.Abs'', ''abs''} then Some F_abs
      else if implName \<in> {''math.Floor'', ''floor''} then Some F_floor
      else if implName \<in> {''math.Ceil'', ''ceil''} then Some F_ceil
      else if implName \<in> {''math.Round'', ''round''} then Some F_round
      else if implName \<in> {''strings.Join'', ''concat'', ''join''} then Some F_concat
      else if implName \<in> {''len'', ''length''} then Some F_length
      else if implName \<in> {''strings.Substring'', ''substring''} then Some F_substring
      else if implName \<in> {''strings.ToUpper'', ''to_upper''} then Some F_toUpper
      else if implName \<in> {''strings.ToLower'', ''to_lower''} then Some F_toLower
      else if implName \<in> {''strings.TrimSpace'', ''trim''} then Some F_trim
      else if implName \<in> {''strings.Split'', ''split''} then Some F_split
      else if implName \<in> {''make'', ''array_create''} then Some F_arrayCreate
      else if implName \<in> {''append'', ''array_push''} then Some F_arrayPush
      else if implName \<in> {''slice.Pop'', ''array_pop''} then Some F_arrayPop
      else if implName \<in> {''slice.Get'', ''array_get''} then Some F_arrayGet
      else if implName \<in> {''slice.Set'', ''array_set''} then Some F_arraySet
      else if implName \<in> {''array_length''} then Some F_arrayLength
      else if implName \<in> {''sort.Sort'', ''array_sort''} then Some F_arraySort
      else if implName \<in> {''slice.Reverse'', ''array_reverse''} then Some F_arrayReverse
      else if implName \<in> {''time.Sleep'', ''sleep''} then Some F_sleep
      else if implName \<in> {''rand.Float64'', ''random''} then Some F_random
      else if implName \<in> {''rand.Intn'', ''random_int''} then Some F_randomInt
      else if implName \<in> {''time.Now'', ''time_now''} then Some F_timeNow
      else if implName \<in> {''os.Exit'', ''exit''} then Some F_exit
      else if implName \<in> {''fmt.Sprintf'', ''to_string''} then Some F_toString
      else if implName \<in> {''strconv.ParseFloat'', ''to_number''} then Some F_toNumber
      else if implName \<in> {''strconv.ParseBool'', ''to_boolean''} then Some F_toBoolean
      else if implName \<in> {''utils.IsEmpty'', ''is_empty''} then Some F_isEmpty
      else if implName \<in> {''utils.IsNumber'', ''is_number''} then Some F_isNumber
      else if implName \<in> {''utils.IsString'', ''is_string''} then Some F_isString
      else if implName \<in> {''utils.IsArray'', ''is_array''} then Some F_isArray
      else if implName \<in> {''utils.IsBoolean'', ''is_boolean''} then Some F_isBoolean
      else None)"

text \<open>
  \<open>json.Unmarshal\<close> into a variable of type \<open>map[string]interface{}\<close>: an object gives
  its map, \<open>null\<close> gives the nil map (\<open>None\<close>), anything else is an error.
\<close>

definition unmarshalMap ::
  "'x lib \<Rightarrow> string \<Rightarrow> heap \<Rightarrow> ((string \<times> val) list option \<times> heap) option" where
  "unmarshalMap L data h =
     (case json_Unmarshal L data h of
        None \<Rightarrow> None
      | Some (VMap m, h1) \<Rightarrow> Some (Some m, h1)
      | Some (VNil, h1) \<Rightarrow> Some (None, h1)
      | Some (_, h1) \<Rightarrow> None)"

definition loadStdlib :: "'x lib \<Rightarrow> GoBackend \<Rightarrow> 'x world \<Rightarrow> GoBackend \<times> 'x world" where
  "loadStdlib L gb w =
     (let w1 = w\<lparr>reads := reads w @ [''stdlib.go.json'']\<rparr> in
      case ioutil_ReadFile L (ext w) ''stdlib.go.json'' of
        None \<Rightarrow> (gb\<lparr>gb_stdlibData := Some []\<rparr>, emit WarnStdlibMissing w1)
      | Some data \<Rightarrow>
          (case unmarshalMap L data (heap w1) of
             None \<Rightarrow> (gb\<lparr>gb_stdlibData := Some []\<rparr>, emit WarnStdlibParse w1)
           | Some (m, h1) \<Rightarrow> (gb\<lparr>gb_stdlibData := m\<rparr>, w1\<lparr>heap := h1\<rparr>)))"

definition registerOne ::
  "string \<times> val \<Rightarrow> GoBackend \<times> 'x world \<Rightarrow> GoBackend \<times> 'x world" where
  "registerOne entry st =
     (case entry of (funcName, funcInfo) \<Rightarrow>
      case st of (gb, w) \<Rightarrow>
        (case funcInfo of
           VMap funcInfoMap \<Rightarrow>
             (case map_of funcInfoMap ''implementation'' of
                Some (VStr implName) \<Rightarrow>
                  (case getFunctionByImplName implName of
                     Some function \<Rightarrow>
                       (gb\<lparr>gb_functions := AList.update funcName function (gb_functions gb)\<rparr>, w)
                   | None \<Rightarrow> (gb, emit (WarnNoImplementation implName funcName) w))
              | _ \<Rightarrow> (gb, w))
         | _ \<Rightarrow> (gb, w)))"

text \<open>
  The descriptor's entries are visited in the order of the association list; Go's order
  is arbitrary, which changes only the order of the warnings. The test of
  \<open>gb_stdlibData\<close> against nil is the source's: after \<open>loadStdlib\<close> the map is nil only
  when the descriptor is the JSON text \<open>null\<close>.
\<close>

definition registerFunctions :: "GoBackend \<Rightarrow> 'x world \<Rightarrow> GoBackend \<times> 'x world" where
  "registerFunctions gb w =
     (case gb_stdlibData gb of
        Some stdlib \<Rightarrow>
          (case map_of stdlib ''functions'' of
             Some (VMap fs) \<Rightarrow> fold registerOne fs (gb, w)
           | _ \<Rightarrow> (gb, w))
      | None \<Rightarrow> (registerDefaultFunctions gb, w))"

definition NewGoBackend :: "'x lib \<Rightarrow> 'x world \<Rightarrow> GoBackend \<times> 'x world" where
  "NewGoBackend L w =
     (let backend = \<lparr>gb_name = ''go'', gb_version = ''1.0.0'', gb_functions = [],
                     gb_stdlibData = Some []\<rparr>;
          (backend1, w1) = loadStdlib L backend w
      in registerFunctions backend1 w1)"

definition ExecuteFunction ::
  "'x lib \<Rightarrow> GoBackend \<Rightarrow> string \<Rightarrow> val \<Rightarrow> 'x world \<Rightarrow> outcome \<times> 'x world" where
  "ExecuteFunction L gb funcName args w =
     (case map_of (gb_functions gb) funcName of
        Some function \<Rightarrow> invoke L function args w
      | None \<Rightarrow> (Ret (VErr (NoSuchFunction funcName)), w))"

section \<open>Programs and modules\<close>

datatype program =
  Program (Metadata: "(string \<times> val) list")
          (Imports: "(string \<times> string) list")
          (Functions: "(string \<times> (string \<times> val) list) list")
          (Modifiers: "(string \<times> val) list list")
          (LoadedModules: "(string \<times> program) list")

definition getMap :: "(string \<times> val) list \<Rightarrow> string \<Rightarrow> (string \<times> val) list" where
  "getMap data key = (case map_of data key of Some (VMap v) \<Rightarrow> v | _ \<Rightarrow> [])"

definition getStringMap :: "(string \<times> val) list \<Rightarrow> string \<Rightarrow> (string \<times> string) list" where
  "getStringMap data key =
     (case map_of data key of
        Some (VMap v) \<Rightarrow>
          List.map_filter (\<lambda>(k, x). case x of VStr str \<Rightarrow> Some (k, str) | _ \<Rightarrow> None) v
      | _ \<Rightarrow> [])"

definition getFunctionMap ::
  "(string \<times> val) list \<Rightarrow> string \<Rightarrow> (string \<times> (string \<times> val) list) list" where
  "getFunctionMap data key =
     (case map_of data key of
        Some (VMap v) \<Rightarrow>
          List.map_filter (\<lambda>(k, x). case x of VMap funcData \<Rightarrow> Some (k, funcData) | _ \<Rightarrow> None) v
      | _ \<Rightarrow> [])"

text \<open>An entry of the list that is no object stays the nil map, which reads as empty.\<close>

definition getModifiers ::
  "heap \<Rightarrow> (string \<times> val) list \<Rightarrow> string \<Rightarrow> (string \<times> val) list list" where
  "getModifiers h data key =
     (case map_of data key of
        Some (VSlice a n c) \<Rightarrow>
          map (\<lambda>v. case v of VMap modifierData \<Rightarrow> modifierData | _ \<Rightarrow> []) (take n (cell h a))
      | _ \<Rightarrow> [])"

definition NewJSONProgram :: "heap \<Rightarrow> (string \<times> val) list \<Rightarrow> program" where
  "NewJSONProgram h data =
     Program (getMap data ''metadata'') (getStringMap data ''imports'')
             (getFunctionMap data ''functions'') (getModifiers h data ''modifiers'') []"

definition HasFunction :: "program \<Rightarrow> string \<Rightarrow> bool" where
  "HasFunction jp fname = (map_of (Functions jp) fname \<noteq> None)"

definition GetFunction :: "program \<Rightarrow> string \<Rightarrow> (string \<times> val) list option" where
  "GetFunction jp fname = map_of (Functions jp) fname"

definition storeModule :: "program \<Rightarrow> string \<Rightarrow> program \<Rightarrow> program" where
  "storeModule jp modulePath m =
     Program (Metadata jp) (Imports jp) (Functions jp) (Modifiers jp)
             (AList.update modulePath m (LoadedModules jp))"

text \<open>The loop over \<open>possiblePaths\<close>; \<open>moduleFile\<close> stays empty when no path exists.\<close>

fun firstExisting :: "(string \<Rightarrow> bool) \<Rightarrow> string list \<Rightarrow> string" where
  "firstExisting exists [] = []"
| "firstExisting exists (testPath # rest) =
     (if exists testPath then testPath else firstExisting exists rest)"

definition lastSegment :: "string \<Rightarrow> string" where
  "lastSegment s = last (SplitDot s)"

definition possiblePaths :: "string \<Rightarrow> string list" where
  "possiblePaths modulePath =
     [modulePath @ ''.json'', modulePath @ [],
      lastSegment modulePath @ ''.json'', lastSegment modulePath @ []]"

text \<open>
  \<open>LoadModule\<close> returns the error or the module, and the program with its cache.
\<close>

definition LoadModule ::
  "'x lib \<Rightarrow> program \<Rightarrow> string \<Rightarrow> 'x world \<Rightarrow> (err + program) \<times> program \<times> 'x world" where
  "LoadModule L jp modulePath w =
     (case map_of (LoadedModules jp) modulePath of
        Some m \<Rightarrow> (Inr m, jp, w)
      | None \<Rightarrow>
          let moduleFile = firstExisting (os_Stat L (ext w)) (possiblePaths modulePath)
          in if moduleFile = [] then (Inl (ModuleNotFound modulePath), jp, w)
             else let w1 = w\<lparr>reads := reads w @ [moduleFile]\<rparr> in
               (case ioutil_ReadFile L (ext w) moduleFile of
                  None \<Rightarrow> (Inl (ModuleReadError modulePath), jp, w1)
                | Some data \<Rightarrow>
                    (case unmarshalMap L data (heap w1) of
                       None \<Rightarrow> (Inl ModuleParseError, jp, w1)
                     | Some (moduleData, h1) \<Rightarrow>
                         let moduleProgram =
                               NewJSONProgram h1 (case moduleData of None \<Rightarrow> [] | Some d \<Rightarrow> d)
                         in (Inr moduleProgram, storeModule jp modulePath moduleProgram,
                             w1\<lparr>heap := h1\<rparr>))))"

section \<open>The modifier engine\<close>

definition evaluateCondition :: "(string \<times> val) list \<Rightarrow> string \<Rightarrow> bool" where
  "evaluateCondition funcData condition =
     (if Contains condition ''undefined'' then
        let parts = splitOn (CHR ''='') ''='' condition in
        if length parts = 2 then
          let varName = TrimSpace (parts ! 0) in
          if varName = ''function.args'' then map_of funcData ''args'' = None
          else if varName = ''function.return'' then map_of funcData ''return'' = None
          else if varName = ''function.modifiers'' then map_of funcData ''modifiers'' = None
          else if varName = ''function.visibility'' then map_of funcData ''visibility'' = None
          else True
        else True
      else True)"

definition executeModifierAction ::
  "(string \<times> val) list \<Rightarrow> (string \<times> val) list \<Rightarrow> (string \<times> val) list" where
  "executeModifierAction funcData action =
     (case map_of action ''type'' of
        Some (VStr actionType) \<Rightarrow>
          (case map_of action ''target'' of
             Some (VStr target) \<Rightarrow>
               let value = (case map_of action ''value'' of Some v \<Rightarrow> v | None \<Rightarrow> VNil) in
               if actionType = ''assignment'' then
                 if HasPrefix target ''function.'' then
                   let fieldName = SplitDot target ! 1 in
                   AList.update fieldName value funcData
                 else funcData
               else funcData
           | _ \<Rightarrow> funcData)
      | _ \<Rightarrow> funcData)"

text \<open>
  \<open>applyModifier\<close> looks the condition up under the key \<open>condiction\<close>, as the source
  spells it.
\<close>

definition applyModifier ::
  "program \<Rightarrow> (string \<times> val) list \<Rightarrow> string \<Rightarrow> 'x world \<Rightarrow> (string \<times> val) list \<times> 'x world"
where
  "applyModifier prog funcData modifierName w =
     (case find (\<lambda>m. map_of m ''name'' = Some (VStr modifierName)) (Modifiers prog) of
        None \<Rightarrow> (funcData, emit (WarnNoModifier modifierName) w)
      | Some modifier \<Rightarrow>
          if (case map_of modifier ''condiction'' of
                Some (VStr condition) \<Rightarrow> \<not> evaluateCondition funcData condition
              | _ \<Rightarrow> False)
          then (funcData, w)
          else (case map_of modifier ''actions'' of
                  Some (VSlice a n c) \<Rightarrow>
                    (fold (\<lambda>action fd. case action of
                                          VMap actionMap \<Rightarrow> executeModifierAction fd actionMap
                                        | _ \<Rightarrow> fd)
                          (take n (cell (heap w) a)) funcData, w)
                | _ \<Rightarrow> (funcData, w)))"

definition applyFunctionModifiers ::
  "program \<Rightarrow> (string \<times> val) list \<Rightarrow> 'x world \<Rightarrow> (string \<times> val) list \<times> 'x world" where
  "applyFunctionModifiers prog funcData w =
     (case map_of funcData ''modifiers'' of
        Some (VSlice a n c) \<Rightarrow>
          fold (\<lambda>modifierName (fd, w1). case modifierName of
                                           VStr nm \<Rightarrow> applyModifier prog fd nm w1
                                         | _ \<Rightarrow> (fd, w1))
               (take n (cell (heap w) a)) (funcData, w)
      | _ \<Rightarrow> (funcData, w))"

text \<open>
  \<open>applyModifiers\<close> rewrites every function's map in place. The functions are visited
  in the order of the association list; Go's order is arbitrary, and a function's
  rewriting reads nothing that another one's writes.
\<close>

fun applyModifiersTo ::
  "program \<Rightarrow> (string \<times> (string \<times> val) list) list \<Rightarrow> 'x world
     \<Rightarrow> (string \<times> (string \<times> val) list) list \<times> 'x world" where
  "applyModifiersTo prog [] w = ([], w)"
| "applyModifiersTo prog ((funcName, funcData) # rest) w =
     (let (fd, w1) = applyFunctionModifiers prog funcData w;
          (rest1, w2) = applyModifiersTo prog rest w1
      in ((funcName, fd) # rest1, w2))"

definition applyModifiers :: "program \<Rightarrow> 'x world \<Rightarrow> program \<times> 'x world" where
  "applyModifiers prog w =
     (let (fs, w1) = applyModifiersTo prog (Functions prog) w
      in (Program (Metadata prog) (Imports prog) fs (Modifiers prog) (LoadedModules prog), w1))"

section \<open>The interpreter\<close>

text \<open>
  A run gives an outcome, the program with its module cache, and the world; \<open>None\<close>
  when the nesting of calls exceeds the depth the run is given.
\<close>

type_synonym 'x run = "(outcome \<times> program \<times> 'x world) option"

definition evalArg :: "val \<Rightarrow> val" where
  "evalArg argData =
     (case argData of
        VMap argMap \<Rightarrow>
          (case map_of argMap ''type'' of
             Some (VStr argType) \<Rightarrow>
               if argType = ''String'' \<or> argType = ''imports.String'' then
                 (case map_of argMap ''value'' of Some (VStr v) \<Rightarrow> VStr v | _ \<Rightarrow> VNil)
               else if argType = ''Number'' \<or> argType = ''imports.Number'' then
                 (case map_of argMap ''value'' of Some (VNum v) \<Rightarrow> VNum v | _ \<Rightarrow> VNil)
               else if argType = ''Boolean'' \<or> argType = ''imports.Boolean'' then
                 (case map_of argMap ''value'' of Some (VBool v) \<Rightarrow> VBool v | _ \<Rightarrow> VNil)
               else argData
           | _ \<Rightarrow> argData)
      | _ \<Rightarrow> argData)"

definition callBackend ::
  "'x lib \<Rightarrow> GoBackend \<Rightarrow> program \<Rightarrow> string \<Rightarrow> val \<Rightarrow> 'x world \<Rightarrow> 'x run" where
  "callBackend L gb prog backendFunc args w =
     (let (res, w1) = ExecuteFunction L gb backendFunc args w in Some (res, prog, w1))"

text \<open>
  How an import path is carried out. The source has this block twice, once for a name
  found among the keys of the imports and once for a name with the prefix \<open>imports.\<close>.
  The loaded module is a pointer held by the cache, so what running it changes in the
  module is stored back.
\<close>

definition resolveImport ::
  "(program \<Rightarrow> string \<Rightarrow> val \<Rightarrow> 'x world \<Rightarrow> 'x run) \<Rightarrow> 'x lib \<Rightarrow> GoBackend \<Rightarrow> program
     \<Rightarrow> string \<Rightarrow> val \<Rightarrow> 'x world \<Rightarrow> 'x run" where
  "resolveImport exec L gb prog imports args w =
     (if Contains imports ''.'' \<and> \<not> HasPrefix imports ''jsonlang.''
         \<and> length (SplitDot imports) \<ge> 2 then
        let parts = SplitDot imports;
            modulePath = Join (butlast parts) ''.'';
            funcName = last parts
        in (case LoadModule L prog modulePath w of
              (Inl e, prog1, w1) \<Rightarrow> Some (Ret (VErr (ImportFailed e)), prog1, w1)
            | (Inr moduleProgram, prog1, w1) \<Rightarrow>
                if HasFunction moduleProgram funcName then
                  (case exec moduleProgram funcName args w1 of
                     None \<Rightarrow> None
                   | Some (res, moduleProgram1, w2) \<Rightarrow>
                       Some (res, storeModule prog1 modulePath moduleProgram1, w2))
                else Some (Ret (VErr (ModuleFunctionNotFound modulePath funcName)), prog1, w1))
      else if HasPrefix imports ''jsonlang.'' then
        let backendFunc = TrimPrefix imports ''jsonlang.'';
            backendFunc = (if Contains backendFunc ''.'' then last (SplitDot backendFunc)
                           else backendFunc)
        in callBackend L gb prog backendFunc args w
      else
        let backendFunc = last (SplitDot imports)
        in callBackend L gb prog backendFunc args w)"

text \<open>
  The first half of \<open>executeFunctionCall\<close>: the slice \<open>args\<close> is made and filled with
  the evaluated argument descriptors.
\<close>

definition evalArgs :: "(string \<times> val) list \<Rightarrow> 'x world \<Rightarrow> val \<times> 'x world" where
  "evalArgs action w =
     (let argsData = (case map_of action ''args'' of
                        Some (VSlice a n c) \<Rightarrow> take n (cell (heap w) a)
                      | _ \<Rightarrow> []);
          (b, h1) = alloc (heap w) (map evalArg argsData)
      in (VSlice b (length argsData) (length argsData), w\<lparr>heap := h1\<rparr>))"

definition executeFunctionCall_body ::
  "(program \<Rightarrow> string \<Rightarrow> val \<Rightarrow> 'x world \<Rightarrow> 'x run) \<Rightarrow> 'x lib \<Rightarrow> GoBackend \<Rightarrow> program
     \<Rightarrow> (string \<times> val) list \<Rightarrow> 'x world \<Rightarrow> 'x run" where
  "executeFunctionCall_body exec L gb prog action w =
     (case map_of action ''function'' of
        Some (VStr function) \<Rightarrow>
          let (args, w1) = evalArgs action w
          in if HasFunction prog function then exec prog function args w1
             else (case map_of (Imports prog) function of
                     Some imports \<Rightarrow> resolveImport exec L gb prog imports args w1
                   | None \<Rightarrow>
                       if HasPrefix function ''imports.'' then
                         let funcName = TrimPrefix function ''imports.'';
                             importPath =
                               (case find (\<lambda>(key, value). value = funcName)
                                          (range_imports L (ext w1) (Imports prog)) of
                                  Some (key, value) \<Rightarrow> key
                                | None \<Rightarrow> [])
                         in if importPath \<noteq> [] then
                              resolveImport exec L gb prog importPath args w1
                            else callBackend L gb prog funcName args w1
                       else callBackend L gb prog function args w1)
      | _ \<Rightarrow> Some (Ret (VErr MissingFunctionField), prog, w))"

text \<open>
  The loop of \<open>executeFunction\<close> over the actions \<open>i, i+1, ...\<close> of the slice at \<open>a\<close>,
  \<open>m\<close> of them left. Only \<open>function_call\<close> has a body in the source's switch.
\<close>

fun executeActions ::
  "(program \<Rightarrow> (string \<times> val) list \<Rightarrow> 'x world \<Rightarrow> 'x run) \<Rightarrow> nat \<Rightarrow> nat \<Rightarrow> nat \<Rightarrow> val
     \<Rightarrow> program \<Rightarrow> 'x world \<Rightarrow> 'x run" where
  "executeActions call a i 0 result prog w = Some (Ret result, prog, w)"
| "executeActions call a i (Suc m) result prog w =
     (case elemAt (heap w) a i of
        VMap actionMap \<Rightarrow>
          (case map_of actionMap ''type'' of
             Some (VStr actionType) \<Rightarrow>
               if actionType = ''function_call'' then
                 (case call prog actionMap w of
                    None \<Rightarrow> None
                  | Some (Ret r, prog1, w1) \<Rightarrow> executeActions call a (Suc i) m r prog1 w1
                  | Some (stop, prog1, w1) \<Rightarrow> Some (stop, prog1, w1))
               else executeActions call a (Suc i) m result prog w
           | _ \<Rightarrow> executeActions call a (Suc i) m result prog w)
      | _ \<Rightarrow> executeActions call a (Suc i) m result prog w)"

definition executeFunction_body ::
  "(program \<Rightarrow> (string \<times> val) list \<Rightarrow> 'x world \<Rightarrow> 'x run) \<Rightarrow> program \<Rightarrow> string \<Rightarrow> val
     \<Rightarrow> 'x world \<Rightarrow> 'x run" where
  "executeFunction_body call prog funcName args w =
     (case map_of (Functions prog) funcName of
        None \<Rightarrow> Some (Ret (VErr (FunctionUndefined funcName)), prog, w)
      | Some funcData \<Rightarrow>
          (case map_of funcData ''actions'' of
             Some (VSlice a n c) \<Rightarrow> executeActions call a 0 n VNil prog w
           | _ \<Rightarrow> Some (Ret (VErr (MissingActions funcName)), prog, w)))"

text \<open>
  \<open>executeFunction\<close> and \<open>executeFunctionCall\<close> call each other without bound; the first
  argument is the depth of nested calls the run may use.
\<close>

primrec executeFunction ::
  "nat \<Rightarrow> 'x lib \<Rightarrow> GoBackend \<Rightarrow> program \<Rightarrow> string \<Rightarrow> val \<Rightarrow> 'x world \<Rightarrow> 'x run" where
  "executeFunction 0 L gb prog funcName args w = None"
| "executeFunction (Suc k) L gb prog funcName args w =
     executeFunction_body (executeFunctionCall_body (executeFunction k L gb) L gb)
       prog funcName args w"

definition executeFunctionCall ::
  "nat \<Rightarrow> 'x lib \<Rightarrow> GoBackend \<Rightarrow> program \<Rightarrow> (string \<times> val) list \<Rightarrow> 'x world \<Rightarrow> 'x run" where
  "executeFunctionCall k L gb prog action w =
     executeFunctionCall_body (executeFunction k L gb) L gb prog action w"

section \<open>What a run of the actions does, as a list\<close>

text \<open>
  An action is carried out only when it is an object whose \<open>type\<close> is the string
  \<open>function_call\<close>. \<open>callResults\<close> lists, in order, the values returned by the
  calls that the loop of \<open>executeFunction\<close> makes, the function_call results observed;
  it is \<open>None\<close> when one of the calls does not return a value.
\<close>

definition functionCallAction :: "val \<Rightarrow> (string \<times> val) list option" where
  "functionCallAction v =
     (case v of
        VMap actionMap \<Rightarrow>
          (case map_of actionMap ''type'' of
             Some (VStr actionType) \<Rightarrow>
               if actionType = ''function_call'' then Some actionMap else None
           | _ \<Rightarrow> None)
      | _ \<Rightarrow> None)"

fun callResults ::
  "(program \<Rightarrow> (string \<times> val) list \<Rightarrow> 'x world \<Rightarrow> 'x run) \<Rightarrow> nat \<Rightarrow> nat \<Rightarrow> nat
     \<Rightarrow> program \<Rightarrow> 'x world \<Rightarrow> val list option" where
  "callResults call a i 0 prog w = Some []"
| "callResults call a i (Suc m) prog w =
     (case functionCallAction (elemAt (heap w) a i) of
        None \<Rightarrow> callResults call a (Suc i) m prog w
      | Some actionMap \<Rightarrow>
          (case call prog actionMap w of
             Some (Ret r, prog1, w1) \<Rightarrow>
               (case callResults call a (Suc i) m prog1 w1 of
                  None \<Rightarrow> None
                | Some rs \<Rightarrow> Some (r # rs))
           | _ \<Rightarrow> None))"

definition inertTags :: "string set" where
  "inertTags = {''literal'', ''variable_declaration'', ''assignment'', ''if_statement'',
                ''loop'', ''return''}"

section \<open>Reading the operations as a table\<close>

text \<open>
  The number of arguments below which a method returns its default without looking at
  them, and that default, read off the guard at the head of each method. A method with
  no such guard has \<open>required\<close> 0.
\<close>

definition required :: "impl \<Rightarrow> nat" where
  "required f =
     (if f \<in> {F_add, F_subtract, F_multiply, F_divide, F_power, F_substring, F_join,
               F_arrayPush, F_arrayGet, F_writeFile, F_randomInt} then 2
      else if f = F_arraySet then 3
      else if f \<in> {F_println, F_print, F_input, F_concat, F_arrayCreate, F_random,
                    F_timeNow, F_exit} then 0
      else 1)"

definition defaultResult :: "impl \<Rightarrow> val" where
  "defaultResult f =
     (if f \<in> {F_add, F_subtract, F_multiply, F_divide, F_power, F_sqrt, F_abs, F_floor,
               F_ceil, F_round, F_toNumber} then VNum 0
      else if f \<in> {F_length, F_arrayLength, F_randomInt} then VInt 0
      else if f \<in> {F_readFile, F_substring, F_toUpper, F_toLower, F_trim, F_join,
                    F_toString} then VStr []
      else if f \<in> {F_split, F_arrayPush, F_arraySort, F_arrayReverse} then emptySlice
      else if f \<in> {F_writeFile, F_toBoolean, F_isNumber, F_isString, F_isArray,
                    F_isBoolean} then VBool False
      else if f = F_isEmpty then VBool True
      else VNil)"

text \<open>The methods that assert their first argument to be a slice.\<close>

definition listOperations :: "impl set" where
  "listOperations = {F_join, F_arrayPush, F_arrayPop, F_arrayGet, F_arraySet, F_arrayLength,
                     F_arraySort, F_arrayReverse}"

fun isSlice :: "val \<Rightarrow> bool" where
  "isSlice (VSlice a n c) = True"
| "isSlice v = False"

fun isError :: "val \<Rightarrow> bool" where
  "isError (VErr e) = True"
| "isError v = False"

text \<open>A slice header is valid in a heap when its backing array is there and long enough.\<close>

fun validSlice :: "heap \<Rightarrow> val \<Rightarrow> bool" where
  "validSlice h (VSlice a n c) = (a < length h \<and> n \<le> length (h ! a))"
| "validSlice h v = False"

section \<open>A small library to run examples with\<close>

text \<open>
  An instance of the library parameters for evaluating the model on examples. The
  outside world is a table from file paths to contents; the number parser and the JSON
  decoder know the few texts the examples use.
\<close>

definition exampleModule :: "heap \<Rightarrow> val \<times> heap" where
  "exampleModule h =
     (VMap [(''functions'',
             VMap [(''helper'', VMap [(''actions'', VSlice (length h) 0 0)])])],
      h @ [[]])"

definition exampleLib :: "(string \<times> string) list lib" where
  "exampleLib =
     \<lparr>strconv_ParseFloat = map_of [(''3.5'', 7 / 2), (''0'', 0), (''2'', 2)],
      strconv_FormatFloat = (\<lambda>x. if x = 3 then ''3'' else if x = 7 / 2 then ''3.5'' else ''0''),
      strconv_Itoa = (\<lambda>i. if i = 0 then ''0'' else ''1''),
      fmt_Sprint_v = (\<lambda>h v. ''<value>''),
      fmt_Sprint = (\<lambda>h vs. concat (map (\<lambda>v. case v of VStr x \<Rightarrow> x | _ \<Rightarrow> ''<value>'') vs)),
      fmt_Sprintln = (\<lambda>h vs. concat (map (\<lambda>v. case v of VStr x \<Rightarrow> x | _ \<Rightarrow> ''<value>'') vs)
                              @ [CHR 0x0A]),
      fmt_Sprintf = (\<lambda>h format vs. format),
      math_Pow = (\<lambda>x y. if y = 0 then 1 else x),
      math_Sqrt = (\<lambda>x. if x = 4 then 2 else x),
      strings_ToUpper = (\<lambda>x. x),
      strings_ToLower = (\<lambda>x. x),
      strings_explode = map (\<lambda>c. [c]),
      int_out_of_range = (\<lambda>x. - (2 ^ 63)),
      append_cap = (\<lambda>c. 2 * c),
      json_Unmarshal = (\<lambda>data h. if data = ''{}'' then Some (VMap [], h)
                                   else if data = ''null'' then Some (VNil, h)
                                   else if data = ''module'' then Some (exampleModule h)
                                   else None),
      os_Stat = (\<lambda>fs path. map_of fs path \<noteq> None),
      ioutil_ReadFile = map_of,
      read_error_text = (\<lambda>fs path. ''read error''),
      ioutil_WriteFile = (\<lambda>fs path content. (True, AList.update path content fs)),
      stdin_ReadLine = (\<lambda>fs. ([], fs)),
      time_Sleep = (\<lambda>seconds fs. fs),
      time_Unix = (\<lambda>fs. 0),
      rand_Float64 = (\<lambda>fs. (0, fs)),
      rand_Intn = (\<lambda>n fs. (0, fs)),
      range_imports = (\<lambda>fs m. m)\<rparr>"

definition exampleWorld :: "heap \<Rightarrow> (string \<times> string) list \<Rightarrow> (string \<times> string) list world" where
  "exampleWorld h fs = \<lparr>heap = h, out = [], reads = [], ext = fs\<rparr>"

text \<open>A backend as \<open>registerFunctions\<close> leaves it when the descriptor names these methods.\<close>

definition exampleBackend :: GoBackend where
  "exampleBackend =
     \<lparr>gb_name = ''go'', gb_version = ''1.0.0'',
      gb_functions = [(''add'', F_add), (''divide'', F_divide), (''sqrt'', F_sqrt),
                      (''array_get'', F_arrayGet), (''array_pop'', F_arrayPop),
                      (''array_sort'', F_arraySort), (''println'', F_println)],
      gb_stdlibData = Some []\<rparr>"

section \<open>Example programs\<close>

text \<open>
  A heap of argument slices for calls of the backend: the list \<open>[1, 2, 3]\<close> at address 0,
  then one argument slice per call.
\<close>

definition backendWorld :: "(string \<times> string) list world" where
  "backendWorld =
     exampleWorld
       [[VNum 1, VNum 2, VNum 3],
        [VNum 10, VNum 0],
        [VNum (- 4)],
        [VSlice 0 3 3, VNum 5],
        [VStr ''x'', VNum 1],
        [VNum 2, VNum 3],
        [VNum 2],
        [VSlice 0 3 3],
        [VSlice 0 3 3, VNum (- (1 / 2))],
        [VSlice 0 0 0],
        []]
       []"

text \<open>
  A program with one function \<open>f\<close> that lists the modifier \<open>M\<close>. The modifier is written
  as the specification has it, with the key \<open>condition\<close>; \<open>modifierHeap\<close> holds the
  function's list of modifier names, the modifier's list of actions, the empty list
  that the action assigns, and a list of one argument name.
\<close>

definition modifierHeap :: heap where
  "modifierHeap =
     [[VStr ''M''],
      [VMap [(''type'', VStr ''assignment''), (''target'', VStr ''function.args''),
             (''value'', VSlice 2 0 0)]],
      [],
      [VStr ''x'']]"

definition modifierM :: "string \<Rightarrow> (string \<times> val) list" where
  "modifierM key =
     [(''name'', VStr ''M''), (key, VStr ''function.args == undefined''),
      (''actions'', VSlice 1 1 1)]"

definition modifierProgram :: "string \<Rightarrow> (string \<times> val) list \<Rightarrow> program" where
  "modifierProgram key funcData = Program [] [] [(''f'', funcData)] [modifierM key] []"

definition withoutArgs :: "(string \<times> val) list" where
  "withoutArgs = [(''modifiers'', VSlice 0 1 1)]"

definition withArgs :: "(string \<times> val) list" where
  "withArgs = [(''modifiers'', VSlice 0 1 1), (''args'', VSlice 3 1 1)]"

text \<open>
  A program with imports of each kind. \<open>main\<close> has three actions: a literal, a call of
  \<open>plus\<close> with the arguments 2 (wrapped) and 3, and a return. \<open>twice\<close> calls the
  unknown operation \<open>nothing\<close> and then \<open>plus\<close>; \<open>idle\<close> has one action, a loop;
  \<open>broken\<close> has no actions.
\<close>

definition callAction :: "string \<Rightarrow> (string \<times> val) list" where
  "callAction fn =
     [(''type'', VStr ''function_call''), (''function'', VStr fn), (''args'', VSlice 0 2 2)]"

definition callHeap :: heap where
  "callHeap =
     [[VMap [(''type'', VStr ''Number''), (''value'', VNum 2)], VNum 3],
      [VMap [(''type'', VStr ''literal'')], VMap (callAction ''plus''),
       VMap [(''type'', VStr ''return'')]],
      [VMap (callAction ''nothing''), VMap (callAction ''plus'')],
      [VMap [(''type'', VStr ''loop'')]]]"

definition importsProgram :: program where
  "importsProgram =
     Program []
       [(''plus'', ''jsonlang.math.add''), (''h'', ''otherpkg.util.helper''),
        (''g'', ''otherpkg.util.absent''), (''mylib.helper'', ''add'')]
       [(''main'', [(''actions'', VSlice 1 3 3)]), (''twice'', [(''actions'', VSlice 2 2 2)]),
        (''idle'', [(''actions'', VSlice 3 1 1)]), (''broken'', [])]
       [] []"

text \<open>A program whose only import has the empty key and the value \<open>add\<close>.\<close>

definition emptyKeyProgram :: program where
  "emptyKeyProgram = Program [] [([], ''add'')] [] [] []"

definition callWorld :: "(string \<times> string) list world" where
  "callWorld = exampleWorld callHeap [(''util.json'', ''module''), (''bad.json'', ''???'')]"

definition calledWorld :: "(string \<times> string) list world" where
  "calledWorld = callWorld\<lparr>heap := callHeap @ [[VNum 2, VNum 3]]\<rparr>"

section \<open>Lemmas on the string functions\<close>

lemma HasPrefix_single: "HasPrefix (c # cs) [d] = (c = d)"
  by (simp add: HasPrefix_def)

lemma splitOn_not_Nil: "splitOn d ds s \<noteq> []"
  by (induction d ds s rule: splitOn.induct) (auto split: list.splits)

lemma splitOn_no_separator: "d \<notin> set s \<Longrightarrow> splitOn d [] s = [s]"
  by (induction s) (auto simp add: HasPrefix_single)

lemma splitOn_at_last:
  "d \<notin> set suf \<Longrightarrow> splitOn d [] (pre @ d # suf) = splitOn d [] pre @ [suf]"
proof (induction pre)
  case Nil
  then show ?case by (simp add: HasPrefix_single splitOn_no_separator)
next
  case (Cons c pre)
  then show ?case
    using splitOn_not_Nil [of d "[]" pre]
    by (cases "splitOn d [] pre") (auto simp add: HasPrefix_single)
qed

lemma Join_splitOn: "Join (splitOn d [] s) [d] = s"
proof (induction s)
  case Nil
  then show ?case by simp
next
  case (Cons c s)
  show ?case
  proof (cases "c = d")
    case True
    then show ?thesis
      using Cons splitOn_not_Nil [of d "[]" s]
      by (cases "splitOn d [] s") (auto simp add: HasPrefix_single)
  next
    case False
    then show ?thesis
      using Cons splitOn_not_Nil [of d "[]" s]
      by (cases "splitOn d [] s"; cases "tl (splitOn d [] s)")
        (auto simp add: HasPrefix_single)
  qed
qed

lemma Contains_single: "Contains s [d] = (d \<in> set s)"
  by (induction s) (auto simp add: HasPrefix_single)

lemma lastSegment_suffix: "CHR ''.'' \<notin> set suf \<Longrightarrow> lastSegment (pre @ ''.'' @ suf) = suf"
  by (simp add: lastSegment_def splitOn_at_last)

lemma lastSegment_plain: "CHR ''.'' \<notin> set s \<Longrightarrow> lastSegment s = s"
  by (simp add: lastSegment_def splitOn_no_separator)

text \<open>
  Splitting at the dots, joining all parts but the last and taking the last part is
  cutting the string at its last dot.
\<close>

lemma split_at_last_dot:
  assumes "CHR ''.'' \<notin> set suf"
  shows "Join (butlast (SplitDot (pre @ ''.'' @ suf))) ''.'' = pre"
    and "last (SplitDot (pre @ ''.'' @ suf)) = suf"
    and "2 \<le> length (SplitDot (pre @ ''.'' @ suf))"
  using assms splitOn_not_Nil [of "CHR ''.''" "[]" pre]
  by (simp_all add: splitOn_at_last Join_splitOn Suc_le_eq)

lemma evaluateCondition_args_undefined:
  "evaluateCondition funcData ''function.args == undefined'' = (map_of funcData ''args'' = None)"
  by (simp add: evaluateCondition_def HasPrefix_def TrimSpace_def asciiSpace_def space2_def
      space3_def)

section \<open>Lemmas on lists and the conversion to int\<close>

lemma take_nth_last:
  assumes "0 < n" "n \<le> length xs"
  shows "last (take n xs) = xs ! (n - 1)"
proof -
  have len: "length (take n xs) = n" using assms(2) by simp
  then have "take n xs \<noteq> []" using assms(1) by auto
  then have "last (take n xs) = take n xs ! (length (take n xs) - 1)"
    by (rule last_conv_nth)
  also have "\<dots> = xs ! (n - 1)" using assms(1) len by simp
  finally show ?thesis .
qed

lemma find_Some_member: "find P xs = Some x \<Longrightarrow> x \<in> set xs \<and> P x"
  by (induction xs) (auto split: if_splits)

lemma truncToZero_in_range:
  assumes "- (2 ^ 63) \<le> x" "x < 2 ^ 63"
  shows "- (2 ^ 63) \<le> truncToZero x \<and> truncToZero x < 2 ^ 63"
proof (cases "0 \<le> x")
  case True
  then have "truncToZero x = \<lfloor>x\<rfloor>" by (simp add: truncToZero_def)
  moreover have "\<lfloor>x\<rfloor> < 2 ^ 63" using assms(2) by (simp add: floor_less_iff)
  moreover have "0 \<le> \<lfloor>x\<rfloor>" using True by simp
  ultimately show ?thesis by simp
next
  case False
  then have t: "truncToZero x = \<lceil>x\<rceil>" by (simp add: truncToZero_def)
  have "\<lceil>x\<rceil> \<le> 0" using False by (simp add: ceiling_le_iff)
  moreover have "- (2 ^ 63) \<le> \<lceil>x\<rceil>" using assms(1) by (simp add: le_ceiling_iff)
  ultimately show ?thesis using t by simp
qed

text \<open>
  Within the range of int, the numbers that convert to an index outside \<open>[0, n)\<close> are
  those at most \<open>-1\<close> and those at least \<open>n\<close>.
\<close>

lemma toInt_outside:
  assumes "- (2 ^ 63) \<le> x" "x < 2 ^ 63" "x \<le> - 1 \<or> real n \<le> x"
  shows "toInt L x < 0 \<or> int n \<le> toInt L x"
proof -
  have eq: "toInt L x = truncToZero x"
    using truncToZero_in_range [OF assms(1,2)] by (simp add: toInt_def)
  from assms(3) show ?thesis
  proof
    assume "x \<le> - 1"
    then have "\<lceil>x\<rceil> \<le> - 1" by (simp add: ceiling_le_iff)
    moreover have "\<not> 0 \<le> x" using \<open>x \<le> - 1\<close> by simp
    then have "toInt L x = \<lceil>x\<rceil>" using eq by (simp only: truncToZero_def if_False)
    ultimately show ?thesis by linarith
  next
    assume a: "real n \<le> x"
    then have "0 \<le> x" by (meson of_nat_0_le_iff order_trans)
    then have "toInt L x = \<lfloor>x\<rfloor>" using eq by (simp only: truncToZero_def if_True)
    moreover have "int n \<le> \<lfloor>x\<rfloor>" using a by (simp add: le_floor_iff)
    ultimately show ?thesis by linarith
  qed
qed

section \<open>Lemmas on the backend\<close>

lemma ExecuteFunction_bound:
  "map_of (gb_functions gb) nm = Some f \<Longrightarrow> ExecuteFunction L gb nm args w = invoke L f args w"
  by (simp add: ExecuteFunction_def)

lemma invoke_short:
  assumes "length (sliceElems (heap w) args) < required f"
  shows "invoke L f args w = (Ret (defaultResult f), w)"
  using assms
  by (cases f)
     (simp_all add: invoke_def required_def defaultResult_def gb_printf_def gb_readFile_def
        gb_writeFile_def gb_add_def gb_subtract_def gb_multiply_def gb_divide_def gb_power_def
        gb_sqrt_def gb_abs_def gb_floor_def gb_ceil_def gb_round_def gb_length_def
        gb_substring_def gb_toUpper_def gb_toLower_def gb_trim_def gb_split_def gb_join_def
        gb_arrayPush_def gb_arrayPop_def gb_arrayGet_def gb_arraySet_def gb_arrayLength_def
        gb_arraySort_def gb_arrayReverse_def gb_sleep_def gb_randomInt_def gb_toString_def
        gb_toNumber_def gb_toBoolean_def gb_isEmpty_def gb_isNumber_def gb_isString_def
        gb_isArray_def gb_isBoolean_def)

lemma defaultResult_no_error: "\<not> isError (defaultResult f)"
  by (simp add: defaultResult_def emptySlice_def)

lemma invoke_not_list:
  assumes "f \<in> listOperations" "sliceElems (heap w) args = v # rest" "\<not> isSlice v"
    "required f \<le> length (v # rest)"
  shows "\<exists>e. invoke L f args w = (Ret (VErr e), w)"
proof -
  from assms(3) have nv: "\<And>a n c. v \<noteq> VSlice a n c" by auto
  show ?thesis using assms(1,2,4) nv
    by (cases v)
      (auto simp add: listOperations_def invoke_def required_def gb_join_def gb_arrayPush_def
        gb_arrayPop_def gb_arrayGet_def gb_arraySet_def gb_arrayLength_def gb_arraySort_def
        gb_arrayReverse_def)
qed

lemma divide_by_zero:
  assumes "map_of (gb_functions gb) ''divide'' = Some F_divide"
    "sliceElems (heap w) args = [a, VNum 0]"
  shows "ExecuteFunction L gb ''divide'' args w = (Ret (VErr DivisionByZero), w)"
  using assms by (simp add: ExecuteFunction_def invoke_def gb_divide_def toNumber_def)

section \<open>Lemmas on the module loader and the resolver\<close>

lemma map_of_storeModule:
  "map_of (LoadedModules (storeModule jp k m)) k = Some m"
  by (simp add: storeModule_def update_conv')

lemma firstExisting_none:
  "(\<forall>c \<in> set cs. \<not> ex c) \<Longrightarrow> firstExisting ex cs = []"
  by (induction cs) auto

lemma firstExisting_first:
  "(\<forall>c \<in> set pre. \<not> ex c) \<Longrightarrow> ex file \<Longrightarrow> firstExisting ex (pre @ file # post) = file"
  by (induction pre) auto

text \<open>
  The two ways an import path is carried out: a dotted path that does not begin with
  \<open>jsonlang.\<close> names a function of a module; any other path names an operation of
  the backend by its last segment.
\<close>

lemma resolveImport_module:
  assumes "CHR ''.'' \<notin> set suf" "\<not> HasPrefix (pre @ ''.'' @ suf) ''jsonlang.''"
  shows "resolveImport exec L gb prog (pre @ ''.'' @ suf) args w =
     (case LoadModule L prog pre w of
        (Inl e, prog1, w1) \<Rightarrow> Some (Ret (VErr (ImportFailed e)), prog1, w1)
      | (Inr moduleProgram, prog1, w1) \<Rightarrow>
          if HasFunction moduleProgram suf then
            (case exec moduleProgram suf args w1 of
               None \<Rightarrow> None
             | Some (res, moduleProgram1, w2) \<Rightarrow>
                 Some (res, storeModule prog1 pre moduleProgram1, w2))
          else Some (Ret (VErr (ModuleFunctionNotFound pre suf)), prog1, w1))"
proof -
  note s = split_at_last_dot [OF assms(1), of pre]
  have c: "Contains (pre @ ''.'' @ suf) ''.''"
    by (simp add: Contains_single)
  have g: "(Contains (pre @ ''.'' @ suf) ''.'' \<and> \<not> HasPrefix (pre @ ''.'' @ suf) ''jsonlang.''
            \<and> length (SplitDot (pre @ ''.'' @ suf)) \<ge> 2) = True"
    using c assms(2) s(3) by blast
  show ?thesis
    unfolding resolveImport_def Let_def g s(1) s(2) if_True ..
qed

lemma resolveImport_backend:
  assumes "HasPrefix ref ''jsonlang.'' \<or> CHR ''.'' \<notin> set ref"
  shows "resolveImport exec L gb prog ref args w =
           callBackend L gb prog (lastSegment (TrimPrefix ref ''jsonlang.'')) args w"
proof (cases "HasPrefix ref ''jsonlang.''")
  case True
  have "lastSegment (TrimPrefix ref ''jsonlang.'') =
        (if Contains (TrimPrefix ref ''jsonlang.'') ''.''
         then last (SplitDot (TrimPrefix ref ''jsonlang.'')) else TrimPrefix ref ''jsonlang.'')"
    by (simp add: Contains_single lastSegment_def splitOn_no_separator)
  then show ?thesis
    using True by (simp add: resolveImport_def Let_def)
next
  case False
  with assms have nd: "CHR ''.'' \<notin> set ref" by simp
  then have "\<not> Contains ref ''.''" by (simp add: Contains_single)
  then show ?thesis
    using False by (simp add: resolveImport_def Let_def TrimPrefix_def lastSegment_def)
qed

section \<open>Lemmas on the loop over the actions\<close>

lemma executeActions_step:
  "executeActions call a i (Suc m) res prog w =
     (case functionCallAction (elemAt (heap w) a i) of
        None \<Rightarrow> executeActions call a (Suc i) m res prog w
      | Some actionMap \<Rightarrow>
          (case call prog actionMap w of
             None \<Rightarrow> None
           | Some (Ret r, prog1, w1) \<Rightarrow> executeActions call a (Suc i) m r prog1 w1
           | Some (stop, prog1, w1) \<Rightarrow> Some (stop, prog1, w1)))"
  by (simp add: functionCallAction_def split: val.splits option.splits)

lemma executeActions_after_call:
  assumes "functionCallAction (elemAt (heap w) a i) = Some actionMap"
    "call prog actionMap w = Some (Ret v, prog1, w1)"
  shows "executeActions call a i (Suc m) res prog w = executeActions call a (Suc i) m v prog1 w1"
  unfolding executeActions_step using assms by simp

lemma executeActions_returns:
  "callResults call a i m prog w = Some rs \<Longrightarrow>
     \<exists>prog1 w1. executeActions call a i m res prog w = Some (Ret (last (res # rs)), prog1, w1)"
proof (induction m arbitrary: i res prog w rs)
  case 0
  then show ?case by simp
next
  case (Suc m)
  show ?case
  proof (cases "functionCallAction (elemAt (heap w) a i)")
    case None
    with Suc.prems have "callResults call a (Suc i) m prog w = Some rs" by simp
    from Suc.IH [OF this, of res] show ?thesis
      unfolding executeActions_step using None by simp
  next
    case (Some am)
    with Suc.prems obtain r p1 w1 rs1 where
      c: "call prog am w = Some (Ret r, p1, w1)"
      and t: "callResults call a (Suc i) m p1 w1 = Some rs1" and rs: "rs = r # rs1"
      by (auto split: option.splits outcome.splits prod.splits)
    from Suc.IH [OF t, of r] show ?thesis
      unfolding executeActions_step using Some c rs by simp
  qed
qed

lemma executeActions_last:
  "executeActions call a i m res prog w = Some (Ret r, prog1, w1) \<Longrightarrow>
     \<exists>rs. callResults call a i m prog w = Some rs \<and> r = last (res # rs)"
proof (induction m arbitrary: i res prog w)
  case 0
  then show ?case by simp
next
  case (Suc m)
  show ?case
  proof (cases "functionCallAction (elemAt (heap w) a i)")
    case None
    with Suc.prems have "executeActions call a (Suc i) m res prog w = Some (Ret r, prog1, w1)"
      unfolding executeActions_step by simp
    from Suc.IH [OF this] show ?thesis using None by simp
  next
    case (Some am)
    with Suc.prems obtain r0 p0 w0 where
      c: "call prog am w = Some (Ret r0, p0, w0)"
      and e: "executeActions call a (Suc i) m r0 p0 w0 = Some (Ret r, prog1, w1)"
      unfolding executeActions_step
      by (auto split: option.splits outcome.splits prod.splits)
    from Suc.IH [OF e] obtain rs where
      "callResults call a (Suc i) m p0 w0 = Some rs" "r = last (r0 # rs)" by blast
    then show ?thesis using Some c by simp
  qed
qed

lemma executeActions_inert:
  assumes "elemAt (heap w) a i = VMap actionMap" "map_of actionMap ''type'' = Some (VStr t)"
    "t \<in> inertTags"
  shows "executeActions call a i (Suc m) res prog w = executeActions call a (Suc i) m res prog w"
  using assms by (auto simp add: inertTags_def)

lemma executeActions_no_call:
  "(\<forall>j. i \<le> j \<and> j < i + m \<longrightarrow> functionCallAction (elemAt (heap w) a j) = None) \<Longrightarrow>
     executeActions call a i m res prog w = Some (Ret res, prog, w)"
proof (induction m arbitrary: i)
  case 0
  then show ?case by simp
next
  case (Suc m)
  have "functionCallAction (elemAt (heap w) a i) = None" using Suc.prems by simp
  moreover have "executeActions call a (Suc i) m res prog w = Some (Ret res, prog, w)"
    using Suc.prems by (intro Suc.IH) simp
  ultimately show ?case unfolding executeActions_step by simp
qed

lemma executeFunction_Suc:
  "executeFunction (Suc k) L gb prog f args w =
     executeFunction_body (executeFunctionCall k L gb) prog f args w"
proof -
  have "executeFunctionCall_body (executeFunction k L gb) L gb = executeFunctionCall k L gb"
    by (intro ext) (simp add: executeFunctionCall_def)
  then show ?thesis by simp
qed

lemma executeFunction_actions:
  assumes "map_of (Functions prog) f = Some fd" "map_of fd ''actions'' = Some (VSlice a n c)"
  shows "executeFunction (Suc k) L gb prog f args w =
           executeActions (executeFunctionCall k L gb) a 0 n VNil prog w"
  unfolding executeFunction_Suc using assms by (simp add: executeFunction_body_def)

section \<open>Lemmas on the modifier engine\<close>

text \<open>
  A modifier that carries its condition under the key \<open>condition\<close> has no key
  \<open>condiction\<close>, so its actions are applied whatever the function's map holds.
\<close>

lemma applyModifier_without_condiction:
  assumes "find (\<lambda>m. map_of m ''name'' = Some (VStr nm)) (Modifiers prog) = Some modifier"
    "map_of modifier ''condiction'' = None"
    "map_of modifier ''actions'' = Some (VSlice a n c)"
  shows "applyModifier prog funcData nm w =
           (fold (\<lambda>action fd. case action of
                                  VMap actionMap \<Rightarrow> executeModifierAction fd actionMap
                                | _ \<Rightarrow> fd)
                 (take n (cell (heap w) a)) funcData, w)"
  using assms by (simp add: applyModifier_def)

lemma applyModifier_with_condiction:
  assumes "find (\<lambda>m. map_of m ''name'' = Some (VStr nm)) (Modifiers prog) = Some modifier"
    "map_of modifier ''condiction'' = Some (VStr ''function.args == undefined'')"
    "map_of funcData ''args'' = Some v"
  shows "applyModifier prog funcData nm w = (funcData, w)"
  using assms by (simp add: applyModifier_def evaluateCondition_args_undefined)

lemma assign_args:
  "executeModifierAction funcData
     [(''type'', VStr ''assignment''), (''target'', VStr ''function.args''), (''value'', v)]
   = AList.update ''args'' v funcData"
  by (simp add: executeModifierAction_def HasPrefix_def)

section \<open>Lemmas on the registry\<close>

text \<open>
  An entry of the descriptor whose implementation is known binds its name. Without a
  descriptor file the map \<open>gb_stdlibData\<close> is empty, not nil, so
  \<open>registerDefaultFunctions\<close> is not reached and the registry stays empty.
\<close>

lemma registerOne_binds:
  "getFunctionByImplName implName = Some f \<Longrightarrow>
     registerOne (nm, VMap [(''implementation'', VStr implName)]) (gb, w)
       = (gb\<lparr>gb_functions := AList.update nm f (gb_functions gb)\<rparr>, w)"
  by (simp add: registerOne_def)

lemma NewGoBackend_without_descriptor:
  "ioutil_ReadFile L (ext w) ''stdlib.go.json'' = None \<Longrightarrow>
     gb_functions (fst (NewGoBackend L w)) = []"
  by (simp add: NewGoBackend_def loadStdlib_def registerFunctions_def)

section \<open>The depth bound only bounds\<close>

text \<open>
  A run that ends within a depth ends in the same way within any greater depth: the
  depth given to \<open>executeFunction\<close> decides whether a result is reached, not which.
\<close>

lemma resolveImport_mono:
  assumes "\<And>p f a w0 r. exec p f a w0 = Some r \<Longrightarrow> exec' p f a w0 = Some r"
    and "resolveImport exec L gb prog path args w = Some r"
  shows "resolveImport exec' L gb prog path args w = Some r"
proof (cases "Contains path ''.'' \<and> \<not> HasPrefix path ''jsonlang.'' \<and> length (SplitDot path) \<ge> 2")
  case False
  have "resolveImport exec' L gb prog path args w = resolveImport exec L gb prog path args w"
    unfolding resolveImport_def if_not_P [OF False] ..
  then show ?thesis using assms(2) by simp
next
  case True
  let ?mp = "Join (butlast (SplitDot path)) ''.''"
  let ?fn = "last (SplitDot path)"
  have unf: "resolveImport ex L gb prog path args w =
     (case LoadModule L prog ?mp w of
        (Inl e, prog1, w1) \<Rightarrow> Some (Ret (VErr (ImportFailed e)), prog1, w1)
      | (Inr moduleProgram, prog1, w1) \<Rightarrow>
          if HasFunction moduleProgram ?fn then
            (case ex moduleProgram ?fn args w1 of
               None \<Rightarrow> None
             | Some (res, moduleProgram1, w2) \<Rightarrow>
                 Some (res, storeModule prog1 ?mp moduleProgram1, w2))
          else Some (Ret (VErr (ModuleFunctionNotFound ?mp ?fn)), prog1, w1))" for ex
    unfolding resolveImport_def if_P [OF True] Let_def ..
  obtain res p1 w1 where l: "LoadModule L prog ?mp w = (res, p1, w1)"
    by (cases "LoadModule L prog ?mp w")
  show ?thesis
  proof (cases res)
    case (Inl e)
    then show ?thesis using assms(2) l unfolding unf by simp
  next
    case (Inr m)
    show ?thesis
    proof (cases "HasFunction m ?fn")
      case False
      then show ?thesis using assms(2) l Inr unfolding unf by simp
    next
      case hf: True
      from assms(2) l Inr hf obtain x where e: "exec m ?fn args w1 = Some x"
        unfolding unf by (auto split: option.splits)
      then have e': "exec' m ?fn args w1 = Some x" by (rule assms(1))
      show ?thesis using assms(2) l Inr hf e e' unfolding unf by simp
    qed
  qed
qed

lemma executeFunctionCall_body_mono:
  assumes "\<And>p f a w0 r. exec p f a w0 = Some r \<Longrightarrow> exec' p f a w0 = Some r"
    and "executeFunctionCall_body exec L gb prog action w = Some r"
  shows "executeFunctionCall_body exec' L gb prog action w = Some r"
proof -
  obtain args w1 where ev: "evalArgs action w = (args, w1)" by (cases "evalArgs action w")
  show ?thesis
  proof (cases "\<exists>fn. map_of action ''function'' = Some (VStr fn)")
    case False
    then show ?thesis using assms(2)
      by (auto simp add: executeFunctionCall_body_def split: option.splits val.splits)
  next
    case True
    then obtain fn where fn: "map_of action ''function'' = Some (VStr fn)" by blast
    show ?thesis
    proof (cases "HasFunction prog fn")
      case True
      then have "exec prog fn args w1 = Some r"
        using assms(2) fn ev by (simp add: executeFunctionCall_body_def)
      then have "exec' prog fn args w1 = Some r" by (rule assms(1))
      then show ?thesis using True fn ev by (simp add: executeFunctionCall_body_def)
    next
      case nf: False
      show ?thesis
      proof (cases "map_of (Imports prog) fn")
        case (Some ref)
        then have "resolveImport exec L gb prog ref args w1 = Some r"
          using assms(2) fn ev nf by (simp add: executeFunctionCall_body_def)
        then have "resolveImport exec' L gb prog ref args w1 = Some r"
          by (rule resolveImport_mono [rotated]) (rule assms(1))
        then show ?thesis using Some fn ev nf by (simp add: executeFunctionCall_body_def)
      next
        case None
        let ?path = "case find (\<lambda>(key, value). value = TrimPrefix fn ''imports.'')
                            (range_imports L (ext w1) (Imports prog)) of
                       Some (key, value) \<Rightarrow> key | None \<Rightarrow> []"
        show ?thesis
        proof (cases "HasPrefix fn ''imports.'' \<and> ?path \<noteq> []")
          case True
          then have "resolveImport exec L gb prog ?path args w1 = Some r"
            using assms(2) fn ev nf None by (simp add: executeFunctionCall_body_def Let_def)
          then have "resolveImport exec' L gb prog ?path args w1 = Some r"
            by (rule resolveImport_mono [rotated]) (rule assms(1))
          then show ?thesis using True fn ev nf None
            by (simp add: executeFunctionCall_body_def Let_def)
        next
          case False
          then show ?thesis using assms(2) fn ev nf None
            by (auto simp add: executeFunctionCall_body_def Let_def)
        qed
      qed
    qed
  qed
qed

lemma executeActions_mono:
  assumes "\<And>p am w0 r. call p am w0 = Some r \<Longrightarrow> call' p am w0 = Some r"
  shows "executeActions call a i m res prog w = Some r \<Longrightarrow>
           executeActions call' a i m res prog w = Some r"
proof (induction m arbitrary: i res prog w)
  case 0
  then show ?case by simp
next
  case (Suc m)
  show ?case
  proof (cases "functionCallAction (elemAt (heap w) a i)")
    case None
    with Suc.prems have "executeActions call a (Suc i) m res prog w = Some r"
      unfolding executeActions_step by simp
    from Suc.IH [OF this] show ?thesis
      unfolding executeActions_step using None by simp
  next
    case (Some am)
    with Suc.prems obtain out p1 w1 where c: "call prog am w = Some (out, p1, w1)"
      unfolding executeActions_step by (auto split: option.splits)
    then have c': "call' prog am w = Some (out, p1, w1)" by (rule assms)
    show ?thesis
    proof (cases out)
      case (Ret v)
      with Suc.prems Some c have "executeActions call a (Suc i) m v p1 w1 = Some r"
        unfolding executeActions_step by simp
      from Suc.IH [OF this] show ?thesis
        unfolding executeActions_step using Some c' Ret by simp
    next
      case Panic
      with Suc.prems Some c have "r = (Panic, p1, w1)"
        unfolding executeActions_step by simp
      then show ?thesis
        unfolding executeActions_step using Some c' Panic by simp
    next
      case (Exit n)
      with Suc.prems Some c have "r = (Exit n, p1, w1)"
        unfolding executeActions_step by simp
      then show ?thesis
        unfolding executeActions_step using Some c' Exit by simp
    qed
  qed
qed

lemma executeFunction_body_mono:
  assumes "\<And>p am w0 r. call p am w0 = Some r \<Longrightarrow> call' p am w0 = Some r"
    and "executeFunction_body call prog f args w = Some r"
  shows "executeFunction_body call' prog f args w = Some r"
proof (cases "\<exists>fd a n c. map_of (Functions prog) f = Some fd
                \<and> map_of fd ''actions'' = Some (VSlice a n c)")
  case False
  then show ?thesis using assms(2)
    by (auto simp add: executeFunction_body_def split: option.splits val.splits)
next
  case True
  then obtain fd a n c where
    d: "map_of (Functions prog) f = Some fd" "map_of fd ''actions'' = Some (VSlice a n c)"
    by blast
  then have "executeActions call a 0 n VNil prog w = Some r"
    using assms(2) by (simp add: executeFunction_body_def)
  then have "executeActions call' a 0 n VNil prog w = Some r"
    by (rule executeActions_mono [rotated]) (rule assms(1))
  then show ?thesis using d by (simp add: executeFunction_body_def)
qed

lemma executeFunction_deeper:
  "executeFunction k L gb prog f args w = Some r \<Longrightarrow>
     executeFunction (Suc k) L gb prog f args w = Some r"
proof (induction k arbitrary: prog f args w r)
  case 0
  then show ?case by simp
next
  case (Suc k)
  have call: "executeFunctionCall (Suc k) L gb p am w0 = Some x"
    if h: "executeFunctionCall k L gb p am w0 = Some x" for p am w0 x
    using h unfolding executeFunctionCall_def
    by (rule executeFunctionCall_body_mono [rotated]) (rule Suc.IH)
  from Suc.prems have "executeFunction_body (executeFunctionCall k L gb) prog f args w = Some r"
    unfolding executeFunction_Suc .
  then have "executeFunction_body (executeFunctionCall (Suc k) L gb) prog f args w = Some r"
    by (rule executeFunction_body_mono [rotated]) (rule call)
  then show ?case unfolding executeFunction_Suc .
qed

lemma executeFunction_depth:
  "executeFunction k L gb prog f args w = Some r \<Longrightarrow>
     executeFunction (k + d) L gb prog f args w = Some r"
proof (induction d)
  case 0
  then show ?case by simp
next
  case (Suc d)
  then have "executeFunction (Suc (k + d)) L gb prog f args w = Some r"
    by (intro executeFunction_deeper) simp
  then show ?case by simp
qed

section \<open>The claims\<close>

subsection \<open>C1: a modifier with a condition\<close>

text \<open>
  C1 says that the modifier \<open>M\<close>, with the condition \<open>function.args == undefined\<close> and
  the action that assigns the empty list to \<open>function.args\<close>, gives a function without
  \<open>args\<close> the empty list and leaves a function that has \<open>args\<close> untouched.
  \<open>applyModifier\<close> reads the condition under the key \<open>condiction\<close>. A modifier whose
  condition is stored under \<open>condition\<close> is therefore applied without its condition
  being looked at: the function without \<open>args\<close> gets the empty list (the slice at
  address 2), and the function whose \<open>args\<close> is the list at address 3 gets it too. With
  the key spelt \<open>condiction\<close> the second function is left untouched.
\<close>

theorem modifier_condition_key_misspelt:
  "map_of (modifierM ''condition'') ''condition'' = Some (VStr ''function.args == undefined'')
   \<and> sliceElems modifierHeap (VSlice 2 0 0) = []
   \<and> sliceElems modifierHeap (VSlice 3 1 1) = [VStr ''x'']
   \<and> Functions (fst (applyModifiers (modifierProgram ''condition'' withoutArgs)
                         (exampleWorld modifierHeap [])))
       = [(''f'', [(''modifiers'', VSlice 0 1 1), (''args'', VSlice 2 0 0)])]
   \<and> Functions (modifierProgram ''condition'' withArgs)
       = [(''f'', [(''modifiers'', VSlice 0 1 1), (''args'', VSlice 3 1 1)])]
   \<and> Functions (fst (applyModifiers (modifierProgram ''condition'' withArgs)
                         (exampleWorld modifierHeap [])))
       = [(''f'', [(''modifiers'', VSlice 0 1 1), (''args'', VSlice 2 0 0)])]
   \<and> Functions (fst (applyModifiers (modifierProgram ''condiction'' withArgs)
                         (exampleWorld modifierHeap [])))
       = [(''f'', [(''modifiers'', VSlice 0 1 1), (''args'', VSlice 3 1 1)])]"
  by (simp add: applyModifiers_def applyFunctionModifiers_def applyModifier_def
      executeModifierAction_def evaluateCondition_args_undefined HasPrefix_def cell_def
      modifierProgram_def modifierM_def modifierHeap_def withArgs_def withoutArgs_def
      exampleWorld_def)

subsection \<open>C2: names with the prefix imports.\<close>

text \<open>
  C2, as stated, carries out the reference of the entry found. Read as the entry's
  value, the reference is the bare name itself, and the source takes the entry's key
  as the import path instead: in the example program the entry \<open>mylib.helper\<close> has the
  value \<open>add\<close>, and the call of \<open>imports.add\<close> tries to load the module \<open>mylib\<close> and
  fails, where carrying out \<open>add\<close> gives the backend's sum, 5. Read as the entry's
  key, the reference is not carried out when it is empty: with the one import whose
  key is empty and whose value is \<open>add\<close>, the call of \<open>imports.add\<close> is dispatched to
  the backend as \<open>add\<close> and gives 5, where carrying out the empty path asks the
  backend for an operation with the empty name.
\<close>

theorem imports_prefix_reference_counterexample:
  "(''mylib.helper'', ''add'') \<in> set (Imports importsProgram)
   \<and> map_of (callAction ''imports.add'') ''function'' = Some (VStr ''imports.add'')
   \<and> evalArgs (callAction ''imports.add'') callWorld = (VSlice 4 2 2, calledWorld)
   \<and> executeFunctionCall 0 exampleLib exampleBackend importsProgram
         (callAction ''imports.add'') callWorld
       = Some (Ret (VErr (ImportFailed (ModuleNotFound ''mylib''))), importsProgram, calledWorld)
   \<and> resolveImport (executeFunction 0 exampleLib exampleBackend) exampleLib exampleBackend
         importsProgram ''add'' (VSlice 4 2 2) calledWorld
       = Some (Ret (VNum 5), importsProgram, calledWorld)
   \<and> ([], ''add'') \<in> set (Imports emptyKeyProgram)
   \<and> executeFunctionCall 0 exampleLib exampleBackend emptyKeyProgram
         (callAction ''imports.add'') callWorld
       = Some (Ret (VNum 5), emptyKeyProgram, calledWorld)
   \<and> resolveImport (executeFunction 0 exampleLib exampleBackend) exampleLib exampleBackend
         emptyKeyProgram [] (VSlice 4 2 2) calledWorld
       = Some (Ret (VErr (NoSuchFunction [])), emptyKeyProgram, calledWorld)"
  by (simp add: executeFunctionCall_def executeFunctionCall_body_def evalArgs_def evalArg_def
      alloc_def cell_def HasFunction_def HasPrefix_def TrimPrefix_def resolveImport_def
      LoadModule_def possiblePaths_def lastSegment_def callBackend_def ExecuteFunction_def
      invoke_def gb_add_def toNumber_def importsProgram_def emptyKeyProgram_def calledWorld_def
      callWorld_def exampleWorld_def callHeap_def callAction_def exampleBackend_def
      exampleLib_def Let_def)

text \<open>
  C2, amended. For a call of \<open>imports.bare\<close>, a name that is neither a function of the
  program nor a key of its imports, with the evaluated arguments \<open>args\<close>: the imports
  are enumerated and the first entry whose value is \<open>bare\<close> is taken; when its key
  is not empty, the key is the import path that is carried out; when no entry has the
  value \<open>bare\<close>, the bare name is dispatched to the backend. When the enumeration gives
  exactly the entries of the imports: no entry with the value \<open>bare\<close> means the backend
  is called with \<open>bare\<close>, and an entry with the value \<open>bare\<close>, no key being empty, means
  the key of such an entry is carried out. Carrying out a path \<open>pre.suf\<close> that has no
  dot in \<open>suf\<close> and does not begin with \<open>jsonlang.\<close> loads the module \<open>pre\<close> and
  executes \<open>suf\<close> on it; carrying out a path that begins with \<open>jsonlang.\<close> or has no dot
  dispatches its last segment to the backend.
\<close>

theorem imports_prefix_by_key:
  assumes "map_of action ''function'' = Some (VStr (''imports.'' @ bare))"
    and "evalArgs action w = (args, w1)"
    and "\<not> HasFunction prog (''imports.'' @ bare)"
    and "map_of (Imports prog) (''imports.'' @ bare) = None"
  shows
  "(find (\<lambda>(key, value). value = bare) (range_imports L (ext w1) (Imports prog))
        = Some (key, v) \<and> key \<noteq> []
      \<longrightarrow> executeFunctionCall k L gb prog action w
            = resolveImport (executeFunction k L gb) L gb prog key args w1)
   \<and> (find (\<lambda>(key, value). value = bare) (range_imports L (ext w1) (Imports prog)) = None
      \<longrightarrow> executeFunctionCall k L gb prog action w = callBackend L gb prog bare args w1)
   \<and> (set (range_imports L (ext w1) (Imports prog)) = set (Imports prog)
        \<and> bare \<notin> snd ` set (Imports prog)
      \<longrightarrow> executeFunctionCall k L gb prog action w = callBackend L gb prog bare args w1)
   \<and> (set (range_imports L (ext w1) (Imports prog)) = set (Imports prog)
        \<and> bare \<in> snd ` set (Imports prog) \<and> [] \<notin> fst ` set (Imports prog)
      \<longrightarrow> (\<exists>key. (key, bare) \<in> set (Imports prog)
            \<and> executeFunctionCall k L gb prog action w
                = resolveImport (executeFunction k L gb) L gb prog key args w1))
   \<and> (CHR ''.'' \<notin> set suf \<and> \<not> HasPrefix (pre @ ''.'' @ suf) ''jsonlang.''
      \<longrightarrow> resolveImport (executeFunction k L gb) L gb prog (pre @ ''.'' @ suf) args w1 =
           (case LoadModule L prog pre w1 of
              (Inl e, prog1, w2) \<Rightarrow> Some (Ret (VErr (ImportFailed e)), prog1, w2)
            | (Inr m, prog1, w2) \<Rightarrow>
                if HasFunction m suf then
                  (case executeFunction k L gb m suf args w2 of
                     None \<Rightarrow> None
                   | Some (res, m1, w3) \<Rightarrow> Some (res, storeModule prog1 pre m1, w3))
                else Some (Ret (VErr (ModuleFunctionNotFound pre suf)), prog1, w2)))
   \<and> (HasPrefix path ''jsonlang.'' \<or> CHR ''.'' \<notin> set path
      \<longrightarrow> resolveImport (executeFunction k L gb) L gb prog path args w1
            = callBackend L gb prog (lastSegment (TrimPrefix path ''jsonlang.'')) args w1)"
proof -
  let ?P = "\<lambda>(key, value). value = bare"
  let ?xs = "range_imports L (ext w1) (Imports prog)"
  have pre: "HasPrefix (''imports.'' @ bare) ''imports.''"
    and tp: "TrimPrefix (''imports.'' @ bare) ''imports.'' = bare"
    by (simp_all add: HasPrefix_def TrimPrefix_def)
  have unf: "executeFunctionCall k L gb prog action w =
     (let importPath = (case find ?P ?xs of Some (key, value) \<Rightarrow> key | None \<Rightarrow> [])
      in if importPath \<noteq> [] then
           resolveImport (executeFunction k L gb) L gb prog importPath args w1
         else callBackend L gb prog bare args w1)"
    using assms pre tp
    by (simp add: executeFunctionCall_def executeFunctionCall_body_def Let_def
        del: append.simps)
  have 1: "find ?P ?xs = Some (key, v) \<and> key \<noteq> []
      \<longrightarrow> executeFunctionCall k L gb prog action w
            = resolveImport (executeFunction k L gb) L gb prog key args w1"
    unfolding unf by simp
  have 2: "find ?P ?xs = None
      \<longrightarrow> executeFunctionCall k L gb prog action w = callBackend L gb prog bare args w1"
    unfolding unf by simp
  have 3: "set ?xs = set (Imports prog) \<and> bare \<notin> snd ` set (Imports prog)
      \<longrightarrow> executeFunctionCall k L gb prog action w = callBackend L gb prog bare args w1"
  proof (intro impI, elim conjE)
    assume a: "set ?xs = set (Imports prog)" "bare \<notin> snd ` set (Imports prog)"
    have "find ?P ?xs = None"
      using a by (force simp add: find_None_iff)
    with 2 show "executeFunctionCall k L gb prog action w = callBackend L gb prog bare args w1"
      by simp
  qed
  have 4: "set ?xs = set (Imports prog)
        \<and> bare \<in> snd ` set (Imports prog) \<and> [] \<notin> fst ` set (Imports prog)
      \<longrightarrow> (\<exists>key. (key, bare) \<in> set (Imports prog)
            \<and> executeFunctionCall k L gb prog action w
                = resolveImport (executeFunction k L gb) L gb prog key args w1)"
  proof (intro impI, elim conjE)
    assume a: "set ?xs = set (Imports prog)" "bare \<in> snd ` set (Imports prog)"
      "[] \<notin> fst ` set (Imports prog)"
    from a(1,2) have "\<exists>x \<in> set ?xs. ?P x" by force
    then obtain kv where f: "find ?P ?xs = Some kv"
      by (cases "find ?P ?xs") (auto simp add: find_None_iff)
    obtain key0 v0 where kv: "kv = (key0, v0)" by (cases kv)
    from f kv have "(key0, v0) \<in> set ?xs" "v0 = bare"
      using find_Some_member [of ?P ?xs kv] by auto
    then have m: "(key0, bare) \<in> set (Imports prog)" using a(1) by simp
    then have "key0 \<noteq> []" using a(3) by force
    then have "executeFunctionCall k L gb prog action w
                = resolveImport (executeFunction k L gb) L gb prog key0 args w1"
      unfolding unf using f kv by simp
    with m show "\<exists>key. (key, bare) \<in> set (Imports prog)
            \<and> executeFunctionCall k L gb prog action w
                = resolveImport (executeFunction k L gb) L gb prog key args w1"
      by blast
  qed
  have 5: "CHR ''.'' \<notin> set suf \<and> \<not> HasPrefix (pre @ ''.'' @ suf) ''jsonlang.''
      \<longrightarrow> resolveImport (executeFunction k L gb) L gb prog (pre @ ''.'' @ suf) args w1 =
           (case LoadModule L prog pre w1 of
              (Inl e, prog1, w2) \<Rightarrow> Some (Ret (VErr (ImportFailed e)), prog1, w2)
            | (Inr m, prog1, w2) \<Rightarrow>
                if HasFunction m suf then
                  (case executeFunction k L gb m suf args w2 of
                     None \<Rightarrow> None
                   | Some (res, m1, w3) \<Rightarrow> Some (res, storeModule prog1 pre m1, w3))
                else Some (Ret (VErr (ModuleFunctionNotFound pre suf)), prog1, w2))"
    using resolveImport_module [of suf pre "executeFunction k L gb" L gb prog args w1] by blast
  have 6: "HasPrefix path ''jsonlang.'' \<or> CHR ''.'' \<notin> set path
      \<longrightarrow> resolveImport (executeFunction k L gb) L gb prog path args w1
            = callBackend L gb prog (lastSegment (TrimPrefix path ''jsonlang.'')) args w1"
    using resolveImport_backend [of path "executeFunction k L gb" L gb prog args w1] by blast
  from 1 2 3 4 5 6 show ?thesis by blast
qed

text \<open>
  In the example program: \<open>imports.add\<close> finds the entry with the key \<open>mylib.helper\<close>,
  so the module \<open>mylib\<close> is tried, and there is no file for it; \<open>imports.println\<close> finds
  no entry, so the backend prints the arguments.
\<close>

theorem imports_prefix_by_key_witness:
  "executeFunctionCall 0 exampleLib exampleBackend importsProgram
     (callAction ''imports.add'') callWorld
     = resolveImport (executeFunction 0 exampleLib exampleBackend) exampleLib exampleBackend
         importsProgram ''mylib.helper'' (VSlice 4 2 2) calledWorld
   \<and> (\<exists>key. (key, ''add'') \<in> set (Imports importsProgram)
         \<and> executeFunctionCall 0 exampleLib exampleBackend importsProgram
              (callAction ''imports.add'') callWorld
            = resolveImport (executeFunction 0 exampleLib exampleBackend) exampleLib
                exampleBackend importsProgram key (VSlice 4 2 2) calledWorld)
   \<and> resolveImport (executeFunction 0 exampleLib exampleBackend) exampleLib exampleBackend
         importsProgram (''mylib'' @ ''.'' @ ''helper'') (VSlice 4 2 2) calledWorld
     = Some (Ret (VErr (ImportFailed (ModuleNotFound ''mylib''))), importsProgram, calledWorld)
   \<and> executeFunctionCall 0 exampleLib exampleBackend importsProgram
        (callAction ''imports.println'') callWorld
     = callBackend exampleLib exampleBackend importsProgram ''println'' (VSlice 4 2 2) calledWorld
   \<and> resolveImport (executeFunction 0 exampleLib exampleBackend) exampleLib exampleBackend
         importsProgram ''println'' (VSlice 4 2 2) calledWorld
     = callBackend exampleLib exampleBackend importsProgram ''println'' (VSlice 4 2 2) calledWorld"
proof -
  have fn: "map_of (callAction (''imports.'' @ b)) ''function'' = Some (VStr (''imports.'' @ b))"
    for b by (simp add: callAction_def)
  have ev: "evalArgs (callAction f) callWorld = (VSlice 4 2 2, calledWorld)" for f
    by (simp add: callAction_def callWorld_def calledWorld_def exampleWorld_def callHeap_def
        evalArgs_def evalArg_def alloc_def cell_def)
  have nf: "\<not> HasFunction importsProgram (''imports.'' @ b)" for b
    by (simp add: HasFunction_def importsProgram_def)
  have ni: "map_of (Imports importsProgram) (''imports.'' @ b) = None" for b
    by (simp add: importsProgram_def)
  note t = imports_prefix_by_key [OF fn ev nf ni]
  note t1 = t [THEN conjunct1, THEN mp]
  note t2 = t [THEN conjunct2, THEN conjunct1, THEN mp]
  note t3 = t [THEN conjunct2, THEN conjunct2, THEN conjunct1, THEN mp]
  note t4 = t [THEN conjunct2, THEN conjunct2, THEN conjunct2, THEN conjunct1, THEN mp]
  note t5 = t [THEN conjunct2, THEN conjunct2, THEN conjunct2, THEN conjunct2, THEN conjunct1,
      THEN mp]
  note t6 = t [THEN conjunct2, THEN conjunct2, THEN conjunct2, THEN conjunct2, THEN conjunct2,
      THEN mp]
  have ri: "range_imports exampleLib x m = m" for x m
    by (simp add: exampleLib_def)
  have im: "Imports importsProgram
      = [(''plus'', ''jsonlang.math.add''), (''h'', ''otherpkg.util.helper''),
         (''g'', ''otherpkg.util.absent''), (''mylib.helper'', ''add'')]"
    by (simp add: importsProgram_def)
  have a: "executeFunctionCall 0 exampleLib exampleBackend importsProgram
     (callAction (''imports.'' @ ''add'')) callWorld
     = resolveImport (executeFunction 0 exampleLib exampleBackend) exampleLib exampleBackend
         importsProgram ''mylib.helper'' (VSlice 4 2 2) calledWorld"
  proof (rule t1)
    show "find (\<lambda>(key, value). value = ''add'')
            (range_imports exampleLib (ext calledWorld) (Imports importsProgram))
          = Some (''mylib.helper'', ''add'') \<and> ''mylib.helper'' \<noteq> []"
      unfolding ri im by simp
  qed
  have b: "\<exists>key. (key, ''add'') \<in> set (Imports importsProgram)
         \<and> executeFunctionCall 0 exampleLib exampleBackend importsProgram
              (callAction (''imports.'' @ ''add'')) callWorld
            = resolveImport (executeFunction 0 exampleLib exampleBackend) exampleLib
                exampleBackend importsProgram key (VSlice 4 2 2) calledWorld"
  proof (rule t4)
    show "set (range_imports exampleLib (ext calledWorld) (Imports importsProgram))
            = set (Imports importsProgram)
          \<and> ''add'' \<in> snd ` set (Imports importsProgram)
          \<and> [] \<notin> fst ` set (Imports importsProgram)"
      unfolding ri im by simp
  qed
  have l: "LoadModule exampleLib importsProgram ''mylib'' calledWorld
      = (Inl (ModuleNotFound ''mylib''), importsProgram, calledWorld)"
    by (simp add: LoadModule_def possiblePaths_def lastSegment_def HasPrefix_def importsProgram_def
        calledWorld_def callWorld_def exampleWorld_def exampleLib_def Let_def)
  have c: "resolveImport (executeFunction 0 exampleLib exampleBackend) exampleLib exampleBackend
         importsProgram (''mylib'' @ ''.'' @ ''helper'') (VSlice 4 2 2) calledWorld
     = Some (Ret (VErr (ImportFailed (ModuleNotFound ''mylib''))), importsProgram, calledWorld)"
  proof -
    have "CHR ''.'' \<notin> set ''helper'' \<and> \<not> HasPrefix (''mylib'' @ ''.'' @ ''helper'') ''jsonlang.''"
      by (simp add: HasPrefix_def)
    then have "resolveImport (executeFunction 0 exampleLib exampleBackend) exampleLib
         exampleBackend importsProgram (''mylib'' @ ''.'' @ ''helper'') (VSlice 4 2 2) calledWorld
       = (case LoadModule exampleLib importsProgram ''mylib'' calledWorld of
            (Inl e, prog1, w2) \<Rightarrow> Some (Ret (VErr (ImportFailed e)), prog1, w2)
          | (Inr m, prog1, w2) \<Rightarrow>
              if HasFunction m ''helper'' then
                (case executeFunction 0 exampleLib exampleBackend m ''helper'' (VSlice 4 2 2) w2 of
                   None \<Rightarrow> None
                 | Some (res, m1, w3) \<Rightarrow> Some (res, storeModule prog1 ''mylib'' m1, w3))
              else Some (Ret (VErr (ModuleFunctionNotFound ''mylib'' ''helper'')), prog1, w2))"
      by (rule t5)
    then show ?thesis unfolding l by simp
  qed
  have d: "executeFunctionCall 0 exampleLib exampleBackend importsProgram
        (callAction (''imports.'' @ ''println'')) callWorld
     = callBackend exampleLib exampleBackend importsProgram ''println'' (VSlice 4 2 2) calledWorld"
  proof (rule t2)
    show "find (\<lambda>(key, value). value = ''println'')
            (range_imports exampleLib (ext calledWorld) (Imports importsProgram)) = None"
      unfolding ri im by simp
  qed
  have d': "executeFunctionCall 0 exampleLib exampleBackend importsProgram
        (callAction (''imports.'' @ ''println'')) callWorld
     = callBackend exampleLib exampleBackend importsProgram ''println'' (VSlice 4 2 2) calledWorld"
  proof (rule t3)
    show "set (range_imports exampleLib (ext calledWorld) (Imports importsProgram))
            = set (Imports importsProgram)
          \<and> ''println'' \<notin> snd ` set (Imports importsProgram)"
      unfolding ri im by simp
  qed
  have e: "resolveImport (executeFunction 0 exampleLib exampleBackend) exampleLib exampleBackend
         importsProgram ''println'' (VSlice 4 2 2) calledWorld
     = callBackend exampleLib exampleBackend importsProgram ''println'' (VSlice 4 2 2) calledWorld"
  proof -
    have "HasPrefix ''println'' ''jsonlang.'' \<or> CHR ''.'' \<notin> set ''println''" by simp
    then have "resolveImport (executeFunction 0 exampleLib exampleBackend) exampleLib
         exampleBackend importsProgram ''println'' (VSlice 4 2 2) calledWorld
       = callBackend exampleLib exampleBackend importsProgram
           (lastSegment (TrimPrefix ''println'' ''jsonlang.'')) (VSlice 4 2 2) calledWorld"
      by (rule t6)
    then show ?thesis by (simp add: TrimPrefix_def HasPrefix_def lastSegment_def)
  qed
  from a b c d d' e show ?thesis by simp
qed

subsection \<open>C3: failures are values\<close>

text \<open>
  C3. Each of these failures is the returned value of the call, an Error, and the state
  goes on from there: a function that is not defined, a function without a list of
  actions, an operation that the backend does not have, a module that does not load, a
  module without the function, a division by zero, a list operation whose first
  argument is no list. In the loop of \<open>executeFunction\<close>, a call that returns a value
  \<open>v\<close>, an Error or not, makes the loop go on with the remaining actions, \<open>v\<close> being
  the result so far. When the function then returns, its result is the result of the
  last call made after the failing one, and it is the failing call's Error only when
  no call was made after it.
\<close>

theorem failures_are_values:
  "(map_of (Functions prog) f = None
      \<longrightarrow> executeFunction (Suc k) L gb prog f args w
            = Some (Ret (VErr (FunctionUndefined f)), prog, w))
   \<and> (map_of (Functions prog) f = Some fd \<and> (\<forall>a n c. map_of fd ''actions'' \<noteq> Some (VSlice a n c))
      \<longrightarrow> executeFunction (Suc k) L gb prog f args w
            = Some (Ret (VErr (MissingActions f)), prog, w))
   \<and> (map_of (gb_functions gb) nm = None
      \<longrightarrow> ExecuteFunction L gb nm args w = (Ret (VErr (NoSuchFunction nm)), w))
   \<and> (CHR ''.'' \<notin> set suf \<and> \<not> HasPrefix (pre @ ''.'' @ suf) ''jsonlang.''
        \<and> LoadModule L prog pre w = (Inl e, prog1, w1)
      \<longrightarrow> resolveImport exec L gb prog (pre @ ''.'' @ suf) args w
            = Some (Ret (VErr (ImportFailed e)), prog1, w1))
   \<and> (CHR ''.'' \<notin> set suf \<and> \<not> HasPrefix (pre @ ''.'' @ suf) ''jsonlang.''
        \<and> LoadModule L prog pre w = (Inr m, prog1, w1) \<and> \<not> HasFunction m suf
      \<longrightarrow> resolveImport exec L gb prog (pre @ ''.'' @ suf) args w
            = Some (Ret (VErr (ModuleFunctionNotFound pre suf)), prog1, w1))
   \<and> (map_of (gb_functions gb) ''divide'' = Some F_divide \<and> sliceElems (heap w) args = [x, VNum 0]
      \<longrightarrow> ExecuteFunction L gb ''divide'' args w = (Ret (VErr DivisionByZero), w))
   \<and> (map_of (gb_functions gb) nm = Some g \<and> g \<in> listOperations
        \<and> sliceElems (heap w) args = v # rest \<and> \<not> isSlice v \<and> required g \<le> length (v # rest)
      \<longrightarrow> (\<exists>e1. ExecuteFunction L gb nm args w = (Ret (VErr e1), w)))
   \<and> (functionCallAction (elemAt (heap w) a i) = Some am \<and> call prog am w = Some (Ret u, prog1, w1)
      \<longrightarrow> executeActions call a i (Suc n) res prog w
            = executeActions call a (Suc i) n u prog1 w1)
   \<and> (\<forall>r prog2 w2. executeActions call a (Suc i) n (VErr e) prog1 w1 = Some (Ret r, prog2, w2)
        \<longrightarrow> (\<exists>rs. callResults call a (Suc i) n prog1 w1 = Some rs
                   \<and> r = (if rs = [] then VErr e else last rs)))"
proof -
  have 1: "map_of (Functions prog) f = None
      \<longrightarrow> executeFunction (Suc k) L gb prog f args w
            = Some (Ret (VErr (FunctionUndefined f)), prog, w)"
    by (simp add: executeFunction_body_def)
  have 2: "map_of (Functions prog) f = Some fd \<and> (\<forall>a n c. map_of fd ''actions'' \<noteq> Some (VSlice a n c))
      \<longrightarrow> executeFunction (Suc k) L gb prog f args w
            = Some (Ret (VErr (MissingActions f)), prog, w)"
    by (auto simp add: executeFunction_body_def split: option.splits val.splits)
  have 3: "map_of (gb_functions gb) nm = None
      \<longrightarrow> ExecuteFunction L gb nm args w = (Ret (VErr (NoSuchFunction nm)), w)"
    by (simp add: ExecuteFunction_def)
  have 4: "CHR ''.'' \<notin> set suf \<and> \<not> HasPrefix (pre @ ''.'' @ suf) ''jsonlang.''
        \<and> LoadModule L prog pre w = (Inl e, prog1, w1)
      \<longrightarrow> resolveImport exec L gb prog (pre @ ''.'' @ suf) args w
            = Some (Ret (VErr (ImportFailed e)), prog1, w1)"
    using resolveImport_module [of suf pre exec L gb prog args w] by auto
  have 5: "CHR ''.'' \<notin> set suf \<and> \<not> HasPrefix (pre @ ''.'' @ suf) ''jsonlang.''
        \<and> LoadModule L prog pre w = (Inr m, prog1, w1) \<and> \<not> HasFunction m suf
      \<longrightarrow> resolveImport exec L gb prog (pre @ ''.'' @ suf) args w
            = Some (Ret (VErr (ModuleFunctionNotFound pre suf)), prog1, w1)"
    using resolveImport_module [of suf pre exec L gb prog args w] by auto
  have 6: "map_of (gb_functions gb) ''divide'' = Some F_divide \<and> sliceElems (heap w) args = [x, VNum 0]
      \<longrightarrow> ExecuteFunction L gb ''divide'' args w = (Ret (VErr DivisionByZero), w)"
    using divide_by_zero [of gb w args x L] by blast
  have 7: "map_of (gb_functions gb) nm = Some g \<and> g \<in> listOperations
        \<and> sliceElems (heap w) args = v # rest \<and> \<not> isSlice v \<and> required g \<le> length (v # rest)
      \<longrightarrow> (\<exists>e1. ExecuteFunction L gb nm args w = (Ret (VErr e1), w))"
    using invoke_not_list [of g w args v rest L] by (auto simp add: ExecuteFunction_bound)
  have 8: "functionCallAction (elemAt (heap w) a i) = Some am \<and> call prog am w = Some (Ret u, prog1, w1)
      \<longrightarrow> executeActions call a i (Suc n) res prog w
            = executeActions call a (Suc i) n u prog1 w1"
    using executeActions_after_call [of w a i am call prog u prog1 w1 n res] by blast
  have 9: "\<forall>r prog2 w2. executeActions call a (Suc i) n (VErr e) prog1 w1 = Some (Ret r, prog2, w2)
        \<longrightarrow> (\<exists>rs. callResults call a (Suc i) n prog1 w1 = Some rs
                   \<and> r = (if rs = [] then VErr e else last rs))"
  proof (intro allI impI)
    fix r prog2 w2
    assume "executeActions call a (Suc i) n (VErr e) prog1 w1 = Some (Ret r, prog2, w2)"
    from executeActions_last [OF this] obtain rs where
      "callResults call a (Suc i) n prog1 w1 = Some rs" "r = last (VErr e # rs)" by blast
    then show "\<exists>rs. callResults call a (Suc i) n prog1 w1 = Some rs
                   \<and> r = (if rs = [] then VErr e else last rs)"
      by (cases rs) auto
  qed
  from 1 2 3 4 5 6 7 8 9 show ?thesis by blast
qed

text \<open>
  In the example program: \<open>nope\<close> is no function and \<open>broken\<close> has no actions; the
  backend has no operation \<open>nothing\<close>; no file is there for the module
  \<open>otherpkg.none\<close>, and the module \<open>otherpkg.util\<close> has no function \<open>absent\<close>; 10
  divided by 0 and \<open>array_get\<close> of a string are Errors. The function \<open>twice\<close> calls
  \<open>nothing\<close>, which fails, then \<open>plus\<close>, and returns 5.
\<close>

theorem failures_are_values_witness:
  "executeFunction (Suc 0) exampleLib exampleBackend importsProgram ''nope'' VNil callWorld
     = Some (Ret (VErr (FunctionUndefined ''nope'')), importsProgram, callWorld)
   \<and> executeFunction (Suc 0) exampleLib exampleBackend importsProgram ''broken'' VNil callWorld
     = Some (Ret (VErr (MissingActions ''broken'')), importsProgram, callWorld)
   \<and> ExecuteFunction exampleLib exampleBackend ''nothing'' (VSlice 4 2 2) calledWorld
     = (Ret (VErr (NoSuchFunction ''nothing'')), calledWorld)
   \<and> resolveImport (executeFunction 0 exampleLib exampleBackend) exampleLib exampleBackend
        importsProgram (''otherpkg.none'' @ ''.'' @ ''helper'') (VSlice 4 2 2) callWorld
     = Some (Ret (VErr (ImportFailed (ModuleNotFound ''otherpkg.none''))), importsProgram,
             callWorld)
   \<and> map_option fst
        (resolveImport (executeFunction 0 exampleLib exampleBackend) exampleLib exampleBackend
           importsProgram (''otherpkg.util'' @ ''.'' @ ''absent'') (VSlice 4 2 2) callWorld)
     = Some (Ret (VErr (ModuleFunctionNotFound ''otherpkg.util'' ''absent'')))
   \<and> ExecuteFunction exampleLib exampleBackend ''divide'' (VSlice 1 2 2) backendWorld
     = (Ret (VErr DivisionByZero), backendWorld)
   \<and> (\<exists>e. ExecuteFunction exampleLib exampleBackend ''array_get'' (VSlice 4 2 2) backendWorld
            = (Ret (VErr e), backendWorld))
   \<and> map_option fst
        (executeFunction (Suc 0) exampleLib exampleBackend importsProgram ''twice'' VNil callWorld)
     = Some (Ret (VNum 5))
   \<and> (\<exists>rs. callResults (executeFunctionCall 0 exampleLib exampleBackend) 2 (Suc 0) 1
               importsProgram calledWorld = Some rs
            \<and> VNum 5 = (if rs = [] then VErr (NoSuchFunction ''nothing'') else last rs))"
proof -
  let ?call = "executeFunctionCall 0 exampleLib exampleBackend"
  note c1 = failures_are_values [THEN conjunct1, THEN mp]
  note c2 = failures_are_values [THEN conjunct2, THEN conjunct1, THEN mp]
  note c3 = failures_are_values [THEN conjunct2, THEN conjunct2, THEN conjunct1, THEN mp]
  note c4 = failures_are_values
    [THEN conjunct2, THEN conjunct2, THEN conjunct2, THEN conjunct1, THEN mp]
  note c5 = failures_are_values
    [THEN conjunct2, THEN conjunct2, THEN conjunct2, THEN conjunct2, THEN conjunct1, THEN mp]
  note c6 = failures_are_values
    [THEN conjunct2, THEN conjunct2, THEN conjunct2, THEN conjunct2, THEN conjunct2,
     THEN conjunct1, THEN mp]
  note c7 = failures_are_values
    [THEN conjunct2, THEN conjunct2, THEN conjunct2, THEN conjunct2, THEN conjunct2,
     THEN conjunct2, THEN conjunct1, THEN mp]
  note c8 = failures_are_values
    [THEN conjunct2, THEN conjunct2, THEN conjunct2, THEN conjunct2, THEN conjunct2,
     THEN conjunct2, THEN conjunct2, THEN conjunct1, THEN mp]
  note c9 = failures_are_values
    [THEN conjunct2, THEN conjunct2, THEN conjunct2, THEN conjunct2, THEN conjunct2,
     THEN conjunct2, THEN conjunct2, THEN conjunct2, THEN spec, THEN spec, THEN spec, THEN mp]
  have a: "executeFunction (Suc 0) exampleLib exampleBackend importsProgram ''nope'' VNil callWorld
     = Some (Ret (VErr (FunctionUndefined ''nope'')), importsProgram, callWorld)"
    by (rule c1) (simp add: importsProgram_def)
  have b: "executeFunction (Suc 0) exampleLib exampleBackend importsProgram ''broken'' VNil callWorld
     = Some (Ret (VErr (MissingActions ''broken'')), importsProgram, callWorld)"
  proof (rule c2)
    show "map_of (Functions importsProgram) ''broken'' = Some []
        \<and> (\<forall>a n c. map_of [] ''actions'' \<noteq> Some (VSlice a n c))"
      by (simp add: importsProgram_def)
  qed
  have c: "ExecuteFunction exampleLib exampleBackend ''nothing'' (VSlice 4 2 2) calledWorld
     = (Ret (VErr (NoSuchFunction ''nothing'')), calledWorld)"
    by (rule c3) (simp add: exampleBackend_def)
  have nd: "CHR ''.'' \<notin> set ''helper''" "CHR ''.'' \<notin> set ''absent''"
    "\<not> HasPrefix (''otherpkg.none'' @ ''.'' @ ''helper'') ''jsonlang.''"
    "\<not> HasPrefix (''otherpkg.util'' @ ''.'' @ ''absent'') ''jsonlang.''"
    by (simp_all add: HasPrefix_def)
  have l1: "LoadModule exampleLib importsProgram ''otherpkg.none'' callWorld
      = (Inl (ModuleNotFound ''otherpkg.none''), importsProgram, callWorld)"
    by (simp add: LoadModule_def possiblePaths_def lastSegment_def HasPrefix_def importsProgram_def
        callWorld_def exampleWorld_def exampleLib_def Let_def)
  have d: "resolveImport (executeFunction 0 exampleLib exampleBackend) exampleLib exampleBackend
        importsProgram (''otherpkg.none'' @ ''.'' @ ''helper'') (VSlice 4 2 2) callWorld
     = Some (Ret (VErr (ImportFailed (ModuleNotFound ''otherpkg.none''))), importsProgram,
             callWorld)"
    using nd(1,3) l1 by (intro c4 conjI)
  define built where
    "built = NewJSONProgram (callHeap @ [[]])
               [(''functions'', VMap [(''helper'', VMap [(''actions'', VSlice 4 0 0)])])]"
  have l2: "LoadModule exampleLib importsProgram ''otherpkg.util'' callWorld
      = (Inr built, storeModule importsProgram ''otherpkg.util'' built,
         callWorld\<lparr>reads := [''util.json''], heap := callHeap @ [[]]\<rparr>)"
    by (simp add: built_def LoadModule_def possiblePaths_def lastSegment_def HasPrefix_def
        importsProgram_def callWorld_def exampleWorld_def exampleLib_def unmarshalMap_def
        exampleModule_def callHeap_def Let_def eval_nat_numeral)
  have nf: "\<not> HasFunction built ''absent''"
    by (simp add: built_def HasFunction_def NewJSONProgram_def getFunctionMap_def
        List.map_filter_simps)
  have e: "map_option fst
        (resolveImport (executeFunction 0 exampleLib exampleBackend) exampleLib exampleBackend
           importsProgram (''otherpkg.util'' @ ''.'' @ ''absent'') (VSlice 4 2 2) callWorld)
     = Some (Ret (VErr (ModuleFunctionNotFound ''otherpkg.util'' ''absent'')))"
  proof -
    have "resolveImport (executeFunction 0 exampleLib exampleBackend) exampleLib exampleBackend
           importsProgram (''otherpkg.util'' @ ''.'' @ ''absent'') (VSlice 4 2 2) callWorld
      = Some (Ret (VErr (ModuleFunctionNotFound ''otherpkg.util'' ''absent'')),
              storeModule importsProgram ''otherpkg.util'' built,
              callWorld\<lparr>reads := [''util.json''], heap := callHeap @ [[]]\<rparr>)"
      using nd(2,4) l2 nf by (intro c5 conjI)
    then show ?thesis by simp
  qed
  have s1: "sliceElems (heap backendWorld) (VSlice 1 2 2) = [VNum 10, VNum 0]"
    and s4: "sliceElems (heap backendWorld) (VSlice 4 2 2) = VStr ''x'' # [VNum 1]"
    by (simp_all add: backendWorld_def exampleWorld_def cell_def)
  have reg: "map_of (gb_functions exampleBackend) ''divide'' = Some F_divide"
    "map_of (gb_functions exampleBackend) ''array_get'' = Some F_arrayGet"
    by (simp_all add: exampleBackend_def)
  have f: "ExecuteFunction exampleLib exampleBackend ''divide'' (VSlice 1 2 2) backendWorld
     = (Ret (VErr DivisionByZero), backendWorld)"
    using reg(1) s1 by (intro c6 conjI)
  have lo: "F_arrayGet \<in> listOperations" "\<not> isSlice (VStr ''x'')"
    "required F_arrayGet \<le> length (VStr ''x'' # [VNum 1])"
    by (simp_all add: listOperations_def required_def)
  have g: "\<exists>e. ExecuteFunction exampleLib exampleBackend ''array_get'' (VSlice 4 2 2) backendWorld
            = (Ret (VErr e), backendWorld)"
    using reg(2) lo s4 by (intro c7 conjI)
  have hp: "heap callWorld = callHeap"
    by (simp add: callWorld_def exampleWorld_def)
  have fc: "functionCallAction (elemAt (heap callWorld) 2 0) = Some (callAction ''nothing'')"
    by (simp add: hp callHeap_def elemAt_def cell_def functionCallAction_def callAction_def)
  have cn: "?call importsProgram (callAction ''nothing'') callWorld
      = Some (Ret (VErr (NoSuchFunction ''nothing'')), importsProgram, calledWorld)"
    by (simp add: executeFunctionCall_def executeFunctionCall_body_def evalArgs_def evalArg_def
        alloc_def cell_def HasFunction_def HasPrefix_def callBackend_def ExecuteFunction_def
        importsProgram_def calledWorld_def callWorld_def exampleWorld_def callHeap_def
        callAction_def exampleBackend_def Let_def)
  have st: "executeActions ?call 2 0 (Suc 1) VNil importsProgram callWorld
      = executeActions ?call 2 (Suc 0) 1 (VErr (NoSuchFunction ''nothing'')) importsProgram
          calledWorld"
    using fc cn by (intro c8 conjI)
  have hc: "heap calledWorld = callHeap @ [[VNum 2, VNum 3]]"
    by (simp add: calledWorld_def callWorld_def exampleWorld_def)
  have e1: "elemAt (heap calledWorld) 2 (Suc 0) = VMap (callAction ''plus'')"
    by (simp add: hc callHeap_def elemAt_def cell_def)
  have cp: "?call importsProgram (callAction ''plus'') calledWorld
      = Some (Ret (VNum 5), importsProgram,
              calledWorld\<lparr>heap := callHeap @ [[VNum 2, VNum 3], [VNum 2, VNum 3]]\<rparr>)"
    by (simp add: executeFunctionCall_def executeFunctionCall_body_def evalArgs_def evalArg_def
        alloc_def cell_def HasFunction_def HasPrefix_def TrimPrefix_def resolveImport_def
        callBackend_def ExecuteFunction_def invoke_def gb_add_def toNumber_def
        importsProgram_def calledWorld_def callWorld_def exampleWorld_def callHeap_def
        callAction_def exampleBackend_def Let_def)
  have rest: "executeActions ?call 2 (Suc 0) 1 (VErr (NoSuchFunction ''nothing'')) importsProgram
          calledWorld
      = Some (Ret (VNum 5), importsProgram,
              calledWorld\<lparr>heap := callHeap @ [[VNum 2, VNum 3], [VNum 2, VNum 3]]\<rparr>)"
    using e1 cp by (simp add: callAction_def)
  have tw: "executeFunction (Suc 0) exampleLib exampleBackend importsProgram ''twice'' VNil
              callWorld = executeActions ?call 2 0 2 VNil importsProgram callWorld"
    by (rule executeFunction_actions [where fd = "[(''actions'', VSlice 2 2 2)]"])
      (simp_all add: importsProgram_def)
  have h: "map_option fst
        (executeFunction (Suc 0) exampleLib exampleBackend importsProgram ''twice'' VNil callWorld)
     = Some (Ret (VNum 5))"
    unfolding tw st [unfolded Suc_1] rest by simp
  note i = c9 [OF rest]
  from a b c d e f g h i show ?thesis by blast
qed

subsection \<open>C4: the precedence of the resolver\<close>

text \<open>
  C4. For a call of the name \<open>fn\<close> with the evaluated arguments \<open>args\<close>: a name that is
  a function of the program is executed on the program, whatever the imports say.
  Otherwise, when the imports give \<open>fn\<close> a value \<open>pre.suf\<close> with no dot in \<open>suf\<close> that
  does not begin with \<open>jsonlang.\<close>, the module \<open>pre\<close> is loaded and \<open>suf\<close> is executed
  on it; a module without \<open>suf\<close> gives the module-function-not-found Error, a module
  that does not load gives an Error too. When the value is \<open>jsonlang.\<close> followed by
  \<open>rest\<close>, the last segment of \<open>rest\<close> is dispatched to the backend.
\<close>

theorem resolveCall_precedence:
  assumes "map_of action ''function'' = Some (VStr fn)"
    and "evalArgs action w = (args, w1)"
  shows
  "(HasFunction prog fn
      \<longrightarrow> executeFunctionCall k L gb prog action w = executeFunction k L gb prog fn args w1)
   \<and> (\<not> HasFunction prog fn \<and> map_of (Imports prog) fn = Some (pre @ ''.'' @ suf)
        \<and> CHR ''.'' \<notin> set suf \<and> \<not> HasPrefix (pre @ ''.'' @ suf) ''jsonlang.''
      \<longrightarrow> executeFunctionCall k L gb prog action w =
           (case LoadModule L prog pre w1 of
              (Inl e, prog1, w2) \<Rightarrow> Some (Ret (VErr (ImportFailed e)), prog1, w2)
            | (Inr m, prog1, w2) \<Rightarrow>
                if HasFunction m suf then
                  (case executeFunction k L gb m suf args w2 of
                     None \<Rightarrow> None
                   | Some (res, m1, w3) \<Rightarrow> Some (res, storeModule prog1 pre m1, w3))
                else Some (Ret (VErr (ModuleFunctionNotFound pre suf)), prog1, w2)))
   \<and> (\<not> HasFunction prog fn \<and> map_of (Imports prog) fn = Some (''jsonlang.'' @ rest)
      \<longrightarrow> executeFunctionCall k L gb prog action w
            = callBackend L gb prog (lastSegment rest) args w1)"
proof -
  have unf: "\<not> HasFunction prog fn \<Longrightarrow> map_of (Imports prog) fn = Some ref \<Longrightarrow>
      executeFunctionCall k L gb prog action w
        = resolveImport (executeFunction k L gb) L gb prog ref args w1" for ref
    using assms by (simp add: executeFunctionCall_def executeFunctionCall_body_def)
  have 1: "HasFunction prog fn
      \<longrightarrow> executeFunctionCall k L gb prog action w = executeFunction k L gb prog fn args w1"
    using assms by (simp add: executeFunctionCall_def executeFunctionCall_body_def)
  have 2: "\<not> HasFunction prog fn \<and> map_of (Imports prog) fn = Some (pre @ ''.'' @ suf)
        \<and> CHR ''.'' \<notin> set suf \<and> \<not> HasPrefix (pre @ ''.'' @ suf) ''jsonlang.''
      \<longrightarrow> executeFunctionCall k L gb prog action w =
           (case LoadModule L prog pre w1 of
              (Inl e, prog1, w2) \<Rightarrow> Some (Ret (VErr (ImportFailed e)), prog1, w2)
            | (Inr m, prog1, w2) \<Rightarrow>
                if HasFunction m suf then
                  (case executeFunction k L gb m suf args w2 of
                     None \<Rightarrow> None
                   | Some (res, m1, w3) \<Rightarrow> Some (res, storeModule prog1 pre m1, w3))
                else Some (Ret (VErr (ModuleFunctionNotFound pre suf)), prog1, w2))"
    using unf [of "pre @ ''.'' @ suf"]
      resolveImport_module [of suf pre "executeFunction k L gb" L gb prog args w1]
    by auto
  have 3: "\<not> HasFunction prog fn \<and> map_of (Imports prog) fn = Some (''jsonlang.'' @ rest)
      \<longrightarrow> executeFunctionCall k L gb prog action w
            = callBackend L gb prog (lastSegment rest) args w1"
    using unf [of "''jsonlang.'' @ rest"]
      resolveImport_backend [of "''jsonlang.'' @ rest" "executeFunction k L gb" L gb prog args w1]
    by (auto simp add: HasPrefix_def TrimPrefix_def)
  from 1 2 3 show ?thesis by blast
qed

text \<open>
  In the example program \<open>main\<close> is a function: calling it runs it and returns 5.
  \<open>h\<close> is imported as \<open>otherpkg.util.helper\<close>: the module \<open>otherpkg.util\<close> is loaded
  from \<open>util.json\<close> and its function \<open>helper\<close>, which has no actions, returns nil.
  \<open>g\<close> is imported as \<open>otherpkg.util.absent\<close>, which that module does not have.
  \<open>plus\<close> is imported as \<open>jsonlang.math.add\<close>: the backend adds 2 and 3.
\<close>

theorem resolveCall_precedence_witness:
  "map_option fst (executeFunctionCall 1 exampleLib exampleBackend importsProgram
                     (callAction ''main'') callWorld) = Some (Ret (VNum 5))
   \<and> map_option fst (executeFunctionCall 1 exampleLib exampleBackend importsProgram
                       (callAction ''h'') callWorld) = Some (Ret VNil)
   \<and> map_option fst (executeFunctionCall 1 exampleLib exampleBackend importsProgram
                       (callAction ''g'') callWorld)
       = Some (Ret (VErr (ModuleFunctionNotFound ''otherpkg.util'' ''absent'')))
   \<and> executeFunctionCall 1 exampleLib exampleBackend importsProgram
        (callAction ''plus'') callWorld = Some (Ret (VNum 5), importsProgram, calledWorld)"
proof -
  have fn: "map_of (callAction f) ''function'' = Some (VStr f)" for f
    by (simp add: callAction_def)
  have ev: "evalArgs (callAction f) callWorld = (VSlice 4 2 2, calledWorld)" for f
    by (simp add: callAction_def callWorld_def calledWorld_def exampleWorld_def callHeap_def
        evalArgs_def evalArg_def alloc_def cell_def)
  note user = resolveCall_precedence [OF fn ev, THEN conjunct1, THEN mp]
  note modul = resolveCall_precedence [OF fn ev, THEN conjunct2, THEN conjunct1, THEN mp]
  note std = resolveCall_precedence [OF fn ev, THEN conjunct2, THEN conjunct2, THEN mp]
  have hf: "HasFunction importsProgram ''main''" "\<not> HasFunction importsProgram ''h''"
    "\<not> HasFunction importsProgram ''g''" "\<not> HasFunction importsProgram ''plus''"
    by (simp_all add: HasFunction_def importsProgram_def)
  have im: "map_of (Imports importsProgram) ''h'' = Some (''otherpkg.util'' @ ''.'' @ ''helper'')"
    "map_of (Imports importsProgram) ''g'' = Some (''otherpkg.util'' @ ''.'' @ ''absent'')"
    "map_of (Imports importsProgram) ''plus'' = Some (''jsonlang.'' @ ''math.add'')"
    by (simp_all add: importsProgram_def)
  have nd: "CHR ''.'' \<notin> set ''helper''" "CHR ''.'' \<notin> set ''absent''"
    "\<not> HasPrefix (''otherpkg.util'' @ ''.'' @ ''helper'') ''jsonlang.''"
    "\<not> HasPrefix (''otherpkg.util'' @ ''.'' @ ''absent'') ''jsonlang.''"
    by (simp_all add: HasPrefix_def)
  have ld: "LoadModule exampleLib importsProgram ''otherpkg.util'' calledWorld
      = (Inr (NewJSONProgram (callHeap @ [[VNum 2, VNum 3], []])
                [(''functions'', VMap [(''helper'', VMap [(''actions'', VSlice 5 0 0)])])]),
         storeModule importsProgram ''otherpkg.util''
           (NewJSONProgram (callHeap @ [[VNum 2, VNum 3], []])
                [(''functions'', VMap [(''helper'', VMap [(''actions'', VSlice 5 0 0)])])]),
         calledWorld\<lparr>reads := [''util.json''], heap := callHeap @ [[VNum 2, VNum 3], []]\<rparr>)"
    by (simp add: LoadModule_def possiblePaths_def lastSegment_def HasPrefix_def importsProgram_def
        calledWorld_def callWorld_def exampleWorld_def exampleLib_def unmarshalMap_def
        exampleModule_def callHeap_def Let_def eval_nat_numeral)
  have mf: "Functions (NewJSONProgram h
                [(''functions'', VMap [(''helper'', VMap [(''actions'', VSlice 5 0 0)])])])
            = [(''helper'', [(''actions'', VSlice 5 0 0)])]" for h
    by (simp add: NewJSONProgram_def getFunctionMap_def List.map_filter_simps)
  have a: "executeFunctionCall 1 exampleLib exampleBackend importsProgram (callAction ''main'')
             callWorld
           = executeFunction 1 exampleLib exampleBackend importsProgram ''main'' (VSlice 4 2 2)
               calledWorld"
    using hf(1) by (rule user)
  have a': "map_option fst (executeFunction 1 exampleLib exampleBackend importsProgram ''main''
              (VSlice 4 2 2) calledWorld) = Some (Ret (VNum 5))"
    by (simp add: executeFunction_body_def executeFunctionCall_body_def evalArgs_def evalArg_def
        alloc_def cell_def elemAt_def HasFunction_def HasPrefix_def TrimPrefix_def
        resolveImport_def callBackend_def ExecuteFunction_def invoke_def gb_add_def toNumber_def
        importsProgram_def calledWorld_def callWorld_def exampleWorld_def callHeap_def
        callAction_def exampleBackend_def Let_def numeral_3_eq_3)
  have b: "executeFunctionCall 1 exampleLib exampleBackend importsProgram (callAction ''h'')
             callWorld
           = (case LoadModule exampleLib importsProgram ''otherpkg.util'' calledWorld of
                (Inl e, prog1, w2) \<Rightarrow> Some (Ret (VErr (ImportFailed e)), prog1, w2)
              | (Inr m, prog1, w2) \<Rightarrow>
                  if HasFunction m ''helper'' then
                    (case executeFunction 1 exampleLib exampleBackend m ''helper'' (VSlice 4 2 2) w2 of
                       None \<Rightarrow> None
                     | Some (res, m1, w3) \<Rightarrow>
                         Some (res, storeModule prog1 ''otherpkg.util'' m1, w3))
                  else Some (Ret (VErr (ModuleFunctionNotFound ''otherpkg.util'' ''helper'')),
                             prog1, w2))"
    using hf(2) im(1) nd(1,3) by (intro modul conjI)
  have b': "map_option fst (executeFunctionCall 1 exampleLib exampleBackend importsProgram
                       (callAction ''h'') callWorld) = Some (Ret VNil)"
    unfolding b ld by (simp add: HasFunction_def mf executeFunction_body_def)
  have c: "executeFunctionCall 1 exampleLib exampleBackend importsProgram (callAction ''g'')
             callWorld
           = (case LoadModule exampleLib importsProgram ''otherpkg.util'' calledWorld of
                (Inl e, prog1, w2) \<Rightarrow> Some (Ret (VErr (ImportFailed e)), prog1, w2)
              | (Inr m, prog1, w2) \<Rightarrow>
                  if HasFunction m ''absent'' then
                    (case executeFunction 1 exampleLib exampleBackend m ''absent'' (VSlice 4 2 2) w2 of
                       None \<Rightarrow> None
                     | Some (res, m1, w3) \<Rightarrow>
                         Some (res, storeModule prog1 ''otherpkg.util'' m1, w3))
                  else Some (Ret (VErr (ModuleFunctionNotFound ''otherpkg.util'' ''absent'')),
                             prog1, w2))"
    using hf(3) im(2) nd(2,4) by (intro modul conjI)
  have c': "map_option fst (executeFunctionCall 1 exampleLib exampleBackend importsProgram
                       (callAction ''g'') callWorld)
       = Some (Ret (VErr (ModuleFunctionNotFound ''otherpkg.util'' ''absent'')))"
    unfolding c ld by (simp add: HasFunction_def mf)
  have d: "executeFunctionCall 1 exampleLib exampleBackend importsProgram (callAction ''plus'')
             callWorld
           = callBackend exampleLib exampleBackend importsProgram (lastSegment ''math.add'')
               (VSlice 4 2 2) calledWorld"
    using hf(4) im(3) by (intro std conjI)
  have d': "callBackend exampleLib exampleBackend importsProgram (lastSegment ''math.add'')
               (VSlice 4 2 2) calledWorld = Some (Ret (VNum 5), importsProgram, calledWorld)"
    by (simp add: callBackend_def lastSegment_def HasPrefix_def ExecuteFunction_def invoke_def
        gb_add_def toNumber_def exampleBackend_def calledWorld_def callWorld_def
        exampleWorld_def callHeap_def cell_def)
  from a a' b' c' d d' show ?thesis by simp
qed

subsection \<open>C5: loading a module\<close>

text \<open>
  C5. \<open>LoadModule\<close> tries the files \<open>reference.json\<close>, \<open>reference\<close>,
  \<open>lastSegment.json\<close>, \<open>lastSegment\<close> in this order, where the last segment is what
  follows the last dot. A reference that is a key of the cache returns the cached
  program and leaves the world as it is, so no file is read. Otherwise: when none of
  the files exists the call fails with module-not-found; when \<open>file\<close> is the first that
  exists and has been read, a text that does not parse fails with a parse error, and a
  text that parses gives the program built from the parsed data, which is returned and
  stored in the cache under the reference as it was given. A second call with the same
  reference returns the same program and reads nothing.
\<close>

theorem loadModule_behaviour:
  "possiblePaths ref = [ref @ ''.json'', ref, lastSegment ref @ ''.json'', lastSegment ref]
   \<and> (map_of (LoadedModules jp) ref = Some m \<longrightarrow> LoadModule L jp ref w = (Inr m, jp, w))
   \<and> (map_of (LoadedModules jp) ref = None \<and> (\<forall>c \<in> set (possiblePaths ref). \<not> os_Stat L (ext w) c)
        \<longrightarrow> LoadModule L jp ref w = (Inl (ModuleNotFound ref), jp, w))
   \<and> (map_of (LoadedModules jp) ref = None \<and> possiblePaths ref = pre @ file # post
        \<and> (\<forall>c \<in> set pre. \<not> os_Stat L (ext w) c) \<and> os_Stat L (ext w) file \<and> file \<noteq> []
        \<and> ioutil_ReadFile L (ext w) file = Some data
        \<longrightarrow> (unmarshalMap L data (heap w) = None
               \<longrightarrow> LoadModule L jp ref w
                     = (Inl ModuleParseError, jp, w\<lparr>reads := reads w @ [file]\<rparr>))
          \<and> (\<forall>parsed h1. unmarshalMap L data (heap w) = Some (parsed, h1)
               \<longrightarrow> (let built = NewJSONProgram h1 (case parsed of None \<Rightarrow> [] | Some d \<Rightarrow> d);
                         jp1 = storeModule jp ref built
                     in LoadModule L jp ref w
                          = (Inr built, jp1, w\<lparr>reads := reads w @ [file], heap := h1\<rparr>)
                        \<and> map_of (LoadedModules jp1) ref = Some built)))
   \<and> (\<forall>m1 jp1 w1. LoadModule L jp ref w = (Inr m1, jp1, w1)
        \<longrightarrow> LoadModule L jp1 ref w1 = (Inr m1, jp1, w1))
   \<and> (CHR ''.'' \<notin> set suf \<longrightarrow> lastSegment (pfx @ ''.'' @ suf) = suf \<and> lastSegment suf = suf)"
proof -
  have 0: "possiblePaths ref = [ref @ ''.json'', ref, lastSegment ref @ ''.json'', lastSegment ref]"
    by (simp add: possiblePaths_def)
  have 1: "map_of (LoadedModules jp) ref = Some m \<longrightarrow> LoadModule L jp ref w = (Inr m, jp, w)"
    by (simp add: LoadModule_def)
  have 2: "map_of (LoadedModules jp) ref = None \<and> (\<forall>c \<in> set (possiblePaths ref). \<not> os_Stat L (ext w) c)
        \<longrightarrow> LoadModule L jp ref w = (Inl (ModuleNotFound ref), jp, w)"
  proof (intro impI, elim conjE)
    assume a: "map_of (LoadedModules jp) ref = None"
      "\<forall>c \<in> set (possiblePaths ref). \<not> os_Stat L (ext w) c"
    have "firstExisting (os_Stat L (ext w)) (possiblePaths ref) = []"
      using a(2) by (rule firstExisting_none)
    then show "LoadModule L jp ref w = (Inl (ModuleNotFound ref), jp, w)"
      using a(1) by (simp add: LoadModule_def)
  qed
  have 3: "map_of (LoadedModules jp) ref = None \<and> possiblePaths ref = pre @ file # post
        \<and> (\<forall>c \<in> set pre. \<not> os_Stat L (ext w) c) \<and> os_Stat L (ext w) file \<and> file \<noteq> []
        \<and> ioutil_ReadFile L (ext w) file = Some data
        \<longrightarrow> (unmarshalMap L data (heap w) = None
               \<longrightarrow> LoadModule L jp ref w
                     = (Inl ModuleParseError, jp, w\<lparr>reads := reads w @ [file]\<rparr>))
          \<and> (\<forall>parsed h1. unmarshalMap L data (heap w) = Some (parsed, h1)
               \<longrightarrow> (let built = NewJSONProgram h1 (case parsed of None \<Rightarrow> [] | Some d \<Rightarrow> d);
                         jp1 = storeModule jp ref built
                     in LoadModule L jp ref w
                          = (Inr built, jp1, w\<lparr>reads := reads w @ [file], heap := h1\<rparr>)
                        \<and> map_of (LoadedModules jp1) ref = Some built))"
  proof (intro impI, elim conjE)
    assume a: "map_of (LoadedModules jp) ref = None" "possiblePaths ref = pre @ file # post"
      "\<forall>c \<in> set pre. \<not> os_Stat L (ext w) c" "os_Stat L (ext w) file" "file \<noteq> []"
      "ioutil_ReadFile L (ext w) file = Some data"
    have f: "firstExisting (os_Stat L (ext w)) (possiblePaths ref) = file"
      unfolding a(2) using a(3,4) by (rule firstExisting_first)
    have unf: "LoadModule L jp ref w =
        (case unmarshalMap L data (heap w) of
           None \<Rightarrow> (Inl ModuleParseError, jp, w\<lparr>reads := reads w @ [file]\<rparr>)
         | Some (moduleData, h1) \<Rightarrow>
             (Inr (NewJSONProgram h1 (case moduleData of None \<Rightarrow> [] | Some d \<Rightarrow> d)),
              storeModule jp ref (NewJSONProgram h1 (case moduleData of None \<Rightarrow> [] | Some d \<Rightarrow> d)),
              w\<lparr>reads := reads w @ [file], heap := h1\<rparr>))"
      using a(1,5,6) f
      by (simp add: LoadModule_def Let_def split: option.splits)
    show "(unmarshalMap L data (heap w) = None
               \<longrightarrow> LoadModule L jp ref w
                     = (Inl ModuleParseError, jp, w\<lparr>reads := reads w @ [file]\<rparr>))
          \<and> (\<forall>parsed h1. unmarshalMap L data (heap w) = Some (parsed, h1)
               \<longrightarrow> (let built = NewJSONProgram h1 (case parsed of None \<Rightarrow> [] | Some d \<Rightarrow> d);
                         jp1 = storeModule jp ref built
                     in LoadModule L jp ref w
                          = (Inr built, jp1, w\<lparr>reads := reads w @ [file], heap := h1\<rparr>)
                        \<and> map_of (LoadedModules jp1) ref = Some built))"
      unfolding unf by (simp add: Let_def map_of_storeModule)
  qed
  have 4: "\<forall>m1 jp1 w1. LoadModule L jp ref w = (Inr m1, jp1, w1)
        \<longrightarrow> LoadModule L jp1 ref w1 = (Inr m1, jp1, w1)"
  proof (intro allI impI)
    fix m1 jp1 w1
    assume r: "LoadModule L jp ref w = (Inr m1, jp1, w1)"
    have "map_of (LoadedModules jp1) ref = Some m1"
      using r
      by (auto simp add: LoadModule_def Let_def map_of_storeModule
          split: option.splits if_splits prod.splits)
    then show "LoadModule L jp1 ref w1 = (Inr m1, jp1, w1)"
      by (simp add: LoadModule_def)
  qed
  have 5: "CHR ''.'' \<notin> set suf \<longrightarrow> lastSegment (pfx @ ''.'' @ suf) = suf \<and> lastSegment suf = suf"
    using lastSegment_suffix [of suf pfx] lastSegment_plain [of suf] by simp
  from 0 1 2 3 4 5 show ?thesis by blast
qed

text \<open>
  With the files \<open>util.json\<close>, a module, and \<open>bad.json\<close>, no JSON text: \<open>pkg.none\<close> is
  not found, \<open>pkg.bad\<close> fails to parse, \<open>pkg.util\<close> is built from \<open>util.json\<close> with
  one read, and loading it again reads nothing more.
\<close>

theorem loadModule_behaviour_witness:
  "LoadModule exampleLib importsProgram ''pkg.none'' callWorld
     = (Inl (ModuleNotFound ''pkg.none''), importsProgram, callWorld)
   \<and> LoadModule exampleLib importsProgram ''pkg.bad'' callWorld
     = (Inl ModuleParseError, importsProgram, callWorld\<lparr>reads := [''bad.json'']\<rparr>)
   \<and> (\<exists>built jp1 w1.
         LoadModule exampleLib importsProgram ''pkg.util'' callWorld = (Inr built, jp1, w1)
         \<and> reads w1 = [''util.json''] \<and> HasFunction built ''helper''
         \<and> map_of (LoadedModules jp1) ''pkg.util'' = Some built
         \<and> LoadModule exampleLib jp1 ''pkg.util'' w1 = (Inr built, jp1, w1))
   \<and> lastSegment ''pkg.util'' = ''util''"
proof -
  note paths = loadModule_behaviour [THEN conjunct1]
  note none = loadModule_behaviour [THEN conjunct2, THEN conjunct2, THEN conjunct1, THEN mp]
  note found = loadModule_behaviour
    [THEN conjunct2, THEN conjunct2, THEN conjunct2, THEN conjunct1, THEN mp]
  note again = loadModule_behaviour
    [THEN conjunct2, THEN conjunct2, THEN conjunct2, THEN conjunct2, THEN conjunct1,
     THEN spec, THEN spec, THEN spec, THEN mp]
  note seg = loadModule_behaviour
    [THEN conjunct2, THEN conjunct2, THEN conjunct2, THEN conjunct2, THEN conjunct2, THEN mp]
  note cached = loadModule_behaviour [THEN conjunct2, THEN conjunct1, THEN mp]
  have cache: "map_of (LoadedModules importsProgram) r = None" for r
    by (simp add: importsProgram_def)
  have ls: "lastSegment ''pkg.none'' = ''none''" "lastSegment ''pkg.bad'' = ''bad''"
    "lastSegment ''pkg.util'' = ''util''"
    using seg [of "''none''" "''pkg''"] seg [of "''bad''" "''pkg''"] seg [of "''util''" "''pkg''"]
    by simp_all
  have rd: "reads callWorld = []" "heap callWorld = callHeap"
    by (simp_all add: callWorld_def exampleWorld_def)
  have st: "os_Stat exampleLib (ext callWorld) p = (p = ''util.json'' \<or> p = ''bad.json'')" for p
    by (simp add: callWorld_def exampleWorld_def exampleLib_def)
  have a: "LoadModule exampleLib importsProgram ''pkg.none'' callWorld
     = (Inl (ModuleNotFound ''pkg.none''), importsProgram, callWorld)"
  proof (rule none, rule conjI)
    show "map_of (LoadedModules importsProgram) ''pkg.none'' = None" by (rule cache)
    show "\<forall>c \<in> set (possiblePaths ''pkg.none''). \<not> os_Stat exampleLib (ext callWorld) c"
      unfolding paths ls by (simp add: st)
  qed
  have b: "LoadModule exampleLib importsProgram ''pkg.bad'' callWorld
     = (Inl ModuleParseError, importsProgram, callWorld\<lparr>reads := [''bad.json'']\<rparr>)"
  proof -
    have p: "possiblePaths ''pkg.bad'' = [''pkg.bad.json'', ''pkg.bad''] @ ''bad.json'' # [''bad'']"
      unfolding paths ls by simp
    have q: "\<forall>c \<in> set [''pkg.bad.json'', ''pkg.bad'']. \<not> os_Stat exampleLib (ext callWorld) c"
      "os_Stat exampleLib (ext callWorld) ''bad.json''" "''bad.json'' \<noteq> []"
      by (simp_all add: st)
    have r: "ioutil_ReadFile exampleLib (ext callWorld) ''bad.json'' = Some ''???''"
      by (simp add: callWorld_def exampleWorld_def exampleLib_def)
    have u: "unmarshalMap exampleLib ''???'' (heap callWorld) = None"
      by (simp add: unmarshalMap_def exampleLib_def)
    have "map_of (LoadedModules importsProgram) ''pkg.bad'' = None
        \<and> possiblePaths ''pkg.bad'' = [''pkg.bad.json'', ''pkg.bad''] @ ''bad.json'' # [''bad'']
        \<and> (\<forall>c \<in> set [''pkg.bad.json'', ''pkg.bad'']. \<not> os_Stat exampleLib (ext callWorld) c)
        \<and> os_Stat exampleLib (ext callWorld) ''bad.json'' \<and> ''bad.json'' \<noteq> []
        \<and> ioutil_ReadFile exampleLib (ext callWorld) ''bad.json'' = Some ''???''"
      using cache p q r by blast
    from found [OF this, THEN conjunct1, THEN mp, OF u]
    show ?thesis by (simp add: rd)
  qed
  have c: "\<exists>built jp1 w1.
         LoadModule exampleLib importsProgram ''pkg.util'' callWorld = (Inr built, jp1, w1)
         \<and> reads w1 = [''util.json''] \<and> HasFunction built ''helper''
         \<and> map_of (LoadedModules jp1) ''pkg.util'' = Some built
         \<and> LoadModule exampleLib jp1 ''pkg.util'' w1 = (Inr built, jp1, w1)"
  proof -
    have p: "possiblePaths ''pkg.util'' = [''pkg.util.json'', ''pkg.util''] @ ''util.json'' # [''util'']"
      unfolding paths ls by simp
    have q: "\<forall>c \<in> set [''pkg.util.json'', ''pkg.util'']. \<not> os_Stat exampleLib (ext callWorld) c"
      "os_Stat exampleLib (ext callWorld) ''util.json''" "''util.json'' \<noteq> []"
      by (simp_all add: st)
    have r: "ioutil_ReadFile exampleLib (ext callWorld) ''util.json'' = Some ''module''"
      by (simp add: callWorld_def exampleWorld_def exampleLib_def)
    define parsed where
      "parsed = Some [(''functions'',
                       VMap [(''helper'', VMap [(''actions'', VSlice (length callHeap) 0 0)])])]"
    define h1 where "h1 = callHeap @ [[]]"
    have u: "unmarshalMap exampleLib ''module'' (heap callWorld) = Some (parsed, h1)"
      by (simp add: unmarshalMap_def exampleLib_def exampleModule_def rd parsed_def h1_def)
    define built where "built = NewJSONProgram h1 (case parsed of None \<Rightarrow> [] | Some d \<Rightarrow> d)"
    define jp1 where "jp1 = storeModule importsProgram ''pkg.util'' built"
    define w1 where "w1 = callWorld\<lparr>reads := reads callWorld @ [''util.json''], heap := h1\<rparr>"
    have "map_of (LoadedModules importsProgram) ''pkg.util'' = None
        \<and> possiblePaths ''pkg.util'' = [''pkg.util.json'', ''pkg.util''] @ ''util.json'' # [''util'']
        \<and> (\<forall>c \<in> set [''pkg.util.json'', ''pkg.util'']. \<not> os_Stat exampleLib (ext callWorld) c)
        \<and> os_Stat exampleLib (ext callWorld) ''util.json'' \<and> ''util.json'' \<noteq> []
        \<and> ioutil_ReadFile exampleLib (ext callWorld) ''util.json'' = Some ''module''"
      using cache p q r by blast
    from found [OF this, THEN conjunct2, THEN spec, THEN spec, THEN mp, OF u]
    have l: "LoadModule exampleLib importsProgram ''pkg.util'' callWorld = (Inr built, jp1, w1)"
      and s: "map_of (LoadedModules jp1) ''pkg.util'' = Some built"
      unfolding Let_def built_def jp1_def w1_def by blast+
    have ag: "LoadModule exampleLib jp1 ''pkg.util'' w1 = (Inr built, jp1, w1)"
      using l by (rule again)
    have ag2: "LoadModule exampleLib jp1 ''pkg.util'' w1 = (Inr built, jp1, w1)"
      using s by (rule cached)
    have hf: "HasFunction built ''helper''"
      by (simp add: built_def parsed_def HasFunction_def NewJSONProgram_def getFunctionMap_def
          List.map_filter_simps)
    have "reads w1 = [''util.json'']" by (simp add: w1_def rd)
    with l s ag hf show ?thesis by blast
  qed
  from a b c ls(3) show ?thesis by blast
qed

subsection \<open>C6: the result of a function\<close>

text \<open>
  C6. For a function whose \<open>actions\<close> is a list of \<open>n\<close> actions, \<open>executeFunction\<close>
  runs the loop over the actions from the first, with nil as the result so far. An
  action tagged \<open>literal\<close>, \<open>variable_declaration\<close>, \<open>assignment\<close>, \<open>if_statement\<close>,
  \<open>loop\<close> or \<open>return\<close> is passed over: the loop goes on with the next action, the
  result so far and the state as they were. The function returns a value exactly when
  every call it makes returns one, and that value is the result of the last call made,
  or nil when no call was made; a list with no function_call action returns nil and
  changes nothing.
\<close>

theorem executeFunction_result:
  assumes "map_of (Functions prog) f = Some fd"
    and "map_of fd ''actions'' = Some (VSlice a n c)"
  shows
  "executeFunction (Suc k) L gb prog f args w
     = executeActions (executeFunctionCall k L gb) a 0 n VNil prog w
   \<and> (\<forall>i m res p w0 am t.
         elemAt (heap w0) a i = VMap am \<and> map_of am ''type'' = Some (VStr t) \<and> t \<in> inertTags
         \<longrightarrow> executeActions (executeFunctionCall k L gb) a i (Suc m) res p w0
               = executeActions (executeFunctionCall k L gb) a (Suc i) m res p w0)
   \<and> (\<forall>rs. callResults (executeFunctionCall k L gb) a 0 n prog w = Some rs
         \<longrightarrow> (\<exists>p1 w1. executeFunction (Suc k) L gb prog f args w
                        = Some (Ret (if rs = [] then VNil else last rs), p1, w1)))
   \<and> (\<forall>r p1 w1. executeFunction (Suc k) L gb prog f args w = Some (Ret r, p1, w1)
         \<longrightarrow> (\<exists>rs. callResults (executeFunctionCall k L gb) a 0 n prog w = Some rs
                    \<and> r = (if rs = [] then VNil else last rs)))
   \<and> ((\<forall>j < n. functionCallAction (elemAt (heap w) a j) = None)
         \<longrightarrow> executeFunction (Suc k) L gb prog f args w = Some (Ret VNil, prog, w))"
proof -
  let ?call = "executeFunctionCall k L gb"
  have 1: "executeFunction (Suc k) L gb prog f args w = executeActions ?call a 0 n VNil prog w"
    using assms by (rule executeFunction_actions)
  have 2: "\<forall>i m res p w0 am t.
         elemAt (heap w0) a i = VMap am \<and> map_of am ''type'' = Some (VStr t) \<and> t \<in> inertTags
         \<longrightarrow> executeActions ?call a i (Suc m) res p w0
               = executeActions ?call a (Suc i) m res p w0"
    using executeActions_inert by blast
  have 3: "\<forall>rs. callResults ?call a 0 n prog w = Some rs
         \<longrightarrow> (\<exists>p1 w1. executeFunction (Suc k) L gb prog f args w
                        = Some (Ret (if rs = [] then VNil else last rs), p1, w1))"
  proof (intro allI impI)
    fix rs assume "callResults ?call a 0 n prog w = Some rs"
    from executeActions_returns [OF this, of VNil]
    show "\<exists>p1 w1. executeFunction (Suc k) L gb prog f args w
                        = Some (Ret (if rs = [] then VNil else last rs), p1, w1)"
      unfolding 1 by (cases rs) auto
  qed
  have 4: "\<forall>r p1 w1. executeFunction (Suc k) L gb prog f args w = Some (Ret r, p1, w1)
         \<longrightarrow> (\<exists>rs. callResults ?call a 0 n prog w = Some rs
                    \<and> r = (if rs = [] then VNil else last rs))"
  proof (intro allI impI)
    fix r p1 w1 assume "executeFunction (Suc k) L gb prog f args w = Some (Ret r, p1, w1)"
    then have "executeActions ?call a 0 n VNil prog w = Some (Ret r, p1, w1)"
      unfolding 1 .
    from executeActions_last [OF this] obtain rs where
      "callResults ?call a 0 n prog w = Some rs" "r = last (VNil # rs)" by blast
    then show "\<exists>rs. callResults ?call a 0 n prog w = Some rs
                    \<and> r = (if rs = [] then VNil else last rs)"
      by (cases rs) auto
  qed
  have 5: "(\<forall>j < n. functionCallAction (elemAt (heap w) a j) = None)
         \<longrightarrow> executeFunction (Suc k) L gb prog f args w = Some (Ret VNil, prog, w)"
    unfolding 1 using executeActions_no_call [of 0 n w a ?call VNil prog] by simp
  from 1 2 3 4 5 show ?thesis by blast
qed

text \<open>
  In the example program \<open>main\<close> is a literal, a call that returns 5, and a return: the
  literal and the return are passed over and \<open>main\<close> returns 5. \<open>idle\<close> is a loop
  action alone and returns nil.
\<close>

theorem executeFunction_result_witness:
  "executeFunction (Suc 0) exampleLib exampleBackend importsProgram ''main'' VNil callWorld
     = Some (Ret (VNum 5), importsProgram, calledWorld)
   \<and> callResults (executeFunctionCall 0 exampleLib exampleBackend) 1 0 3 importsProgram callWorld
     = Some [VNum 5]
   \<and> executeActions (executeFunctionCall 0 exampleLib exampleBackend) 1 0 (Suc 2) VNil
        importsProgram callWorld
     = executeActions (executeFunctionCall 0 exampleLib exampleBackend) 1 (Suc 0) 2 VNil
        importsProgram callWorld
   \<and> executeFunction (Suc 0) exampleLib exampleBackend importsProgram ''idle'' VNil callWorld
     = Some (Ret VNil, importsProgram, callWorld)"
proof -
  have fm: "map_of (Functions importsProgram) ''main'' = Some [(''actions'', VSlice 1 3 3)]"
    "map_of (Functions importsProgram) ''idle'' = Some [(''actions'', VSlice 3 1 1)]"
    by (simp_all add: importsProgram_def)
  have am: "map_of [(''actions'', VSlice x y z)] ''actions'' = Some (VSlice x y z)" for x y z
    by simp
  note main = executeFunction_result [OF fm(1) am]
  note idle = executeFunction_result [OF fm(2) am]
  have hp: "heap callWorld = callHeap"
    by (simp add: callWorld_def exampleWorld_def)
  have e0: "elemAt callHeap 1 0 = VMap [(''type'', VStr ''literal'')]"
    and e1: "elemAt callHeap 1 (Suc 0) = VMap (callAction ''plus'')"
    and e3: "elemAt callHeap 3 0 = VMap [(''type'', VStr ''loop'')]"
    by (simp_all add: callHeap_def elemAt_def cell_def)
  have plus: "executeFunctionCall 0 exampleLib exampleBackend importsProgram
                (callAction ''plus'') callWorld = Some (Ret (VNum 5), importsProgram, calledWorld)"
    by (simp add: executeFunctionCall_def executeFunctionCall_body_def evalArgs_def evalArg_def
        alloc_def cell_def HasFunction_def HasPrefix_def TrimPrefix_def resolveImport_def
        callBackend_def ExecuteFunction_def invoke_def gb_add_def toNumber_def
        importsProgram_def calledWorld_def callWorld_def exampleWorld_def callHeap_def
        callAction_def exampleBackend_def Let_def)
  have hc: "heap calledWorld = callHeap @ [[VNum 2, VNum 3]]"
    by (simp add: calledWorld_def callWorld_def exampleWorld_def)
  have e2': "elemAt (heap calledWorld) 1 (Suc (Suc 0)) = VMap [(''type'', VStr ''return'')]"
    by (simp add: hc callHeap_def elemAt_def cell_def)
  have cr: "callResults (executeFunctionCall 0 exampleLib exampleBackend) 1 0 3 importsProgram
              callWorld = Some [VNum 5]"
    by (simp add: numeral_3_eq_3 hp e0 e1 e2' functionCallAction_def callAction_def
        plus [unfolded callAction_def]
        del: One_nat_def)
  from main [THEN conjunct2, THEN conjunct2, THEN conjunct1, THEN spec, THEN mp, OF cr]
  have r: "\<exists>p1 w1. executeFunction (Suc 0) exampleLib exampleBackend importsProgram ''main''
                    VNil callWorld = Some (Ret (VNum 5), p1, w1)"
    by (simp del: executeFunction.simps)
  have a: "executeFunction (Suc 0) exampleLib exampleBackend importsProgram ''main'' VNil callWorld
     = Some (Ret (VNum 5), importsProgram, calledWorld)"
  proof -
    have "executeActions (executeFunctionCall 0 exampleLib exampleBackend) 1 0 3 VNil
            importsProgram callWorld = Some (Ret (VNum 5), importsProgram, calledWorld)"
      by (simp add: numeral_3_eq_3 hp e0 e1 e2' callAction_def plus [unfolded callAction_def]
          del: One_nat_def)
    then show ?thesis unfolding main [THEN conjunct1] .
  qed
  have inert: "elemAt (heap callWorld) 1 0 = VMap [(''type'', VStr ''literal'')]
      \<and> map_of [(''type'', VStr ''literal'')] ''type'' = Some (VStr ''literal'')
      \<and> ''literal'' \<in> inertTags"
    using e0 by (simp add: hp inertTags_def)
  have b: "executeActions (executeFunctionCall 0 exampleLib exampleBackend) 1 0 (Suc 2) VNil
        importsProgram callWorld
     = executeActions (executeFunctionCall 0 exampleLib exampleBackend) 1 (Suc 0) 2 VNil
        importsProgram callWorld"
    by (rule main [THEN conjunct2, THEN conjunct1, THEN spec, THEN spec, THEN spec, THEN spec,
      THEN spec, THEN spec, THEN spec, THEN mp, OF inert])
  have nc: "\<forall>j < 1. functionCallAction (elemAt (heap callWorld) 3 j) = None"
    using e3 by (simp add: hp functionCallAction_def)
  note c = idle [THEN conjunct2, THEN conjunct2, THEN conjunct2, THEN conjunct2, THEN mp, OF nc]
  from a cr b c show ?thesis by blast
qed

subsection \<open>C7: edge policies of the backend\<close>

text \<open>
  C7, as stated, promises an Error from \<open>array_get\<close> for every index outside
  \<open>[0, len)\<close>. The method converts the index with \<open>int(...)\<close>, which drops the
  fraction, so an index strictly between \<open>-1\<close> and \<open>0\<close> reads element 0: on the list
  \<open>[1, 2, 3]\<close> the index \<open>-1/2\<close>, which is not in \<open>[0, 3)\<close>, returns \<open>1\<close>.
\<close>

theorem array_get_fraction_counterexample:
  "sliceElems (heap backendWorld) (VSlice 8 2 2) = [VSlice 0 3 3, VNum (- (1 / 2))]
   \<and> sliceElems (heap backendWorld) (VSlice 0 3 3) = [VNum 1, VNum 2, VNum 3]
   \<and> \<not> (0 \<le> (- (1 / 2) :: real) \<and> (- (1 / 2) :: real) < 3)
   \<and> ExecuteFunction exampleLib exampleBackend ''array_get'' (VSlice 8 2 2) backendWorld
        = (Ret (VNum 1), backendWorld)"
  by (simp add: backendWorld_def exampleWorld_def exampleBackend_def ExecuteFunction_def
      invoke_def gb_arrayGet_def cell_def elemAt_def toNumber_def toInt_def truncToZero_def)

text \<open>
  C7, amended: on a backend whose registry binds the names to the methods, with the
  argument list \<open>vs\<close>:
  \<open>divide\<close> of any value by 0 returns an Error;
  \<open>sqrt\<close> of a negative number returns an Error;
  \<open>array_get\<close> returns an Error whenever the integer that the index converts to,
  its truncation toward zero, lies outside \<open>[0, len)\<close>, which within the range of int
  is the case for every index at most \<open>-1\<close> and every index at least \<open>len\<close>;
  a list operation given enough arguments, the first of which is no list, returns an
  Error;
  an operation given fewer arguments than it requires returns its default, which is
  no Error (for \<open>add\<close> the number 0);
  \<open>add\<close> of 2 and 3 returns 5.
  The state of the world is the same after each of these calls.
\<close>

theorem backend_edge_policies:
  assumes "sliceElems (heap w) args = vs"
  shows
  "(map_of (gb_functions gb) ''divide'' = Some F_divide \<and> vs = [a, VNum 0]
      \<longrightarrow> ExecuteFunction L gb ''divide'' args w = (Ret (VErr DivisionByZero), w))
   \<and> (map_of (gb_functions gb) ''sqrt'' = Some F_sqrt \<and> vs = [VNum x] \<and> x < 0
      \<longrightarrow> ExecuteFunction L gb ''sqrt'' args w = (Ret (VErr SqrtOfNegative), w))
   \<and> (map_of (gb_functions gb) ''array_get'' = Some F_arrayGet \<and> vs = [VSlice l n c, VNum i]
        \<and> (toInt L i < 0 \<or> int n \<le> toInt L i)
      \<longrightarrow> ExecuteFunction L gb ''array_get'' args w = (Ret (VErr IndexOutOfRange), w))
   \<and> (- (2 ^ 63) \<le> i \<and> i < 2 ^ 63 \<and> (i \<le> - 1 \<or> real n \<le> i)
      \<longrightarrow> toInt L i < 0 \<or> int n \<le> toInt L i)
   \<and> (map_of (gb_functions gb) nm = Some f \<and> f \<in> listOperations \<and> vs = v # rest
        \<and> \<not> isSlice v \<and> required f \<le> length vs
      \<longrightarrow> (\<exists>e. ExecuteFunction L gb nm args w = (Ret (VErr e), w)))
   \<and> (map_of (gb_functions gb) nm = Some f \<and> length vs < required f
      \<longrightarrow> ExecuteFunction L gb nm args w = (Ret (defaultResult f), w)
          \<and> \<not> isError (defaultResult f))
   \<and> required F_add = 2 \<and> defaultResult F_add = VNum 0
   \<and> (map_of (gb_functions gb) ''add'' = Some F_add \<and> vs = [VNum 2, VNum 3]
      \<longrightarrow> ExecuteFunction L gb ''add'' args w = (Ret (VNum 5), w))"
proof -
  have 1: "map_of (gb_functions gb) ''divide'' = Some F_divide \<and> vs = [a, VNum 0]
      \<longrightarrow> ExecuteFunction L gb ''divide'' args w = (Ret (VErr DivisionByZero), w)"
    using assms divide_by_zero [of gb w args a L] by simp
  have 2: "map_of (gb_functions gb) ''sqrt'' = Some F_sqrt \<and> vs = [VNum x] \<and> x < 0
      \<longrightarrow> ExecuteFunction L gb ''sqrt'' args w = (Ret (VErr SqrtOfNegative), w)"
    using assms
    by (simp add: ExecuteFunction_def invoke_def gb_sqrt_def toNumber_def)
  have 3: "map_of (gb_functions gb) ''array_get'' = Some F_arrayGet \<and> vs = [VSlice l n c, VNum i]
        \<and> (toInt L i < 0 \<or> int n \<le> toInt L i)
      \<longrightarrow> ExecuteFunction L gb ''array_get'' args w = (Ret (VErr IndexOutOfRange), w)"
    using assms
    by (auto simp add: ExecuteFunction_def invoke_def gb_arrayGet_def toNumber_def Let_def)
  have 4: "- (2 ^ 63) \<le> i \<and> i < 2 ^ 63 \<and> (i \<le> - 1 \<or> real n \<le> i)
      \<longrightarrow> toInt L i < 0 \<or> int n \<le> toInt L i"
    using toInt_outside [of i n L] by blast
  have 5: "map_of (gb_functions gb) nm = Some f \<and> f \<in> listOperations \<and> vs = v # rest
        \<and> \<not> isSlice v \<and> required f \<le> length vs
      \<longrightarrow> (\<exists>e. ExecuteFunction L gb nm args w = (Ret (VErr e), w))"
    using assms invoke_not_list [of f w args v rest L]
    by (auto simp add: ExecuteFunction_bound)
  have 6: "map_of (gb_functions gb) nm = Some f \<and> length vs < required f
      \<longrightarrow> ExecuteFunction L gb nm args w = (Ret (defaultResult f), w)
          \<and> \<not> isError (defaultResult f)"
    using assms invoke_short [of w args f L] defaultResult_no_error [of f]
    by (auto simp add: ExecuteFunction_bound)
  have 7: "required F_add = 2 \<and> defaultResult F_add = VNum 0"
    by (simp add: required_def defaultResult_def)
  have 8: "map_of (gb_functions gb) ''add'' = Some F_add \<and> vs = [VNum 2, VNum 3]
      \<longrightarrow> ExecuteFunction L gb ''add'' args w = (Ret (VNum 5), w)"
    using assms
    by (simp add: ExecuteFunction_def invoke_def gb_add_def toNumber_def)
  from 1 2 3 4 5 6 7 8 show ?thesis by blast
qed

theorem backend_edge_policies_witness:
  "ExecuteFunction exampleLib exampleBackend ''divide'' (VSlice 1 2 2) backendWorld
     = (Ret (VErr DivisionByZero), backendWorld)
   \<and> ExecuteFunction exampleLib exampleBackend ''sqrt'' (VSlice 2 1 1) backendWorld
     = (Ret (VErr SqrtOfNegative), backendWorld)
   \<and> ExecuteFunction exampleLib exampleBackend ''array_get'' (VSlice 3 2 2) backendWorld
     = (Ret (VErr IndexOutOfRange), backendWorld)
   \<and> (toInt exampleLib 5 < 0 \<or> int 3 \<le> toInt exampleLib 5)
   \<and> (\<exists>e. ExecuteFunction exampleLib exampleBackend ''array_get'' (VSlice 4 2 2) backendWorld
            = (Ret (VErr e), backendWorld))
   \<and> ExecuteFunction exampleLib exampleBackend ''add'' (VSlice 6 1 1) backendWorld
     = (Ret (VNum 0), backendWorld)
   \<and> ExecuteFunction exampleLib exampleBackend ''add'' (VSlice 5 2 2) backendWorld
     = (Ret (VNum 5), backendWorld)"
proof -
  have reg: "map_of (gb_functions exampleBackend) ''divide'' = Some F_divide"
    "map_of (gb_functions exampleBackend) ''sqrt'' = Some F_sqrt"
    "map_of (gb_functions exampleBackend) ''array_get'' = Some F_arrayGet"
    "map_of (gb_functions exampleBackend) ''add'' = Some F_add"
    by (simp_all add: exampleBackend_def)
  have s1: "sliceElems (heap backendWorld) (VSlice 1 2 2) = [VNum 10, VNum 0]"
    and s2: "sliceElems (heap backendWorld) (VSlice 2 1 1) = [VNum (- 4)]"
    and s3: "sliceElems (heap backendWorld) (VSlice 3 2 2) = [VSlice 0 3 3, VNum 5]"
    and s4: "sliceElems (heap backendWorld) (VSlice 4 2 2) = [VStr ''x'', VNum 1]"
    and s5: "sliceElems (heap backendWorld) (VSlice 5 2 2) = [VNum 2, VNum 3]"
    and s6: "sliceElems (heap backendWorld) (VSlice 6 1 1) = [VNum 2]"
    by (simp_all add: backendWorld_def exampleWorld_def cell_def)
  have i5: "- (2 ^ 63) \<le> (5::real) \<and> (5::real) < 2 ^ 63 \<and> ((5::real) \<le> - 1 \<or> real 3 \<le> 5)"
    by simp
  have lo: "F_arrayGet \<in> listOperations" "\<not> isSlice (VStr ''x'')"
    "required F_arrayGet \<le> length [VStr ''x'', VNum 1]"
    "length [VNum 2] < required F_add"
    by (simp_all add: listOperations_def required_def)
  have a: "ExecuteFunction exampleLib exampleBackend ''divide'' (VSlice 1 2 2) backendWorld
     = (Ret (VErr DivisionByZero), backendWorld)"
    using backend_edge_policies [OF s1, of exampleBackend "VNum 10" exampleLib] reg by blast
  have b: "ExecuteFunction exampleLib exampleBackend ''sqrt'' (VSlice 2 1 1) backendWorld
     = (Ret (VErr SqrtOfNegative), backendWorld)"
    using backend_edge_policies [OF s2, of exampleBackend _ exampleLib "- 4"] reg by simp
  have d: "toInt exampleLib 5 < 0 \<or> int 3 \<le> toInt exampleLib 5"
    using backend_edge_policies [OF s3, of exampleBackend _ exampleLib _ 0 3 3 5] i5 by blast
  have c: "ExecuteFunction exampleLib exampleBackend ''array_get'' (VSlice 3 2 2) backendWorld
     = (Ret (VErr IndexOutOfRange), backendWorld)"
    using backend_edge_policies [OF s3, of exampleBackend _ exampleLib _ 0 3 3 5] reg d by blast
  have e: "\<exists>e. ExecuteFunction exampleLib exampleBackend ''array_get'' (VSlice 4 2 2) backendWorld
            = (Ret (VErr e), backendWorld)"
    using backend_edge_policies [OF s4, of exampleBackend _ exampleLib _ _ _ _ _
        "''array_get''" F_arrayGet "VStr ''x''" "[VNum 1]"] reg lo
    by blast
  have f: "ExecuteFunction exampleLib exampleBackend ''add'' (VSlice 6 1 1) backendWorld
     = (Ret (VNum 0), backendWorld)"
    using backend_edge_policies [OF s6, of exampleBackend _ exampleLib _ _ _ _ _
        "''add''" F_add] reg lo
    by (simp add: defaultResult_def)
  have g: "ExecuteFunction exampleLib exampleBackend ''add'' (VSlice 5 2 2) backendWorld
     = (Ret (VNum 5), backendWorld)"
    using backend_edge_policies [OF s5, of exampleBackend _ exampleLib] reg by blast
  from a b c d e f g show ?thesis by blast
qed

subsection \<open>C8: value coercion\<close>

text \<open>
  C8. \<open>toNumber\<close> passes a number through, gives a string what \<open>strconv.ParseFloat\<close>
  parses and 0 when it fails, maps true and false to 1 and 0, and gives 0 for any other
  value. \<open>toString\<close> passes a string through, formats a number with
  \<open>strconv.FormatFloat(v, 'f', -1, 64)\<close>, the shortest decimal form, and maps the
  booleans to \<open>true\<close> and \<open>false\<close>. \<open>toBoolean\<close> passes a boolean through, is true
  for a string exactly when it is one of \<open>true\<close>, \<open>1\<close>, \<open>yes\<close>, \<open>on\<close>, is true for a
  number exactly when it is not zero, and otherwise tells whether the value is not nil.
\<close>

theorem coercion_rules:
  "toNumber L (VNum x) = x
   \<and> toNumber L (VInt i) = of_int i
   \<and> (strconv_ParseFloat L s = Some f \<longrightarrow> toNumber L (VStr s) = f)
   \<and> (strconv_ParseFloat L s = None \<longrightarrow> toNumber L (VStr s) = 0)
   \<and> toNumber L (VBool True) = 1 \<and> toNumber L (VBool False) = 0
   \<and> toNumber L VNil = 0 \<and> toNumber L (VErr e) = 0 \<and> toNumber L (VSlice a n c) = 0
   \<and> toNumber L (VMap m) = 0
   \<and> toString L h (VStr s) = s
   \<and> toString L h (VNum x) = strconv_FormatFloat L x
   \<and> toString L h (VBool True) = ''true'' \<and> toString L h (VBool False) = ''false''
   \<and> toBoolean (VBool b) = b
   \<and> toBoolean (VStr s) = (s \<in> {''true'', ''1'', ''yes'', ''on''})
   \<and> toBoolean (VNum x) = (x \<noteq> 0)
   \<and> toBoolean (VInt i) = (i \<noteq> 0)
   \<and> toBoolean VNil = False \<and> toBoolean (VErr e) \<and> toBoolean (VSlice a n c)
   \<and> toBoolean (VMap m)"
  by (simp add: toNumber_def toString_def toBoolean_def)

text \<open>
  With a library that parses \<open>3.5\<close>, rejects \<open>abc\<close> and formats 3 as \<open>3\<close>, as Go's
  does: \<open>toNumber("3.5") = 3.5\<close>, \<open>toNumber("abc") = 0\<close>, \<open>toString(3.0) = "3"\<close>,
  \<open>toBoolean("yes")\<close> is true and \<open>toBoolean("no")\<close> is false.
\<close>

theorem coercion_rules_witness:
  "strconv_ParseFloat exampleLib ''3.5'' = Some (7 / 2)
   \<and> toNumber exampleLib (VStr ''3.5'') = 7 / 2
   \<and> strconv_ParseFloat exampleLib ''abc'' = None
   \<and> toNumber exampleLib (VStr ''abc'') = 0
   \<and> toString exampleLib [] (VNum 3) = ''3''
   \<and> toBoolean (VStr ''yes'') \<and> \<not> toBoolean (VStr ''no'')"
proof -
  have p1: "strconv_ParseFloat exampleLib ''3.5'' = Some (7 / 2)"
    by (simp add: exampleLib_def)
  have p2: "strconv_ParseFloat exampleLib ''abc'' = None"
    by (simp add: exampleLib_def)
  have p3: "strconv_FormatFloat exampleLib 3 = ''3''"
    by (simp add: exampleLib_def)
  from coercion_rules [of exampleLib "7 / 2" 0 "''3.5''" "7 / 2"] p1
  have a: "toNumber exampleLib (VStr ''3.5'') = 7 / 2" by blast
  from coercion_rules [of exampleLib 0 0 "''abc''" 0] p2
  have b: "toNumber exampleLib (VStr ''abc'') = 0" by blast
  from coercion_rules [of exampleLib 3 0 "''yes''" 0 _ _ _ _ _ "[]"] p3
  have c: "toString exampleLib [] (VNum 3) = ''3''" and d: "toBoolean (VStr ''yes'')"
    by simp_all
  from coercion_rules [of exampleLib 3 0 "''no''" 0]
  have e: "\<not> toBoolean (VStr ''no'')" by simp
  from p1 p2 a b c d e show ?thesis by blast
qed

subsection \<open>C9: array_sort copies\<close>

text \<open>
  C9. On a backend whose registry binds \<open>array_sort\<close> to \<open>arraySort\<close>, for every list
  given as the first argument the call returns a slice of the same length on a backing
  array that did not exist before, holding the elements of the argument in the same
  order; every array that existed before, the argument's among them, is as it was, and
  so is the rest of the world.
\<close>

theorem array_sort_copies:
  assumes "map_of (gb_functions gb) ''array_sort'' = Some F_arraySort"
    and "sliceElems (heap w) args = VSlice a n c # rest"
    and "validSlice (heap w) (VSlice a n c)"
  shows "\<exists>b w'. ExecuteFunction L gb ''array_sort'' args w = (Ret (VSlice b n n), w')
          \<and> length (heap w) \<le> b
          \<and> validSlice (heap w') (VSlice b n n)
          \<and> sliceElems (heap w') (VSlice b n n) = sliceElems (heap w) (VSlice a n c)
          \<and> length (sliceElems (heap w') (VSlice b n n)) = n
          \<and> take (length (heap w)) (heap w') = heap w
          \<and> out w' = out w \<and> reads w' = reads w \<and> ext w' = ext w"
proof -
  let ?h = "heap w"
  from assms(3) have a: "a < length ?h" and n: "n \<le> length (?h ! a)" by simp_all
  have run: "ExecuteFunction L gb ''array_sort'' args w
      = (Ret (VSlice (length ?h) n n), w\<lparr>heap := ?h @ [take n (?h ! a)]\<rparr>)"
    using assms(1,2) a n
    by (simp add: ExecuteFunction_def invoke_def gb_arraySort_def alloc_def copySlice_def
        cell_def nth_append min_def)
  show ?thesis
    unfolding run using a n by (simp add: cell_def nth_append min_def)
qed

text \<open>Sorting the list \<open>[3, 1, 2]\<close> returns \<open>[3, 1, 2]\<close> on a new array.\<close>

theorem array_sort_copies_witness:
  "\<exists>b w'. ExecuteFunction exampleLib exampleBackend ''array_sort'' (VSlice 1 1 1)
             (exampleWorld [[VNum 3, VNum 1, VNum 2], [VSlice 0 3 3]] [])
             = (Ret (VSlice b 3 3), w')
          \<and> 2 \<le> b
          \<and> sliceElems (heap w') (VSlice b 3 3) = [VNum 3, VNum 1, VNum 2]
          \<and> take 2 (heap w') = [[VNum 3, VNum 1, VNum 2], [VSlice 0 3 3]]"
proof -
  let ?w = "exampleWorld [[VNum 3, VNum 1, VNum 2], [VSlice 0 3 3]] []"
  have 1: "map_of (gb_functions exampleBackend) ''array_sort'' = Some F_arraySort"
    by (simp add: exampleBackend_def)
  have 2: "sliceElems (heap ?w) (VSlice 1 1 1) = VSlice 0 3 3 # []"
    by (simp add: exampleWorld_def cell_def)
  have 3: "validSlice (heap ?w) (VSlice 0 3 3)"
    by (simp add: exampleWorld_def)
  have 4: "sliceElems (heap ?w) (VSlice 0 3 3) = [VNum 3, VNum 1, VNum 2]"
    by (simp add: exampleWorld_def cell_def)
  have 5: "length (heap ?w) = 2" "heap ?w = [[VNum 3, VNum 1, VNum 2], [VSlice 0 3 3]]"
    by (simp_all add: exampleWorld_def)
  from array_sort_copies [OF 1 2 3, of exampleLib] obtain b w' where
    r: "ExecuteFunction exampleLib exampleBackend ''array_sort'' (VSlice 1 1 1) ?w
          = (Ret (VSlice b 3 3), w')"
      "length (heap ?w) \<le> b"
      "sliceElems (heap w') (VSlice b 3 3) = sliceElems (heap ?w) (VSlice 0 3 3)"
      "take (length (heap ?w)) (heap w') = heap ?w"
    by blast
  from r(2) have "2 \<le> b" by (simp add: 5(1))
  moreover from r(3) have "sliceElems (heap w') (VSlice b 3 3) = [VNum 3, VNum 1, VNum 2]"
    by (simp only: 4)
  moreover from r(4) have "take 2 (heap w') = [[VNum 3, VNum 1, VNum 2], [VSlice 0 3 3]]"
    by (simp add: 5 numeral_2_eq_2)
  ultimately show ?thesis using r(1) by blast
qed

subsection \<open>C10: array_pop reads the last element\<close>

text \<open>
  C10. On a backend whose registry binds \<open>array_pop\<close> to \<open>arrayPop\<close>: for a non-empty
  list the call returns the list's last element and leaves the world, the list in it,
  as it was; for an empty list it returns an Error; with no argument it returns nil.
\<close>

theorem array_pop_reads_last:
  assumes "map_of (gb_functions gb) ''array_pop'' = Some F_arrayPop"
    and "sliceElems (heap w) args = vs"
  shows "(vs = VSlice a n c # rest \<and> validSlice (heap w) (VSlice a n c) \<and> 0 < n
            \<longrightarrow> ExecuteFunction L gb ''array_pop'' args w
                  = (Ret (last (sliceElems (heap w) (VSlice a n c))), w))
       \<and> (vs = VSlice a 0 c # rest
            \<longrightarrow> ExecuteFunction L gb ''array_pop'' args w = (Ret (VErr ArrayEmpty), w))
       \<and> (vs = [] \<longrightarrow> ExecuteFunction L gb ''array_pop'' args w = (Ret VNil, w))"
  using assms
  by (auto simp add: ExecuteFunction_def invoke_def gb_arrayPop_def elemAt_def cell_def
      take_nth_last)

theorem array_pop_reads_last_witness:
  "ExecuteFunction exampleLib exampleBackend ''array_pop'' (VSlice 7 1 1) backendWorld
     = (Ret (VNum 3), backendWorld)
   \<and> sliceElems (heap backendWorld) (VSlice 0 3 3) = [VNum 1, VNum 2, VNum 3]
   \<and> ExecuteFunction exampleLib exampleBackend ''array_pop'' (VSlice 9 1 1) backendWorld
     = (Ret (VErr ArrayEmpty), backendWorld)
   \<and> ExecuteFunction exampleLib exampleBackend ''array_pop'' (VSlice 10 0 0) backendWorld
     = (Ret VNil, backendWorld)"
proof -
  have reg: "map_of (gb_functions exampleBackend) ''array_pop'' = Some F_arrayPop"
    by (simp add: exampleBackend_def)
  have s7: "sliceElems (heap backendWorld) (VSlice 7 1 1) = [VSlice 0 3 3]"
    and s9: "sliceElems (heap backendWorld) (VSlice 9 1 1) = [VSlice 0 0 0]"
    and s10: "sliceElems (heap backendWorld) (VSlice 10 0 0) = []"
    and l: "sliceElems (heap backendWorld) (VSlice 0 3 3) = [VNum 1, VNum 2, VNum 3]"
    and v: "validSlice (heap backendWorld) (VSlice 0 3 3)"
    by (simp_all add: backendWorld_def exampleWorld_def cell_def)
  have a: "ExecuteFunction exampleLib exampleBackend ''array_pop'' (VSlice 7 1 1) backendWorld
     = (Ret (last (sliceElems (heap backendWorld) (VSlice 0 3 3))), backendWorld)"
    using array_pop_reads_last [OF reg s7, of 0 3 3 "[]" exampleLib] v by simp
  have b: "ExecuteFunction exampleLib exampleBackend ''array_pop'' (VSlice 9 1 1) backendWorld
     = (Ret (VErr ArrayEmpty), backendWorld)"
    using array_pop_reads_last [OF reg s9, of 0 _ 0 "[]" exampleLib] by simp
  have c: "ExecuteFunction exampleLib exampleBackend ''array_pop'' (VSlice 10 0 0) backendWorld
     = (Ret VNil, backendWorld)"
    using array_pop_reads_last [OF reg s10, of _ _ _ _ exampleLib] by simp
  from a b c l show ?thesis by simp
qed

end
